theory Spec2Isabelle
  imports Main "HOL-Library.Word" "HOL-Library.Signed_Division"
begin

unbundle bit_operations_syntax

section \<open>ADC driver of the DIM board (src/src/peripherals/adc.c)\<close>

text \<open>
  The driver is a sequence of volatile register accesses on the ADC1 peripheral, busy-wait
  loops with an iteration ceiling, a median filter over nine raw samples and integer
  conversions to physical units. The embedding keeps this shape:
  \<^item> 32-bit C values are \<open>32 word\<close>; \<open>int8_t\<close> is \<open>8 word\<close>, read with \<open>sint\<close>;
  \<^item> the peripheral is an environment: the value a volatile read returns is given by
    the environment at the number of reads done so far, so every sequence of observed
    register values is some environment; writes and collaborator calls are appended to
    a trace;
  \<^item> a status code is a value; a division by zero and an out-of-range array access are
    a \<open>fault\<close>, the left summand of the result.
\<close>

type_synonym u32 = "32 word"
type_synonym s8 = "8 word"

subsection \<open>Status codes\<close>

text \<open>\<open>LPTIM_status_t\<close> of inc/peripherals/lptim.h, without the base marker.\<close>

datatype LPTIM_status_t =
  LPTIM_SUCCESS
| LPTIM_ERROR_DELAY_UNDERFLOW
| LPTIM_ERROR_DELAY_OVERFLOW
| LPTIM_ERROR_WRITE_ARR

text \<open>
  Modelled from the spec: math.h is not among the sources. The median filter
  "fails if center_window > count or count is even/invalid"; one error code stands
  for that failure.
\<close>

datatype MATH_status_t =
  MATH_SUCCESS
| MATH_ERROR_MEDIAN_FILTER

text \<open>
  Modelled from the spec: adc.h is not among the sources. The codes are those that
  adc.c assigns; \<open>ADC_ERROR_BASE_LPTIM + lptim1_status\<close> and
  \<open>ADC_ERROR_BASE_MATH + math_status\<close> are the two wrapping constructors.
\<close>

datatype ADC_status_t =
  ADC_SUCCESS
| ADC_ERROR_NULL_PARAMETER
| ADC_ERROR_CHANNEL
| ADC_ERROR_TIMEOUT
| ADC_ERROR_CALIBRATION
| ADC_ERROR_DATA_INDEX
| ADC_ERROR_BASE_LPTIM LPTIM_status_t
| ADC_ERROR_BASE_MATH MATH_status_t

datatype fault = DivisionByZero | OutOfBounds

subsection \<open>Local macros and enumerations of adc.c\<close>

definition ADC_MEDIAN_FILTER_SIZE :: nat where "ADC_MEDIAN_FILTER_SIZE = 9"
definition ADC_CENTER_AVERAGE_SIZE :: nat where "ADC_CENTER_AVERAGE_SIZE = 3"
definition ADC_FULL_SCALE_12BITS :: u32 where "ADC_FULL_SCALE_12BITS = 4095"
definition ADC_VMCU_DEFAULT_MV :: u32 where "ADC_VMCU_DEFAULT_MV = 3300"
definition ADC_TIMEOUT_COUNT :: nat where "ADC_TIMEOUT_COUNT = 1000000"
definition ADC_VOLTAGE_DIVIDER_RATIO_VUSB :: u32 where "ADC_VOLTAGE_DIVIDER_RATIO_VUSB = 2"
definition ADC_VOLTAGE_DIVIDER_RATIO_VRS :: u32 where "ADC_VOLTAGE_DIVIDER_RATIO_VRS = 2"

text \<open>\<open>ADC_channel_t\<close>: a C enumeration is an integer, and a caller can pass any value.\<close>

definition ADC_CHANNEL_VRS :: nat where "ADC_CHANNEL_VRS = 4"
definition ADC_CHANNEL_VUSB :: nat where "ADC_CHANNEL_VUSB = 5"
definition ADC_CHANNEL_VREFINT :: nat where "ADC_CHANNEL_VREFINT = 17"
definition ADC_CHANNEL_TMCU :: nat where "ADC_CHANNEL_TMCU = 18"
definition ADC_CHANNEL_LAST :: nat where "ADC_CHANNEL_LAST = 19"

text \<open>
  Modelled from the spec: \<open>ADC_data_index_t\<close> is declared in adc.h, which is not among
  the sources. The spec lists the measurement kinds as "supply voltage, USB voltage,
  sense-resistor voltage"; adc.c uses exactly these three and the end marker.
\<close>

definition ADC_DATA_INDEX_VMCU_MV :: nat where "ADC_DATA_INDEX_VMCU_MV = 0"
definition ADC_DATA_INDEX_VUSB_MV :: nat where "ADC_DATA_INDEX_VUSB_MV = 1"
definition ADC_DATA_INDEX_VRS_MV :: nat where "ADC_DATA_INDEX_VRS_MV = 2"
definition ADC_DATA_INDEX_LAST :: nat where "ADC_DATA_INDEX_LAST = 3"

text \<open>
  The factory calibration values and the calibration constants come from adc_reg.h,
  which is not among the sources: they are parameters. Each field is the value of the
  macro after C's integer promotion to 32 bits.
\<close>

record ADC_calibration =
  VREFINT_CAL :: u32
  VREFINT_VCC_CALIB_MV :: u32
  TS_CAL1 :: u32
  TS_CAL2 :: u32
  TS_CAL1_TEMP :: u32
  TS_CAL2_TEMP :: u32
  TS_VCC_CALIB_MV :: u32

subsection \<open>The context\<close>

record ADC_context_t =
  vrefint_12bits :: u32
  data :: "u32 list"
  tmcu_degrees :: s8

subsection \<open>The peripheral\<close>

datatype reg = ISR | CR | CFGR2 | SMPR | CHSELR | DR | CCR | RCC_APB2ENR

datatype gpio_pin = GPIO_ADC1_IN4 | GPIO_ADC1_IN5 | GPIO_MNTR_EN

datatype gpio_mode = GPIO_MODE_ANALOG | GPIO_MODE_OUTPUT
datatype gpio_type = GPIO_TYPE_OPEN_DRAIN | GPIO_TYPE_PUSH_PULL

datatype hw_event =
  RegWrite reg u32
| GpioConfigure gpio_pin gpio_mode gpio_type
| GpioWrite gpio_pin nat
| DelayMs nat nat

text \<open>
  \<open>reg_value env t r\<close> is what register \<open>r\<close> shows at the \<open>t\<close>-th volatile read of the
  run; \<open>delay_status env t\<close> is what the delay collaborator returns when called after
  \<open>t\<close> reads. \<open>hw1_1\<close> is the compile-time switch \<open>HW1_1\<close>.
\<close>

record hw_env =
  reg_value :: "nat \<Rightarrow> reg \<Rightarrow> u32"
  delay_status :: "nat \<Rightarrow> LPTIM_status_t"
  hw1_1 :: bool

record hw_state =
  reads :: nat
  trace :: "hw_event list"

definition reg_read :: "hw_env \<Rightarrow> reg \<Rightarrow> hw_state \<Rightarrow> u32 \<times> hw_state" where
  "reg_read env r h = (reg_value env (reads h) r, h\<lparr>reads := Suc (reads h)\<rparr>)"

definition emit :: "hw_event \<Rightarrow> hw_state \<Rightarrow> hw_state" where
  "emit e h = h\<lparr>trace := trace h @ [e]\<rparr>"

text \<open>\<open>REG |= m\<close> and \<open>REG &= m\<close>: one volatile read, one volatile write.\<close>

definition reg_or :: "hw_env \<Rightarrow> reg \<Rightarrow> u32 \<Rightarrow> hw_state \<Rightarrow> hw_state" where
  "reg_or env r m h = (case reg_read env r h of (v, h1) \<Rightarrow> emit (RegWrite r (v OR m)) h1)"

definition reg_and :: "hw_env \<Rightarrow> reg \<Rightarrow> u32 \<Rightarrow> hw_state \<Rightarrow> hw_state" where
  "reg_and env r m h = (case reg_read env r h of (v, h1) \<Rightarrow> emit (RegWrite r (v AND m)) h1)"

definition LPTIM1_delay_milliseconds ::
  "hw_env \<Rightarrow> nat \<Rightarrow> nat \<Rightarrow> hw_state \<Rightarrow> LPTIM_status_t \<times> hw_state" where
  "LPTIM1_delay_milliseconds env delay_ms stop_mode h =
     (delay_status env (reads h), emit (DelayMs delay_ms stop_mode) h)"

definition GPIO_configure :: "gpio_pin \<Rightarrow> gpio_mode \<Rightarrow> gpio_type \<Rightarrow> hw_state \<Rightarrow> hw_state" where
  "GPIO_configure p m t h = emit (GpioConfigure p m t) h"

definition GPIO_write :: "gpio_pin \<Rightarrow> nat \<Rightarrow> hw_state \<Rightarrow> hw_state" where
  "GPIO_write p v h = emit (GpioWrite p v) h"

subsection \<open>Busy-wait loops\<close>

text \<open>
  The three loops of adc.c have one shape:
  \<^verbatim>\<open>while (cond) { loop_count++; if (loop_count > ADC_TIMEOUT_COUNT) { timeout } }\<close>
  \<open>busy_wait\<close> returns whether the loop timed out, the final \<open>loop_count\<close> and the
  state. \<open>loop_count\<close> starts at 0 and stops at 1000001, far below \<open>2 ^ 32\<close>, so it
  is a \<open>nat\<close>.
\<close>

function busy_wait ::
  "(hw_state \<Rightarrow> bool \<times> hw_state) \<Rightarrow> nat \<Rightarrow> hw_state \<Rightarrow> bool \<times> nat \<times> hw_state" where
  "busy_wait cond loop_count h =
     (case cond h of (c, h1) \<Rightarrow>
        if c then
          (if Suc loop_count > ADC_TIMEOUT_COUNT then (True, Suc loop_count, h1)
           else busy_wait cond (Suc loop_count) h1)
        else (False, loop_count, h1))"
  by pat_completeness auto
termination
  by (relation "measure (\<lambda>(cond, loop_count, h). Suc ADC_TIMEOUT_COUNT - loop_count)") auto

declare busy_wait.simps [simp del]

text \<open>\<open>((ADC1 -> ISR) & (0b1 << 2)) == 0\<close>\<close>

definition eoc_clear :: "hw_env \<Rightarrow> hw_state \<Rightarrow> bool \<times> hw_state" where
  "eoc_clear env h = (case reg_read env ISR h of (v, h1) \<Rightarrow> (v AND push_bit 2 1 = 0, h1))"

text \<open>\<open>((ADC1 -> ISR) & (0b1 << 0)) == 0\<close>\<close>

definition adrdy_clear :: "hw_env \<Rightarrow> hw_state \<Rightarrow> bool \<times> hw_state" where
  "adrdy_clear env h = (case reg_read env ISR h of (v, h1) \<Rightarrow> (v AND push_bit 0 1 = 0, h1))"

text \<open>
  \<open>(((ADC1 -> CR) & (0b1 << 31)) != 0) && (((ADC1 -> ISR) & (0b1 << 11)) == 0)\<close>:
  the right operand is read only when the left one holds.
\<close>

definition calibrating :: "hw_env \<Rightarrow> hw_state \<Rightarrow> bool \<times> hw_state" where
  "calibrating env h =
     (case reg_read env CR h of (v, h1) \<Rightarrow>
        if v AND push_bit 31 1 \<noteq> 0
        then (case reg_read env ISR h1 of (w, h2) \<Rightarrow> (w AND push_bit 11 1 = 0, h2))
        else (False, h1))"

subsection \<open>Single and filtered conversion\<close>

text \<open>
  An output pointer is an option: \<open>None\<close> is \<open>NULL\<close>, \<open>Some v\<close> a slot that holds \<open>v\<close>.
  The function returns the slot as it leaves it.
\<close>

definition ADC1_single_conversion ::
  "hw_env \<Rightarrow> nat \<Rightarrow> u32 option \<Rightarrow> hw_state \<Rightarrow> ADC_status_t \<times> u32 option \<times> hw_state" where
  "ADC1_single_conversion env adc_channel adc_result_12bits h =
     (if adc_channel \<ge> ADC_CHANNEL_LAST then (ADC_ERROR_CHANNEL, adc_result_12bits, h)
      else case adc_result_12bits of
        None \<Rightarrow> (ADC_ERROR_NULL_PARAMETER, None, h)
      | Some old \<Rightarrow>
          let h1 = reg_and env CHSELR 0xFFF80000 h;
              h2 = reg_or env CHSELR (push_bit adc_channel 1) h1;
              h3 = reg_or env ISR 0x0000089F h2;
              h4 = reg_or env CR (push_bit 2 1) h3
          in case busy_wait (eoc_clear env) 0 h4 of (timeout, loop_count, h5) \<Rightarrow>
               if timeout then (ADC_ERROR_TIMEOUT, Some old, h5)
               else case reg_read env DR h5 of (v, h6) \<Rightarrow> (ADC_SUCCESS, Some v, h6))"

text \<open>
  Modelled from the spec: \<open>MATH_median_filter_u32\<close> is defined in math.c, which is not
  among the sources. "Sort samples, discard outliers, average a small centered window of
  the sorted values"; it "fails if center_window > count or count is even/invalid".
\<close>

definition MATH_median_filter_u32 ::
  "u32 list \<Rightarrow> nat \<Rightarrow> nat \<Rightarrow> u32 option \<Rightarrow> MATH_status_t \<times> u32 option" where
  "MATH_median_filter_u32 buf median_length average_length result =
     (if average_length > median_length \<or> even median_length
         \<or> median_length > length buf \<or> average_length = 0
      then (MATH_ERROR_MEDIAN_FILTER, result)
      else let sorted = sort (take median_length buf);
               start_idx = median_length div 2 - average_length div 2;
               window = take average_length (drop start_idx sorted)
           in (MATH_SUCCESS,
               map_option (\<lambda>_. of_nat (sum_list (map unat window) div average_length)) result))"

text \<open>The loop \<open>for (idx=0 ; idx<ADC_MEDIAN_FILTER_SIZE ; idx++)\<close> of the filtered conversion.\<close>

function conversions ::
  "hw_env \<Rightarrow> nat \<Rightarrow> nat \<Rightarrow> u32 list \<Rightarrow> hw_state \<Rightarrow> ADC_status_t \<times> u32 list \<times> hw_state" where
  "conversions env adc_channel idx adc_sample_buf h =
     (if idx < ADC_MEDIAN_FILTER_SIZE then
        (case ADC1_single_conversion env adc_channel (Some (adc_sample_buf ! idx)) h of
           (status, r, h1) \<Rightarrow>
             let buf1 = (case r of Some v \<Rightarrow> adc_sample_buf[idx := v] | None \<Rightarrow> adc_sample_buf)
             in if status \<noteq> ADC_SUCCESS then (status, buf1, h1)
                else conversions env adc_channel (Suc idx) buf1 h1)
      else (ADC_SUCCESS, adc_sample_buf, h))"
  by pat_completeness auto
termination
  by (relation "measure (\<lambda>(env, ch, idx, buf, h). ADC_MEDIAN_FILTER_SIZE - idx)") auto

declare conversions.simps [simp del]

definition ADC1_filtered_conversion ::
  "hw_env \<Rightarrow> nat \<Rightarrow> u32 option \<Rightarrow> hw_state \<Rightarrow> ADC_status_t \<times> u32 option \<times> hw_state" where
  "ADC1_filtered_conversion env adc_channel adc_result_12bits h =
     (if adc_channel \<ge> ADC_CHANNEL_LAST then (ADC_ERROR_CHANNEL, adc_result_12bits, h)
      else case adc_result_12bits of
        None \<Rightarrow> (ADC_ERROR_NULL_PARAMETER, None, h)
      | Some old \<Rightarrow>
          (case conversions env adc_channel 0 (replicate ADC_MEDIAN_FILTER_SIZE 0) h of
             (status, adc_sample_buf, h1) \<Rightarrow>
               if status \<noteq> ADC_SUCCESS then (status, Some old, h1)
               else case MATH_median_filter_u32 adc_sample_buf ADC_MEDIAN_FILTER_SIZE
                           ADC_CENTER_AVERAGE_SIZE (Some old) of
                      (math_status, r) \<Rightarrow>
                        if math_status \<noteq> MATH_SUCCESS then (ADC_ERROR_BASE_MATH math_status, r, h1)
                        else (ADC_SUCCESS, r, h1)))"

subsection \<open>Conversions to physical units\<close>

text \<open>
  C's \<open>/\<close> on 32-bit operands: undefined for a zero divisor, so a fault here. The
  unsigned one is \<open>div\<close> on words; the signed one truncates toward zero.
\<close>

definition udiv32 :: "u32 \<Rightarrow> u32 \<Rightarrow> fault + u32" where
  "udiv32 a b = (if b = 0 then Inl DivisionByZero else Inr (a div b))"

definition sdiv32 :: "u32 \<Rightarrow> u32 \<Rightarrow> fault + u32" where
  "sdiv32 a b = (if b = 0 then Inl DivisionByZero else Inr (word_of_int (sint a sdiv sint b)))"

text \<open>
  \<open>#define ADC_VREFINT_VOLTAGE_MV ((VREFINT_CAL * VREFINT_VCC_CALIB_MV) / (ADC_FULL_SCALE_12BITS))\<close>:
  a division of \<open>int\<close> operands by the non-zero constant 4095.
\<close>

definition ADC_VREFINT_VOLTAGE_MV :: "ADC_calibration \<Rightarrow> u32" where
  "ADC_VREFINT_VOLTAGE_MV cal =
     word_of_int (sint (VREFINT_CAL cal * VREFINT_VCC_CALIB_MV cal) sdiv sint ADC_FULL_SCALE_12BITS)"

definition ADC1_compute_vrefint ::
  "hw_env \<Rightarrow> hw_state \<Rightarrow> ADC_context_t \<Rightarrow> ADC_status_t \<times> hw_state \<times> ADC_context_t" where
  "ADC1_compute_vrefint env h ctx =
     (case ADC1_filtered_conversion env ADC_CHANNEL_VREFINT (Some (vrefint_12bits ctx)) h of
        (status, r, h1) \<Rightarrow>
          (status, h1, case r of Some v \<Rightarrow> ctx\<lparr>vrefint_12bits := v\<rparr> | None \<Rightarrow> ctx))"

definition ADC1_compute_vmcu :: "ADC_calibration \<Rightarrow> ADC_context_t \<Rightarrow> fault + ADC_context_t" where
  "ADC1_compute_vmcu cal ctx =
     (case udiv32 (VREFINT_CAL cal * VREFINT_VCC_CALIB_MV cal) (vrefint_12bits ctx) of
        Inl f \<Rightarrow> Inl f
      | Inr q \<Rightarrow> Inr (ctx\<lparr>data := (data ctx)[ADC_DATA_INDEX_VMCU_MV := q]\<rparr>))"

definition ADC1_compute_tmcu ::
  "ADC_calibration \<Rightarrow> hw_env \<Rightarrow> hw_state \<Rightarrow> ADC_context_t
     \<Rightarrow> fault + (ADC_status_t \<times> hw_state \<times> ADC_context_t)" where
  "ADC1_compute_tmcu cal env h ctx =
     (case ADC1_filtered_conversion env ADC_CHANNEL_TMCU (Some 0) h of
        (status, r, h1) \<Rightarrow>
          if status \<noteq> ADC_SUCCESS then Inr (status, h1, ctx)
          else
            let raw_temp_sensor_12bits = (case r of Some v \<Rightarrow> v | None \<Rightarrow> 0) in
            (case udiv32 (raw_temp_sensor_12bits * (data ctx ! ADC_DATA_INDEX_VMCU_MV))
                    (TS_VCC_CALIB_MV cal) of
               Inl f \<Rightarrow> Inl f
             | Inr q \<Rightarrow>
                 (let raw_temp_calib_mv = q - TS_CAL1 cal;
                      temp_calib_degrees = raw_temp_calib_mv * (TS_CAL2_TEMP cal - TS_CAL1_TEMP cal)
                  in (case sdiv32 temp_calib_degrees (TS_CAL2 cal - TS_CAL1 cal) of
                        Inl f \<Rightarrow> Inl f
                      | Inr d \<Rightarrow>
                          Inr (status, h1,
                               ctx\<lparr>tmcu_degrees := ucast (d + TS_CAL1_TEMP cal)\<rparr>)))))"

definition ADC1_compute_vusb ::
  "ADC_calibration \<Rightarrow> hw_env \<Rightarrow> hw_state \<Rightarrow> ADC_context_t
     \<Rightarrow> fault + (ADC_status_t \<times> hw_state \<times> ADC_context_t)" where
  "ADC1_compute_vusb cal env h ctx =
     (case ADC1_filtered_conversion env ADC_CHANNEL_VUSB (Some 0) h of
        (status, r, h1) \<Rightarrow>
          if status \<noteq> ADC_SUCCESS then Inr (status, h1, ctx)
          else
            let vusb_12bits = (case r of Some v \<Rightarrow> v | None \<Rightarrow> 0) in
            (case udiv32 (ADC_VREFINT_VOLTAGE_MV cal * vusb_12bits * ADC_VOLTAGE_DIVIDER_RATIO_VUSB)
                    (vrefint_12bits ctx) of
               Inl f \<Rightarrow> Inl f
             | Inr q \<Rightarrow>
                 Inr (status, h1, ctx\<lparr>data := (data ctx)[ADC_DATA_INDEX_VUSB_MV := q]\<rparr>)))"

definition ADC1_compute_vrs ::
  "ADC_calibration \<Rightarrow> hw_env \<Rightarrow> hw_state \<Rightarrow> ADC_context_t
     \<Rightarrow> fault + (ADC_status_t \<times> hw_state \<times> ADC_context_t)" where
  "ADC1_compute_vrs cal env h ctx =
     (case ADC1_filtered_conversion env ADC_CHANNEL_VRS (Some 0) h of
        (status, r, h1) \<Rightarrow>
          if status \<noteq> ADC_SUCCESS then Inr (status, h1, ctx)
          else
            let vrs_12bits = (case r of Some v \<Rightarrow> v | None \<Rightarrow> 0) in
            (case udiv32 (ADC_VREFINT_VOLTAGE_MV cal * vrs_12bits * ADC_VOLTAGE_DIVIDER_RATIO_VRS)
                    (vrefint_12bits ctx) of
               Inl f \<Rightarrow> Inl f
             | Inr q \<Rightarrow>
                 Inr (status, h1, ctx\<lparr>data := (data ctx)[ADC_DATA_INDEX_VRS_MV := q]\<rparr>)))"

subsection \<open>Public functions\<close>

definition ADC1_init ::
  "hw_env \<Rightarrow> hw_state \<Rightarrow> ADC_context_t \<Rightarrow> ADC_status_t \<times> hw_state \<times> ADC_context_t" where
  "ADC1_init env h ctx =
     (let ctx1 = ctx\<lparr>vrefint_12bits := 0\<rparr>;
          ctx2 = ctx1\<lparr>data := fold (\<lambda>idx d. d[idx := 0]) [0..<ADC_DATA_INDEX_LAST] (data ctx1)\<rparr>;
          ctx3 = ctx2\<lparr>data := (data ctx2)[ADC_DATA_INDEX_VMCU_MV := ADC_VMCU_DEFAULT_MV]\<rparr>;
          ctx4 = ctx3\<lparr>tmcu_degrees := 0\<rparr>;
          h1 = GPIO_configure GPIO_ADC1_IN4 GPIO_MODE_ANALOG GPIO_TYPE_OPEN_DRAIN h;
          h2 = GPIO_configure GPIO_ADC1_IN5 GPIO_MODE_ANALOG GPIO_TYPE_OPEN_DRAIN h1;
          h3 = (if hw1_1 env then GPIO_configure GPIO_MNTR_EN GPIO_MODE_OUTPUT GPIO_TYPE_PUSH_PULL h2
                else h2);
          h4 = reg_or env RCC_APB2ENR (push_bit 9 1) h3
      in case reg_read env CR h4 of (v, h5) \<Rightarrow>
           let h6 = (if v AND push_bit 0 1 \<noteq> 0 then reg_or env CR (push_bit 1 1) h5 else h5);
               h7 = reg_or env CR (push_bit 28 1) h6
           in case LPTIM1_delay_milliseconds env 5 0 h7 of (lptim1_status, h8) \<Rightarrow>
                if lptim1_status \<noteq> LPTIM_SUCCESS
                then (ADC_ERROR_BASE_LPTIM lptim1_status, h8, ctx4)
                else
                  let h9 = reg_or env CFGR2 (push_bit 30 1) h8;
                      h10 = reg_or env SMPR (push_bit 0 7) h9;
                      h11 = reg_or env CR (push_bit 31 1) h10
                  in case busy_wait (calibrating env) 0 h11 of (timeout, loop_count, h12) \<Rightarrow>
                       (if timeout then ADC_ERROR_CALIBRATION else ADC_SUCCESS, h12, ctx4))"

text \<open>"Enable ADC peripheral": \<open>ADEN\<close> and the wait for \<open>ADRDY\<close>.\<close>

definition ADC1_enable :: "hw_env \<Rightarrow> hw_state \<Rightarrow> ADC_status_t \<times> hw_state" where
  "ADC1_enable env h =
     (let h1 = reg_or env CR (push_bit 0 1) h
      in case busy_wait (adrdy_clear env) 0 h1 of (timeout, loop_count, h2) \<Rightarrow>
           (if timeout then ADC_ERROR_TIMEOUT else ADC_SUCCESS, h2))"

text \<open>"Enable voltage dividers", "Wake-up VREFINT and temperature sensor" and the 100 ms wait.\<close>

definition ADC1_wake_up :: "hw_env \<Rightarrow> hw_state \<Rightarrow> LPTIM_status_t \<times> hw_state" where
  "ADC1_wake_up env h =
     (let h1 = (if hw1_1 env then GPIO_write GPIO_MNTR_EN 1 h else h);
          h2 = reg_or env CCR (push_bit 22 3) h1
      in LPTIM1_delay_milliseconds env 100 0 h2)"

text \<open>The statements of \<open>ADC1_perform_measurements\<close> before the label \<open>errors:\<close>.\<close>

definition ADC1_acquire ::
  "ADC_calibration \<Rightarrow> hw_env \<Rightarrow> hw_state \<Rightarrow> ADC_context_t
     \<Rightarrow> fault + (ADC_status_t \<times> hw_state \<times> ADC_context_t)" where
  "ADC1_acquire cal env h ctx =
     (case ADC1_enable env h of (status, h1) \<Rightarrow>
        if status \<noteq> ADC_SUCCESS then Inr (status, h1, ctx)
        else case ADC1_wake_up env h1 of (lptim1_status, h2) \<Rightarrow>
          if lptim1_status \<noteq> LPTIM_SUCCESS then Inr (ADC_ERROR_BASE_LPTIM lptim1_status, h2, ctx)
          else case ADC1_compute_vrefint env h2 ctx of (status, h3, ctx1) \<Rightarrow>
            if status \<noteq> ADC_SUCCESS then Inr (status, h3, ctx1)
            else
              (case ADC1_compute_vmcu cal ctx1 of
                 Inl f \<Rightarrow> Inl f
               | Inr ctx2 \<Rightarrow>
                   (case ADC1_compute_tmcu cal env h3 ctx2 of
                      Inl f \<Rightarrow> Inl f
                    | Inr (status, h4, ctx3) \<Rightarrow>
                        if status \<noteq> ADC_SUCCESS then Inr (status, h4, ctx3)
                        else
                          (case ADC1_compute_vusb cal env h4 ctx3 of
                             Inl f \<Rightarrow> Inl f
                           | Inr (status, h5, ctx4) \<Rightarrow>
                               if status \<noteq> ADC_SUCCESS then Inr (status, h5, ctx4)
                               else ADC1_compute_vrs cal env h5 ctx4))))"

text \<open>The statements after the label \<open>errors:\<close>.\<close>

definition ADC1_switch_off :: "hw_env \<Rightarrow> hw_state \<Rightarrow> hw_state" where
  "ADC1_switch_off env h =
     (let h1 = reg_and env CCR (NOT (push_bit 22 3)) h;
          h2 = (if hw1_1 env then GPIO_write GPIO_MNTR_EN 0 h1 else h1)
      in reg_or env CR (push_bit 1 1) h2)"

definition ADC1_perform_measurements ::
  "ADC_calibration \<Rightarrow> hw_env \<Rightarrow> hw_state \<Rightarrow> ADC_context_t
     \<Rightarrow> fault + (ADC_status_t \<times> hw_state \<times> ADC_context_t)" where
  "ADC1_perform_measurements cal env h ctx =
     (case ADC1_acquire cal env h ctx of
        Inl f \<Rightarrow> Inl f
      | Inr (status, h1, ctx1) \<Rightarrow> Inr (status, ADC1_switch_off env h1, ctx1))"

definition ADC1_get_data ::
  "ADC_context_t \<Rightarrow> nat \<Rightarrow> u32 option \<Rightarrow> fault + (ADC_status_t \<times> u32 option)" where
  "ADC1_get_data ctx data_idx data_ptr =
     (if data_idx \<ge> ADC_DATA_INDEX_LAST then Inr (ADC_ERROR_DATA_INDEX, data_ptr)
      else case data_ptr of
        None \<Rightarrow> Inr (ADC_ERROR_NULL_PARAMETER, None)
      | Some old \<Rightarrow>
          if data_idx < length (data ctx) then Inr (ADC_SUCCESS, Some (data ctx ! data_idx))
          else Inl OutOfBounds)"

definition ADC1_get_tmcu :: "ADC_context_t \<Rightarrow> s8 option \<Rightarrow> ADC_status_t \<times> s8 option" where
  "ADC1_get_tmcu ctx tmcu_ptr =
     (case tmcu_ptr of
        None \<Rightarrow> (ADC_ERROR_NULL_PARAMETER, None)
      | Some old \<Rightarrow> (ADC_SUCCESS, Some (tmcu_degrees ctx)))"

subsection \<open>Observations on contexts and traces\<close>

text \<open>The array \<open>data\<close> of the context has \<open>ADC_DATA_INDEX_LAST\<close> elements.\<close>

definition ADC_context_wf :: "ADC_context_t \<Rightarrow> bool" where
  "ADC_context_wf ctx = (length (data ctx) = ADC_DATA_INDEX_LAST)"

text \<open>
  The reset state in the spec's words: reference reading zero, every measurement slot
  zero except the supply-voltage slot, which holds the default placeholder, temperature
  zero.
\<close>

definition ADC_context_reset :: ADC_context_t where
  "ADC_context_reset = \<lparr>vrefint_12bits = 0, data = [3300, 0, 0], tmcu_degrees = 0\<rparr>"

text \<open>
  What one busy-wait loop guarantees, started with \<open>loop_count = 0\<close>: on a timeout the
  counter is \<open>ADC_TIMEOUT_COUNT + 1\<close> (the iteration that raises the error follows
  \<open>ADC_TIMEOUT_COUNT\<close> iterations that did not), otherwise it is at most
  \<open>ADC_TIMEOUT_COUNT\<close>; the loop reads at most \<open>k\<close> registers per test of its condition
  and tests it at most \<open>ADC_TIMEOUT_COUNT + 1\<close> times; it writes nothing.
\<close>

definition wait_bounded :: "(hw_state \<Rightarrow> bool \<times> hw_state) \<Rightarrow> nat \<Rightarrow> hw_state \<Rightarrow> bool" where
  "wait_bounded cond k h =
     (case busy_wait cond 0 h of (timeout, loop_count, h') \<Rightarrow>
        (if timeout then loop_count = Suc ADC_TIMEOUT_COUNT else loop_count \<le> ADC_TIMEOUT_COUNT)
        \<and> reads h \<le> reads h' \<and> reads h' \<le> reads h + k * Suc ADC_TIMEOUT_COUNT
        \<and> trace h' = trace h)"

subsection \<open>Example inputs\<close>

text \<open>A peripheral that shows every flag at once and converts every channel to 1500.\<close>

definition env_prompt :: hw_env where
  "env_prompt = \<lparr>reg_value = (\<lambda>t r. if r = DR then 1500 else 0xFFFFFFFF),
                  delay_status = (\<lambda>t. LPTIM_SUCCESS), hw1_1 = True\<rparr>"

text \<open>The calibration values of the spec's example, with a bandgap code of 1671.\<close>

definition cal_example :: ADC_calibration where
  "cal_example = \<lparr>VREFINT_CAL = 1671, VREFINT_VCC_CALIB_MV = 3000, TS_CAL1 = 600, TS_CAL2 = 700,
                   TS_CAL1_TEMP = 30, TS_CAL2_TEMP = 130, TS_VCC_CALIB_MV = 3000\<rparr>"

definition hw_start :: hw_state where
  "hw_start = \<lparr>reads = 0, trace = []\<rparr>"

definition ctx_example :: ADC_context_t where
  "ctx_example = \<lparr>vrefint_12bits = 1490, data = [3364, 4990, 12], tmcu_degrees = 21\<rparr>"

subsection \<open>Observations on conversions\<close>

text \<open>The four register updates of a single conversion that precede its wait loop.\<close>

definition conv_prefix :: "hw_env \<Rightarrow> nat \<Rightarrow> hw_state \<Rightarrow> hw_state" where
  "conv_prefix env ch h =
     reg_or env CR (push_bit 2 1) (reg_or env ISR 0x0000089F
       (reg_or env CHSELR (push_bit ch 1) (reg_and env CHSELR 0xFFF80000 h)))"



text \<open>
  The filter in the spec's words, for nine samples and a centre window of three: the
  mean of the three middle-ranked samples.
\<close>

definition center_average :: "u32 list \<Rightarrow> u32" where
  "center_average samples =
     (let sorted = sort samples
      in of_nat ((unat (sorted ! 3) + unat (sorted ! 4) + unat (sorted ! 5)) div 3))"



subsection \<open>Observations on the teardown\<close>

text \<open>
  A write to \<open>CCR\<close> with \<open>VREFEN\<close> (bit 22) and \<open>TSEN\<close> (bit 23) clear; a write to \<open>CR\<close>
  with \<open>ADDIS\<close> (bit 1) set.
\<close>

fun is_sources_off :: "hw_event \<Rightarrow> bool" where
  "is_sources_off (RegWrite CCR v) = (\<not> bit v 22 \<and> \<not> bit v 23)"
| "is_sources_off _ = False"

fun is_disable :: "hw_event \<Rightarrow> bool" where
  "is_disable (RegWrite CR v) = bit v 1"
| "is_disable _ = False"

text \<open>
  The trace ends with the teardown: the sources are switched off, the analog-enable
  output is driven low when the board has it, and the converter is disabled last.
\<close>

definition teardown_ran :: "hw_env \<Rightarrow> hw_event list \<Rightarrow> bool" where
  "teardown_ran env tr =
     (case rev tr of
        e3 # e2 # rest \<Rightarrow>
          is_disable e3 \<and>
          (if hw1_1 env
           then e2 = GpioWrite GPIO_MNTR_EN 0 \<and> (case rest of e1 # _ \<Rightarrow> is_sources_off e1 | [] \<Rightarrow> False)
           else is_sources_off e2)
      | _ \<Rightarrow> False)"

text \<open>A peripheral that becomes ready at once and never ends a conversion.\<close>

definition env_no_eoc :: hw_env where
  "env_no_eoc = \<lparr>reg_value = (\<lambda>t r. if r = ISR then 1 else 0),
                  delay_status = (\<lambda>t. LPTIM_SUCCESS), hw1_1 = True\<rparr>"

text \<open>A peripheral that shows every flag at once and converts every channel to 0.\<close>

definition env_zero :: hw_env where
  "env_zero = \<lparr>reg_value = (\<lambda>t r. if r = DR then 0 else 0xFFFFFFFF),
                delay_status = (\<lambda>t. LPTIM_SUCCESS), hw1_1 = True\<rparr>"

text \<open>
  A peripheral whose registers read 0, as after reset, except the status register,
  which shows the ready flag (bit 0) and the end-of-conversion flag (bit 2); every
  conversion gives 0. \<open>idle_zero_events\<close> are the writes and collaborator calls of a
  measurement pass on it up to the end of the bandgap acquisition: the enable, the
  analog-enable output, the two sources, the delay, and nine conversions of channel 17.
\<close>

definition env_idle_zero :: hw_env where
  "env_idle_zero = \<lparr>reg_value = (\<lambda>t r. if r = ISR then 5 else 0),
                     delay_status = (\<lambda>t. LPTIM_SUCCESS), hw1_1 = True\<rparr>"

definition idle_zero_events :: "hw_event list" where
  "idle_zero_events =
     [RegWrite CR 1, GpioWrite GPIO_MNTR_EN 1, RegWrite CCR 0xC00000, DelayMs 100 0]
     @ concat (replicate 9
         [RegWrite CHSELR 0, RegWrite CHSELR 0x20000, RegWrite ISR 0x89F, RegWrite CR 4])"

subsection \<open>The conversions in the spec's words\<close>

text \<open>
  Step 5 of the spec:
  \<open>supply_mV = (factory_vref_calibration_code * factory_calibration_supply_mV) / vrefint_raw\<close>.
\<close>

definition spec_supply_mV :: "int \<Rightarrow> int \<Rightarrow> int \<Rightarrow> int" where
  "spec_supply_mV cal_code cal_supply_mV vrefint_raw = (cal_code * cal_supply_mV) div vrefint_raw"

text \<open>
  A peripheral that converts every channel to 1500 and stops ending conversions after
  the bandgap acquisition (the first 57 register reads of a measurement pass).
\<close>

definition env_tmcu_timeout :: hw_env where
  "env_tmcu_timeout = \<lparr>reg_value = (\<lambda>t r. if r = DR then 1500
                                              else if r = ISR \<and> 57 \<le> t then 1 else 0xFFFFFFFF),
                        delay_status = (\<lambda>t. LPTIM_SUCCESS), hw1_1 = True\<rparr>"

text \<open>
  A peripheral that converts every channel to 1500 and stops ending conversions after
  the USB-sense acquisition (the first 165 register reads of a measurement pass).
\<close>

definition env_vrs_timeout :: hw_env where
  "env_vrs_timeout = \<lparr>reg_value = (\<lambda>t r. if r = DR then 1500
                                             else if r = ISR \<and> 165 \<le> t then 1 else 0xFFFFFFFF),
                       delay_status = (\<lambda>t. LPTIM_SUCCESS), hw1_1 = True\<rparr>"

text \<open>The same, with the conversions stopping after the temperature acquisition (111 reads).\<close>

definition env_vusb_timeout :: hw_env where
  "env_vusb_timeout = \<lparr>reg_value = (\<lambda>t r. if r = DR then 1500
                                              else if r = ISR \<and> 111 \<le> t then 1 else 0xFFFFFFFF),
                        delay_status = (\<lambda>t. LPTIM_SUCCESS), hw1_1 = True\<rparr>"

text \<open>A peripheral that never becomes ready, and one whose settling delay fails.\<close>

definition env_not_ready :: hw_env where
  "env_not_ready = \<lparr>reg_value = (\<lambda>t r. 0), delay_status = (\<lambda>t. LPTIM_SUCCESS), hw1_1 = True\<rparr>"

definition env_delay_overflow :: hw_env where
  "env_delay_overflow = \<lparr>reg_value = (\<lambda>t r. if r = DR then 1500 else 0xFFFFFFFF),
                          delay_status = (\<lambda>t. LPTIM_ERROR_DELAY_OVERFLOW), hw1_1 = True\<rparr>"

text \<open>
  Step 7 of the spec: \<open>mV = (vref_voltage_mV * raw * divider_ratio) / vrefint_raw\<close>.
\<close>

definition spec_channel_mV :: "int \<Rightarrow> int \<Rightarrow> int \<Rightarrow> int \<Rightarrow> int" where
  "spec_channel_mV vref_voltage_mV raw divider_ratio vrefint_raw =
     (vref_voltage_mV * raw * divider_ratio) div vrefint_raw"

text \<open>
  Step 6 of the spec, with the division that truncates toward zero:
  \<open>calib_mV = (raw * supply_mV) / calib_supply_mV - cal1_code\<close> and
  \<open>degrees = cal1_temp + calib_mV * (cal2_temp - cal1_temp) / (cal2_code - cal1_code)\<close>.
\<close>

definition spec_calib_mV :: "int \<Rightarrow> int \<Rightarrow> int \<Rightarrow> int \<Rightarrow> int" where
  "spec_calib_mV raw supply_mV calib_supply_mV cal1_code =
     (raw * supply_mV) sdiv calib_supply_mV - cal1_code"

definition spec_degrees :: "int \<Rightarrow> int \<Rightarrow> int \<Rightarrow> int \<Rightarrow> int \<Rightarrow> int" where
  "spec_degrees cal1_temp cal2_temp cal1_code cal2_code calib_mV =
     cal1_temp + (calib_mV * (cal2_temp - cal1_temp)) sdiv (cal2_code - cal1_code)"

text \<open>
  Calibration values as the STM32 provides them: a positive calibration supply, two
  distinct 16-bit calibration codes, and calibration temperatures of 16-bit magnitude.
\<close>

definition calibration_in_range :: "ADC_calibration \<Rightarrow> bool" where
  "calibration_in_range cal =
     (0 < sint (TS_VCC_CALIB_MV cal)
      \<and> 0 \<le> sint (TS_CAL1 cal) \<and> sint (TS_CAL1 cal) < 2 ^ 16
      \<and> 0 \<le> sint (TS_CAL2 cal) \<and> sint (TS_CAL2 cal) < 2 ^ 16
      \<and> TS_CAL2 cal \<noteq> TS_CAL1 cal
      \<and> - (2 ^ 15) \<le> sint (TS_CAL1_TEMP cal) \<and> sint (TS_CAL1_TEMP cal) < 2 ^ 15
      \<and> - (2 ^ 15) \<le> sint (TS_CAL2_TEMP cal) \<and> sint (TS_CAL2_TEMP cal) < 2 ^ 15)"

text \<open>The context a run returns, if it returns.\<close>

definition result_context ::
  "fault + (ADC_status_t \<times> hw_state \<times> ADC_context_t) \<Rightarrow> ADC_context_t option" where
  "result_context r = (case r of Inl f \<Rightarrow> None | Inr (status, h, ctx) \<Rightarrow> Some ctx)"

text \<open>The same calibration values with a bandgap code of 650.\<close>

definition cal_example_low :: ADC_calibration where
  "cal_example_low = cal_example\<lparr>VREFINT_CAL := 650\<rparr>"

section \<open>Properties\<close>

lemmas hw_defs = reg_or_def reg_and_def reg_read_def emit_def
  GPIO_write_def GPIO_configure_def LPTIM1_delay_milliseconds_def

lemmas const_defs = ADC_CHANNEL_LAST_def ADC_TIMEOUT_COUNT_def ADC_MEDIAN_FILTER_SIZE_def
  ADC_CENTER_AVERAGE_SIZE_def ADC_CHANNEL_VRS_def ADC_CHANNEL_VUSB_def ADC_CHANNEL_VREFINT_def
  ADC_CHANNEL_TMCU_def ADC_DATA_INDEX_VMCU_MV_def ADC_DATA_INDEX_VUSB_MV_def
  ADC_DATA_INDEX_VRS_MV_def ADC_DATA_INDEX_LAST_def ADC_FULL_SCALE_12BITS_def
  ADC_VMCU_DEFAULT_MV_def ADC_VOLTAGE_DIVIDER_RATIO_VUSB_def ADC_VOLTAGE_DIVIDER_RATIO_VRS_def

lemma channels_valid:
  "ADC_CHANNEL_VREFINT < ADC_CHANNEL_LAST" "ADC_CHANNEL_TMCU < ADC_CHANNEL_LAST"
  "ADC_CHANNEL_VUSB < ADC_CHANNEL_LAST" "ADC_CHANNEL_VRS < ADC_CHANNEL_LAST"
  by (simp_all add: const_defs)

subsection \<open>Reading a measurement\<close>

text \<open>
  C7. \<open>ADC1_get_data\<close> never reads outside the array (it returns, never the fault
  \<open>OutOfBounds\<close>); its status is \<open>ADC_ERROR_DATA_INDEX\<close> exactly when the index is at or
  beyond \<open>ADC_DATA_INDEX_LAST\<close>; for an index below it and a provided result slot it
  succeeds and the slot receives the stored value.
\<close>

theorem get_data_index_check:
  assumes "ADC_context_wf ctx"
  shows "(\<exists>status r. ADC1_get_data ctx data_idx data_ptr = Inr (status, r)
            \<and> (status = ADC_ERROR_DATA_INDEX \<longleftrightarrow> data_idx \<ge> ADC_DATA_INDEX_LAST))
       \<and> (data_idx < ADC_DATA_INDEX_LAST \<longrightarrow>
            ADC1_get_data ctx data_idx (Some old) = Inr (ADC_SUCCESS, Some (data ctx ! data_idx)))"
  using assms by (auto simp add: ADC1_get_data_def ADC_context_wf_def split: option.splits)

theorem get_data_index_check_witness:
  "ADC_context_wf \<lparr>vrefint_12bits = 1500, data = [3342, 4896, 2448], tmcu_degrees = 25\<rparr>
   \<and> ADC1_get_data \<lparr>vrefint_12bits = 1500, data = [3342, 4896, 2448], tmcu_degrees = 25\<rparr>
        2 (Some 0) = Inr (ADC_SUCCESS, Some 2448)
   \<and> ADC1_get_data \<lparr>vrefint_12bits = 1500, data = [3342, 4896, 2448], tmcu_degrees = 25\<rparr>
        3 (Some 0) = Inr (ADC_ERROR_DATA_INDEX, Some 0)"
proof -
  let ?ctx = "\<lparr>vrefint_12bits = 1500, data = [3342, 4896, 2448], tmcu_degrees = 25\<rparr>"
  have wf: "ADC_context_wf ?ctx"
    by (simp add: ADC_context_wf_def ADC_DATA_INDEX_LAST_def)
  have "2 < ADC_DATA_INDEX_LAST"
    by (simp add: ADC_DATA_INDEX_LAST_def)
  with get_data_index_check [OF wf, of 2 "Some 0" 0]
  have "ADC1_get_data ?ctx 2 (Some 0) = Inr (ADC_SUCCESS, Some 2448)" by simp
  moreover from get_data_index_check [OF wf, of 3 "Some 0" 0]
  have "ADC1_get_data ?ctx 3 (Some 0) = Inr (ADC_ERROR_DATA_INDEX, Some 0)"
    by (auto simp add: ADC_DATA_INDEX_LAST_def ADC1_get_data_def)
  ultimately show ?thesis using wf by simp
qed

subsection \<open>Initialisation\<close>

lemma init_data_loop:
  assumes "length d = ADC_DATA_INDEX_LAST"
  shows "fold (\<lambda>idx d. d[idx := 0]) [0..<ADC_DATA_INDEX_LAST] d = [0, 0, 0 :: u32]"
proof -
  from assms obtain a b c where "d = [a, b, c]"
    by (auto simp add: ADC_DATA_INDEX_LAST_def numeral_3_eq_3 length_Suc_conv)
  then show ?thesis
    by (simp add: ADC_DATA_INDEX_LAST_def numeral_3_eq_3 upt_rec)
qed

lemma init_context:
  assumes "ADC_context_wf ctx"
  shows "snd (snd (ADC1_init env h ctx)) = ADC_context_reset"
  using assms init_data_loop [of "data ctx"]
  by (simp add: ADC1_init_def ADC_context_wf_def ADC_context_reset_def Let_def case_prod_beta
      ADC_DATA_INDEX_VMCU_MV_def ADC_VMCU_DEFAULT_MV_def)

lemma context_reset_wf: "ADC_context_wf ADC_context_reset"
  by (simp add: ADC_context_wf_def ADC_context_reset_def ADC_DATA_INDEX_LAST_def)

text \<open>
  C8. Whatever the context held and whatever the peripheral does (also when the delay
  or the calibration fails), \<open>ADC1_init\<close> leaves the context in the reset state: reference
  reading 0, slots \<open>[3300, 0, 0]\<close> (the supply-voltage slot holds the default), temperature
  0. A second call, under any other behaviour of the peripheral, gives the same state.
\<close>

theorem init_resets_context:
  assumes "ADC_context_wf ctx"
  shows "snd (snd (ADC1_init env h ctx)) = ADC_context_reset
       \<and> snd (snd (ADC1_init env' h' (snd (snd (ADC1_init env h ctx))))) = ADC_context_reset
       \<and> vrefint_12bits ADC_context_reset = 0
       \<and> data ADC_context_reset ! ADC_DATA_INDEX_VMCU_MV = ADC_VMCU_DEFAULT_MV
       \<and> data ADC_context_reset ! ADC_DATA_INDEX_VUSB_MV = 0
       \<and> data ADC_context_reset ! ADC_DATA_INDEX_VRS_MV = 0
       \<and> tmcu_degrees ADC_context_reset = 0"
proof -
  have 1: "snd (snd (ADC1_init env h ctx)) = ADC_context_reset"
    using assms by (rule init_context)
  have 2: "snd (snd (ADC1_init env' h' ADC_context_reset)) = ADC_context_reset"
    using context_reset_wf by (rule init_context)
  show ?thesis
    using 1 2 by (simp add: ADC_context_reset_def const_defs)
qed

theorem init_resets_context_witness:
  "ADC_context_wf ctx_example
   \<and> snd (snd (ADC1_init env_prompt hw_start ctx_example))
       = \<lparr>vrefint_12bits = 0, data = [3300, 0, 0], tmcu_degrees = 0\<rparr>
   \<and> snd (snd (ADC1_init env_prompt hw_start
                 (snd (snd (ADC1_init env_prompt hw_start ctx_example)))))
       = \<lparr>vrefint_12bits = 0, data = [3300, 0, 0], tmcu_degrees = 0\<rparr>"
proof -
  have wf: "ADC_context_wf ctx_example"
    by (simp add: ADC_context_wf_def ctx_example_def ADC_DATA_INDEX_LAST_def)
  from init_resets_context [OF wf, of env_prompt hw_start env_prompt hw_start] wf
  show ?thesis unfolding ADC_context_reset_def by blast
qed

subsection \<open>Busy-wait loops\<close>

lemma busy_wait_count:
  "busy_wait cond n h = (t, m, h') \<Longrightarrow> n \<le> ADC_TIMEOUT_COUNT \<Longrightarrow>
     (t \<longrightarrow> m = Suc ADC_TIMEOUT_COUNT) \<and>
     (\<not> t \<longrightarrow> m \<le> ADC_TIMEOUT_COUNT \<and> (\<exists>hl. cond hl = (False, h')))"
proof (induction cond n h rule: busy_wait.induct)
  case (1 cond loop_count h)
  obtain c h1 where c: "cond h = (c, h1)" by (cases "cond h")
  show ?case
  proof (cases "c \<and> \<not> Suc loop_count > ADC_TIMEOUT_COUNT")
    case True
    with c "1.prems" have "busy_wait cond (Suc loop_count) h1 = (t, m, h')"
      by (simp add: busy_wait.simps [of cond loop_count h])
    with "1.IH" [OF c [symmetric]] True show ?thesis by simp
  next
    case False
    with c "1.prems" show ?thesis
      by (auto simp add: busy_wait.simps [of cond loop_count h] split: if_splits)
  qed
qed

lemma busy_wait_trace:
  "busy_wait cond n h = (t, m, h') \<Longrightarrow> (\<And>x. trace (snd (cond x)) = trace x) \<Longrightarrow>
   trace h' = trace h"
proof (induction cond n h rule: busy_wait.induct)
  case (1 cond loop_count h)
  obtain c h1 where c: "cond h = (c, h1)" by (cases "cond h")
  from "1.prems"(2) [of h] c have tr: "trace h1 = trace h" by simp
  show ?case
  proof (cases "c \<and> \<not> Suc loop_count > ADC_TIMEOUT_COUNT")
    case True
    with c "1.prems" have "busy_wait cond (Suc loop_count) h1 = (t, m, h')"
      by (simp add: busy_wait.simps [of cond loop_count h])
    with "1.IH" [OF c [symmetric]] True "1.prems"(2) tr show ?thesis by simp
  next
    case False
    with c "1.prems"(1) tr show ?thesis
      by (auto simp add: busy_wait.simps [of cond loop_count h] split: if_splits)
  qed
qed

lemma busy_wait_reads:
  "busy_wait cond n h = (t, m, h') \<Longrightarrow> n \<le> ADC_TIMEOUT_COUNT \<Longrightarrow>
   (\<And>x. reads x \<le> reads (snd (cond x)) \<and> reads (snd (cond x)) \<le> reads x + k) \<Longrightarrow>
   reads h \<le> reads h' \<and> reads h' \<le> reads h + k * (Suc ADC_TIMEOUT_COUNT - n)"
proof (induction cond n h rule: busy_wait.induct)
  case (1 cond loop_count h)
  obtain c h1 where c: "cond h = (c, h1)" by (cases "cond h")
  from "1.prems"(3) [of h] c have rd: "reads h \<le> reads h1" "reads h1 \<le> reads h + k"
    by simp_all
  have k: "k \<le> k * (Suc ADC_TIMEOUT_COUNT - loop_count)"
  proof -
    from "1.prems"(2) have "1 \<le> Suc ADC_TIMEOUT_COUNT - loop_count" by simp
    then have "k * 1 \<le> k * (Suc ADC_TIMEOUT_COUNT - loop_count)" by (rule mult_le_mono2)
    then show ?thesis by simp
  qed
  show ?case
  proof (cases "c \<and> \<not> Suc loop_count > ADC_TIMEOUT_COUNT")
    case True
    with c "1.prems" have "busy_wait cond (Suc loop_count) h1 = (t, m, h')"
      by (simp add: busy_wait.simps [of cond loop_count h])
    with "1.IH" [OF c [symmetric]] True "1.prems"(3)
    have ih: "reads h1 \<le> reads h'"
      "reads h' \<le> reads h1 + k * (Suc ADC_TIMEOUT_COUNT - Suc loop_count)"
      by simp_all
    have "k + k * (Suc ADC_TIMEOUT_COUNT - Suc loop_count)
            = k * (Suc ADC_TIMEOUT_COUNT - loop_count)"
      using True by (simp add: Suc_diff_le flip: mult_Suc_right)
    with ih rd show ?thesis by linarith
  next
    case False
    with c "1.prems"(1) have "h' = h1"
      by (auto simp add: busy_wait.simps [of cond loop_count h] split: if_splits)
    then have "reads h \<le> reads h'" and "reads h' \<le> reads h + k"
      using rd by simp_all
    with k show ?thesis by (meson add_left_mono le_trans)
  qed
qed

lemma busy_wait_immediate:
  "fst (cond h) = False \<Longrightarrow> busy_wait cond n h = (False, n, snd (cond h))"
  by (cases "cond h") (simp add: busy_wait.simps [of cond n h])

text \<open>A flag that stays clear from some state on makes the loop time out.\<close>

lemma busy_wait_never:
  "P h \<Longrightarrow> (\<And>x. P x \<Longrightarrow> fst (cond x) \<and> P (snd (cond x))) \<Longrightarrow> fst (busy_wait cond n h)"
proof (induction cond n h rule: busy_wait.induct)
  case (1 cond loop_count h)
  obtain c h1 where c: "cond h = (c, h1)" by (cases "cond h")
  with "1.prems"(2) [OF "1.prems"(1)] have cT: c and P1: "P h1" by simp_all
  show ?case
  proof (cases "Suc loop_count > ADC_TIMEOUT_COUNT")
    case True
    with c cT show ?thesis by (simp add: busy_wait.simps [of cond loop_count h])
  next
    case False
    with "1.IH" [OF c [symmetric] cT False P1] "1.prems"(2) c cT show ?thesis
      by (simp add: busy_wait.simps [of cond loop_count h])
  qed
qed

lemma wait_boundedI:
  assumes tr: "\<And>x. trace (snd (cond x)) = trace x"
    and rd: "\<And>x. reads x \<le> reads (snd (cond x)) \<and> reads (snd (cond x)) \<le> reads x + k"
  shows "wait_bounded cond k h"
proof -
  obtain t m h' where bw: "busy_wait cond 0 h = (t, m, h')"
    by (cases "busy_wait cond 0 h")
  from busy_wait_count [OF bw] busy_wait_trace [OF bw tr] busy_wait_reads [OF bw _ rd]
  show ?thesis by (simp add: wait_bounded_def bw)
qed

lemma eoc_clear_step:
  "trace (snd (eoc_clear env x)) = trace x" "reads (snd (eoc_clear env x)) = Suc (reads x)"
  by (simp_all add: eoc_clear_def reg_read_def)



lemma eoc_wait_bounded: "wait_bounded (eoc_clear env) 1 h"
  by (rule wait_boundedI) (simp_all add: eoc_clear_step)



subsection \<open>Single conversion\<close>

lemma conv_prefix_eq:
  "conv_prefix env ch h =
     h\<lparr>reads := reads h + 4,
      trace := trace h @
        [RegWrite CHSELR (reg_value env (reads h) CHSELR AND 0xFFF80000),
         RegWrite CHSELR (reg_value env (reads h + 1) CHSELR OR push_bit ch 1),
         RegWrite ISR (reg_value env (reads h + 2) ISR OR 0x0000089F),
         RegWrite CR (reg_value env (reads h + 3) CR OR push_bit 2 1)]\<rparr>"
  by (simp add: conv_prefix_def hw_defs eval_nat_numeral)

lemma single_conversion_unfold:
  assumes "ch < ADC_CHANNEL_LAST"
  shows "ADC1_single_conversion env ch (Some old) h =
     (case busy_wait (eoc_clear env) 0 (conv_prefix env ch h) of (timeout, loop_count, h5) \<Rightarrow>
        if timeout then (ADC_ERROR_TIMEOUT, Some old, h5)
        else (ADC_SUCCESS, Some (reg_value env (reads h5) DR), h5\<lparr>reads := Suc (reads h5)\<rparr>))"
  using assms
  by (auto simp add: ADC1_single_conversion_def conv_prefix_def Let_def reg_read_def
      split: prod.splits)

lemma single_conversion_run:
  assumes ch: "ch < ADC_CHANNEL_LAST"
    and run: "ADC1_single_conversion env ch (Some old) h = (st, r, h')"
  shows "trace h' = trace (conv_prefix env ch h)"
    and "reads h + 4 \<le> reads h'"
    and "reads h' \<le> reads h + (5 + Suc ADC_TIMEOUT_COUNT)"
    and "(st = ADC_SUCCESS \<and> (\<exists>t. reads h \<le> t \<and> t < reads h' \<and> r = Some (reg_value env t DR)))
         \<or> (st = ADC_ERROR_TIMEOUT \<and> r = Some old)"
proof -
  obtain t m h5 where bw: "busy_wait (eoc_clear env) 0 (conv_prefix env ch h) = (t, m, h5)"
    by (cases "busy_wait (eoc_clear env) 0 (conv_prefix env ch h)")
  from eoc_wait_bounded [of env "conv_prefix env ch h"] bw
  have b: "reads h + 4 \<le> reads h5" "reads h5 \<le> reads h + 4 + Suc ADC_TIMEOUT_COUNT"
    "trace h5 = trace (conv_prefix env ch h)"
    by (simp_all add: wait_bounded_def conv_prefix_eq)
  from run bw ch have res: "(st, r, h') =
      (if t then (ADC_ERROR_TIMEOUT, Some old, h5)
       else (ADC_SUCCESS, Some (reg_value env (reads h5) DR), h5\<lparr>reads := Suc (reads h5)\<rparr>))"
    by (simp add: single_conversion_unfold)
  from res b show "trace h' = trace (conv_prefix env ch h)"
    by (simp split: if_splits)
  from res b show "reads h + 4 \<le> reads h'"
    by (simp split: if_splits)
  from res b show "reads h' \<le> reads h + (5 + Suc ADC_TIMEOUT_COUNT)"
    by (simp split: if_splits)
  show "(st = ADC_SUCCESS \<and> (\<exists>t. reads h \<le> t \<and> t < reads h' \<and> r = Some (reg_value env t DR)))
         \<or> (st = ADC_ERROR_TIMEOUT \<and> r = Some old)"
  proof (cases t)
    case True
    with res show ?thesis by simp
  next
    case False
    with res have "st = ADC_SUCCESS" "r = Some (reg_value env (reads h5) DR)"
      "reads h' = Suc (reads h5)" by simp_all
    with b show ?thesis by (intro disjI1 conjI exI [of _ "reads h5"]) simp_all
  qed
qed






subsection \<open>The nine conversions and the filter\<close>

lemma conversions_step:
  assumes ch: "ch < ADC_CHANNEL_LAST" and idx: "idx < ADC_MEDIAN_FILTER_SIZE"
  obtains st1 v h1 where "ADC1_single_conversion env ch (Some (buf ! idx)) h = (st1, Some v, h1)"
    and "conversions env ch idx buf h =
           (if st1 \<noteq> ADC_SUCCESS then (st1, buf[idx := v], h1)
            else conversions env ch (Suc idx) (buf[idx := v]) h1)"
proof -
  obtain st1 r h1 where sc: "ADC1_single_conversion env ch (Some (buf ! idx)) h = (st1, r, h1)"
    by (cases "ADC1_single_conversion env ch (Some (buf ! idx)) h")
  from single_conversion_run(4) [OF ch sc] obtain v where r: "r = Some v" by auto
  from idx sc r have "conversions env ch idx buf h =
           (if st1 \<noteq> ADC_SUCCESS then (st1, buf[idx := v], h1)
            else conversions env ch (Suc idx) (buf[idx := v]) h1)"
    by (simp add: conversions.simps [of env ch idx buf h])
  with sc r that show ?thesis by blast
qed

lemma conversions_done:
  "\<not> idx < ADC_MEDIAN_FILTER_SIZE \<Longrightarrow> conversions env ch idx buf h = (ADC_SUCCESS, buf, h)"
  by (simp add: conversions.simps [of env ch idx buf h])

lemma conversions_basic:
  assumes ch: "ch < ADC_CHANNEL_LAST"
  shows "conversions env ch idx buf h = (st, buf', h') \<Longrightarrow>
     length buf' = length buf
     \<and> (st = ADC_SUCCESS \<or> st = ADC_ERROR_TIMEOUT)
     \<and> reads h \<le> reads h'
     \<and> reads h' \<le> reads h + (ADC_MEDIAN_FILTER_SIZE - idx) * (5 + Suc ADC_TIMEOUT_COUNT)"
proof (induction n \<equiv> "ADC_MEDIAN_FILTER_SIZE - idx" arbitrary: idx buf h)
  case 0
  then have "\<not> idx < ADC_MEDIAN_FILTER_SIZE" by simp
  with "0.prems" show ?case by (simp add: conversions_done)
next
  case (Suc n)
  from Suc.hyps(2) have lt: "idx < ADC_MEDIAN_FILTER_SIZE" and n: "n = ADC_MEDIAN_FILTER_SIZE - Suc idx"
    by simp_all
  from conversions_step [OF ch lt, of env buf h]
  obtain st1 v h1 where sc: "ADC1_single_conversion env ch (Some (buf ! idx)) h = (st1, Some v, h1)"
    and cv: "conversions env ch idx buf h =
         (if st1 \<noteq> ADC_SUCCESS then (st1, buf[idx := v], h1)
          else conversions env ch (Suc idx) (buf[idx := v]) h1)" by blast
  note r = single_conversion_run(2,3,4) [OF ch sc]
  define B where "B = 5 + Suc ADC_TIMEOUT_COUNT"
  define K where "K = (ADC_MEDIAN_FILTER_SIZE - idx) * B"
  define K' where "K' = (ADC_MEDIAN_FILTER_SIZE - Suc idx) * B"
  have step: "K = B + K'"
    using lt unfolding K_def K'_def by (simp add: Suc_diff_Suc flip: mult_Suc)
  have r1: "reads h \<le> reads h1" "reads h1 \<le> reads h + B"
    using r(1,2) unfolding B_def by simp_all
  have st1: "st1 = ADC_SUCCESS \<or> st1 = ADC_ERROR_TIMEOUT"
    using r(3) by blast
  show ?case
  proof (cases "st1 = ADC_SUCCESS")
    case False
    with cv Suc.prems have eq: "st = st1" "buf' = buf[idx := v]" "h' = h1" by simp_all
    have "reads h \<le> reads h'" "reads h' \<le> reads h + K"
      using r1 step eq(3) by simp_all
    with eq st1 show ?thesis unfolding K_def B_def by simp
  next
    case True
    with cv Suc.prems have "conversions env ch (Suc idx) (buf[idx := v]) h1 = (st, buf', h')"
      by simp
    from Suc.hyps(1) [OF n this]
    have ih: "length buf' = length buf" "st = ADC_SUCCESS \<or> st = ADC_ERROR_TIMEOUT"
      "reads h1 \<le> reads h'" "reads h' \<le> reads h1 + K'"
      unfolding K'_def B_def by simp_all
    have "reads h \<le> reads h'" "reads h' \<le> reads h + K"
      using r1 step ih(3,4) by simp_all
    with ih(1,2) show ?thesis unfolding K_def B_def by simp
  qed
qed

lemma take_center:
  assumes "6 \<le> length xs"
  shows "take 3 (drop 3 xs) = [xs ! 3, xs ! 4, xs ! 5]"
proof (rule nth_equalityI)
  show "length (take 3 (drop 3 xs)) = length [xs ! 3, xs ! 4, xs ! 5]"
    using assms by simp
next
  fix i assume "i < length (take 3 (drop 3 xs))"
  then have "i < 3" by simp
  then consider "i = 0" | "i = 1" | "i = 2" by linarith
  then show "take 3 (drop 3 xs) ! i = [xs ! 3, xs ! 4, xs ! 5] ! i"
    using assms by cases simp_all
qed

lemma median_filter_nine:
  assumes "length buf = ADC_MEDIAN_FILTER_SIZE"
  shows "MATH_median_filter_u32 buf ADC_MEDIAN_FILTER_SIZE ADC_CENTER_AVERAGE_SIZE (Some old)
           = (MATH_SUCCESS, Some (center_average buf))"
proof -
  have "6 \<le> length (sort buf)"
    using assms by (simp add: ADC_MEDIAN_FILTER_SIZE_def)
  then have "take 3 (drop 3 (sort buf)) = [sort buf ! 3, sort buf ! 4, sort buf ! 5]"
    by (rule take_center)
  then show ?thesis
    using assms
    by (simp add: MATH_median_filter_u32_def center_average_def ADC_MEDIAN_FILTER_SIZE_def
        ADC_CENTER_AVERAGE_SIZE_def Let_def add.assoc)
qed




lemma filtered_conversion_unfold:
  assumes ch: "ch < ADC_CHANNEL_LAST"
  obtains st buf h1 where
    "conversions env ch 0 (replicate ADC_MEDIAN_FILTER_SIZE 0) h = (st, buf, h1)"
    "length buf = ADC_MEDIAN_FILTER_SIZE"
    "st = ADC_SUCCESS \<or> st = ADC_ERROR_TIMEOUT"
    "ADC1_filtered_conversion env ch (Some old) h =
       (if st = ADC_SUCCESS then (ADC_SUCCESS, Some (center_average buf), h1)
        else (ADC_ERROR_TIMEOUT, Some old, h1))"
proof -
  obtain st buf h1 where cv: "conversions env ch 0 (replicate ADC_MEDIAN_FILTER_SIZE 0) h = (st, buf, h1)"
    by (cases "conversions env ch 0 (replicate ADC_MEDIAN_FILTER_SIZE 0) h")
  from conversions_basic [OF ch cv]
  have len: "length buf = ADC_MEDIAN_FILTER_SIZE" and st: "st = ADC_SUCCESS \<or> st = ADC_ERROR_TIMEOUT"
    by simp_all
  from ch cv st median_filter_nine [OF len, of old]
  have "ADC1_filtered_conversion env ch (Some old) h =
       (if st = ADC_SUCCESS then (ADC_SUCCESS, Some (center_average buf), h1)
        else (ADC_ERROR_TIMEOUT, Some old, h1))"
    by (auto simp add: ADC1_filtered_conversion_def)
  with cv len st that show ?thesis by blast
qed

subsection \<open>Runs in which the end-of-conversion flag shows at once\<close>

lemma single_conversion_shown:
  assumes "ch < ADC_CHANNEL_LAST"
    and "reg_value env (reads h + 4) ISR AND push_bit 2 1 \<noteq> 0"
  shows "ADC1_single_conversion env ch (Some old) h =
     (ADC_SUCCESS, Some (reg_value env (reads h + 5) DR),
      (conv_prefix env ch h)\<lparr>reads := reads h + 6\<rparr>)"
proof -
  have "eoc_clear env (conv_prefix env ch h) = (False, (conv_prefix env ch h)\<lparr>reads := reads h + 5\<rparr>)"
    using assms(2) by (simp add: eoc_clear_def reg_read_def conv_prefix_eq)
  then have "busy_wait (eoc_clear env) 0 (conv_prefix env ch h)
      = (False, 0, (conv_prefix env ch h)\<lparr>reads := reads h + 5\<rparr>)"
    by (simp add: busy_wait_immediate)
  then show ?thesis
    using assms(1) by (simp add: single_conversion_unfold)
qed

lemma sample_buf_init:
  "replicate ADC_MEDIAN_FILTER_SIZE (0::u32) = [0, 0, 0, 0, 0, 0, 0, 0, 0]"
  by (simp add: ADC_MEDIAN_FILTER_SIZE_def numeral_eq_Suc)

lemma center_average_const: "center_average [c, c, c, c, c, c, c, c, c] = c"
proof -
  have "(unat c + unat c + unat c) div 3 = unat c" by simp
  then show ?thesis by (simp add: center_average_def)
qed

lemma conversions_shown:
  assumes ch: "ch < ADC_CHANNEL_LAST"
    and eoc: "\<And>t. reads h \<le> t \<Longrightarrow> t < reads h + 54 \<Longrightarrow> reg_value env t ISR AND push_bit 2 1 \<noteq> 0"
    and dr: "\<And>t. reg_value env t DR = c"
  shows "\<exists>h'. conversions env ch 0 (replicate ADC_MEDIAN_FILTER_SIZE 0) h =
           (ADC_SUCCESS, [c, c, c, c, c, c, c, c, c], h') \<and> reads h' = reads h + 54"
proof -
  have step: "ADC1_single_conversion env ch (Some old) x =
     (ADC_SUCCESS, Some c, (conv_prefix env ch x)\<lparr>reads := reads x + 6\<rparr>)"
    if "reads h \<le> reads x" "reads x + 4 < reads h + 54" for x old
    using single_conversion_shown [OF ch eoc, of x old] that dr by simp
  show ?thesis
    unfolding sample_buf_init
    by (simp add: conversions.simps step ADC_MEDIAN_FILTER_SIZE_def conv_prefix_eq)
qed

lemma filtered_conversion_shown:
  assumes ch: "ch < ADC_CHANNEL_LAST"
    and eoc: "\<And>t. reads h \<le> t \<Longrightarrow> t < reads h + 54 \<Longrightarrow> reg_value env t ISR AND push_bit 2 1 \<noteq> 0"
    and dr: "\<And>t. reg_value env t DR = c"
  shows "\<exists>h'. ADC1_filtered_conversion env ch (Some old) h = (ADC_SUCCESS, Some c, h')
           \<and> reads h' = reads h + 54"
proof -
  from conversions_shown [OF ch eoc dr] obtain h' where
    "conversions env ch 0 (replicate ADC_MEDIAN_FILTER_SIZE 0) h =
       (ADC_SUCCESS, [c, c, c, c, c, c, c, c, c], h')" "reads h' = reads h + 54"
    by blast
  moreover have "length [c, c, c, c, c, c, c, c, c] = ADC_MEDIAN_FILTER_SIZE"
    by (simp add: ADC_MEDIAN_FILTER_SIZE_def)
  then have "MATH_median_filter_u32 [c, c, c, c, c, c, c, c, c] ADC_MEDIAN_FILTER_SIZE
      ADC_CENTER_AVERAGE_SIZE (Some old) = (MATH_SUCCESS, Some c)"
    by (simp only: median_filter_nine center_average_const)
  ultimately show ?thesis
    using ch by (simp add: ADC1_filtered_conversion_def)
qed

text \<open>A flag that stays clear from the start of a conversion on: timeout.\<close>

lemma single_conversion_never:
  assumes ch: "ch < ADC_CHANNEL_LAST"
    and clr: "\<And>t. reads h \<le> t \<Longrightarrow> reg_value env t ISR AND push_bit 2 1 = 0"
  shows "\<exists>h'. ADC1_single_conversion env ch (Some old) h = (ADC_ERROR_TIMEOUT, Some old, h')"
proof -
  have "fst (busy_wait (eoc_clear env) 0 (conv_prefix env ch h))"
  proof (rule busy_wait_never [where P = "\<lambda>x. reads h \<le> reads x"])
    show "reads h \<le> reads (conv_prefix env ch h)" by (simp add: conv_prefix_eq)
    show "fst (eoc_clear env x) \<and> reads h \<le> reads (snd (eoc_clear env x))"
      if "reads h \<le> reads x" for x
      using that clr [of "reads x"] by (simp add: eoc_clear_def reg_read_def)
  qed
  then show ?thesis
    using ch by (auto simp add: single_conversion_unfold split: prod.splits)
qed

lemma filtered_conversion_never:
  assumes ch: "ch < ADC_CHANNEL_LAST"
    and clr: "\<And>t. reads h \<le> t \<Longrightarrow> reg_value env t ISR AND push_bit 2 1 = 0"
  shows "\<exists>h'. ADC1_filtered_conversion env ch (Some old) h = (ADC_ERROR_TIMEOUT, Some old, h')"
proof -
  from single_conversion_never [OF ch clr, where old = 0] obtain h1 where
    "ADC1_single_conversion env ch (Some 0) h = (ADC_ERROR_TIMEOUT, Some 0, h1)" by blast
  then have "conversions env ch 0 (replicate ADC_MEDIAN_FILTER_SIZE 0) h
      = (ADC_ERROR_TIMEOUT, [0, 0, 0, 0, 0, 0, 0, 0, 0], h1)"
    unfolding sample_buf_init
    by (simp add: conversions.simps [of env ch 0] ADC_MEDIAN_FILTER_SIZE_def)
  then show ?thesis
    using ch by (simp add: ADC1_filtered_conversion_def)
qed

subsection \<open>Filtered conversion\<close>

lemma filtered_conversion_run:
  assumes ch: "ch < ADC_CHANNEL_LAST"
    and run: "ADC1_filtered_conversion env ch (Some old) h = (st, r, h')"
  shows "reads h \<le> reads h'"
    and "reads h' \<le> reads h + ADC_MEDIAN_FILTER_SIZE * (5 + Suc ADC_TIMEOUT_COUNT)"
    and "(st = ADC_SUCCESS \<and> (\<exists>v. r = Some v)) \<or> (st = ADC_ERROR_TIMEOUT \<and> r = Some old)"
proof -
  from filtered_conversion_unfold [OF ch, of env h old]
  obtain st1 buf h1 where
    cv: "conversions env ch 0 (replicate ADC_MEDIAN_FILTER_SIZE 0) h = (st1, buf, h1)"
    and fc: "ADC1_filtered_conversion env ch (Some old) h =
       (if st1 = ADC_SUCCESS then (ADC_SUCCESS, Some (center_average buf), h1)
        else (ADC_ERROR_TIMEOUT, Some old, h1))" by blast
  from fc run have h': "h' = h1" by (simp split: if_splits)
  from conversions_basic [OF ch cv] h'
  show "reads h \<le> reads h'"
    and "reads h' \<le> reads h + ADC_MEDIAN_FILTER_SIZE * (5 + Suc ADC_TIMEOUT_COUNT)"
    by simp_all
  from fc run
  show "(st = ADC_SUCCESS \<and> (\<exists>v. r = Some v)) \<or> (st = ADC_ERROR_TIMEOUT \<and> r = Some old)"
    by (auto split: if_splits)
qed










subsection \<open>The steps of a measurement pass\<close>

lemma switch_off_eq:
  "ADC1_switch_off env h =
     h\<lparr>reads := reads h + 2,
       trace := trace h @
         [RegWrite CCR (reg_value env (reads h) CCR AND NOT (push_bit 22 3))] @
         (if hw1_1 env then [GpioWrite GPIO_MNTR_EN 0] else []) @
         [RegWrite CR (reg_value env (reads h + 1) CR OR push_bit 1 1)]\<rparr>"
  by (simp add: ADC1_switch_off_def hw_defs Let_def)

lemma bit_sources_off:
  "\<not> bit (x AND NOT (push_bit 22 3) :: u32) 22" "\<not> bit (x AND NOT (push_bit 22 3) :: u32) 23"
  by (simp_all add: bit_and_iff bit_not_iff bit_push_bit_iff)

lemma bit_disable: "bit (x OR push_bit 1 1 :: u32) 1"
  by (simp add: bit_or_iff bit_push_bit_iff)

lemma switch_off_teardown: "teardown_ran env (trace (ADC1_switch_off env h))"
  using bit_sources_off bit_disable
  by (simp add: switch_off_eq teardown_ran_def)



lemma compute_vrefint_run:
  assumes "ADC1_compute_vrefint env h ctx = (st, h', ctx')"
  shows "(st = ADC_SUCCESS \<and> (\<exists>v. ADC1_filtered_conversion env ADC_CHANNEL_VREFINT
              (Some (vrefint_12bits ctx)) h = (ADC_SUCCESS, Some v, h')
            \<and> ctx' = ctx\<lparr>vrefint_12bits := v\<rparr>))
       \<or> (st = ADC_ERROR_TIMEOUT \<and> ctx' = ctx)"
    and "reads h \<le> reads h'"
    and "reads h' \<le> reads h + ADC_MEDIAN_FILTER_SIZE * (5 + Suc ADC_TIMEOUT_COUNT)"
proof -
  have ch: "ADC_CHANNEL_VREFINT < ADC_CHANNEL_LAST"
    by (simp add: ADC_CHANNEL_VREFINT_def ADC_CHANNEL_LAST_def)
  obtain r where fc: "ADC1_filtered_conversion env ADC_CHANNEL_VREFINT (Some (vrefint_12bits ctx)) h
      = (st, r, h')" and c: "ctx' = (case r of Some v \<Rightarrow> ctx\<lparr>vrefint_12bits := v\<rparr> | None \<Rightarrow> ctx)"
    using assms by (auto simp add: ADC1_compute_vrefint_def split: prod.splits)
  from filtered_conversion_run [OF ch fc]
  show "reads h \<le> reads h'"
    and "reads h' \<le> reads h + ADC_MEDIAN_FILTER_SIZE * (5 + Suc ADC_TIMEOUT_COUNT)"
    by simp_all
  from filtered_conversion_run(3) [OF ch fc] fc c
  show "(st = ADC_SUCCESS \<and> (\<exists>v. ADC1_filtered_conversion env ADC_CHANNEL_VREFINT
              (Some (vrefint_12bits ctx)) h = (ADC_SUCCESS, Some v, h')
            \<and> ctx' = ctx\<lparr>vrefint_12bits := v\<rparr>))
       \<or> (st = ADC_ERROR_TIMEOUT \<and> ctx' = ctx)"
    by auto
qed

lemma compute_vmcu_eq:
  "ADC1_compute_vmcu cal ctx =
     (if vrefint_12bits ctx = 0 then Inl DivisionByZero
      else Inr (ctx\<lparr>data := (data ctx)[ADC_DATA_INDEX_VMCU_MV :=
                  (VREFINT_CAL cal * VREFINT_VCC_CALIB_MV cal) div vrefint_12bits ctx]\<rparr>))"
  by (simp add: ADC1_compute_vmcu_def udiv32_def)

lemma compute_tmcu_failed:
  assumes "ADC1_filtered_conversion env ADC_CHANNEL_TMCU (Some 0) h = (st, r, h')"
    and "st \<noteq> ADC_SUCCESS"
  shows "ADC1_compute_tmcu cal env h ctx = Inr (st, h', ctx)"
  using assms by (simp add: ADC1_compute_tmcu_def)

lemma compute_tmcu_ok:
  assumes "ADC1_filtered_conversion env ADC_CHANNEL_TMCU (Some 0) h = (ADC_SUCCESS, Some raw, h')"
    and "TS_VCC_CALIB_MV cal \<noteq> 0" and "TS_CAL2 cal \<noteq> TS_CAL1 cal"
  shows "ADC1_compute_tmcu cal env h ctx =
     Inr (ADC_SUCCESS, h',
          ctx\<lparr>tmcu_degrees := ucast
            (word_of_int (sint (((raw * (data ctx ! ADC_DATA_INDEX_VMCU_MV)) div TS_VCC_CALIB_MV cal
                                  - TS_CAL1 cal) * (TS_CAL2_TEMP cal - TS_CAL1_TEMP cal))
                          sdiv sint (TS_CAL2 cal - TS_CAL1 cal))
             + TS_CAL1_TEMP cal :: u32)\<rparr>)"
  using assms by (simp add: ADC1_compute_tmcu_def udiv32_def sdiv32_def Let_def)

lemma compute_tmcu_run:
  assumes cal: "TS_VCC_CALIB_MV cal \<noteq> 0" "TS_CAL2 cal \<noteq> TS_CAL1 cal"
  obtains st h' ctx' where "ADC1_compute_tmcu cal env h ctx = Inr (st, h', ctx')"
    "data ctx' = data ctx" "vrefint_12bits ctx' = vrefint_12bits ctx"
    "st \<noteq> ADC_SUCCESS \<Longrightarrow> ctx' = ctx"
    "st = ADC_SUCCESS \<or> st = ADC_ERROR_TIMEOUT"
    "reads h \<le> reads h'"
    "reads h' \<le> reads h + ADC_MEDIAN_FILTER_SIZE * (5 + Suc ADC_TIMEOUT_COUNT)"
    "\<exists>r. ADC1_filtered_conversion env ADC_CHANNEL_TMCU (Some 0) h = (st, r, h')"
proof -
  obtain st r h' where fc: "ADC1_filtered_conversion env ADC_CHANNEL_TMCU (Some 0) h = (st, r, h')"
    by (cases "ADC1_filtered_conversion env ADC_CHANNEL_TMCU (Some 0) h")
  note run = filtered_conversion_run [OF channels_valid(2) fc]
  show ?thesis
  proof (cases "st = ADC_SUCCESS")
    case False
    from compute_tmcu_failed [OF fc False] run False fc that show ?thesis by blast
  next
    case True
    with run(3) obtain raw where r: "r = Some raw" by auto
    define c where "c = ctx\<lparr>tmcu_degrees := ucast
            (word_of_int (sint (((raw * (data ctx ! ADC_DATA_INDEX_VMCU_MV)) div TS_VCC_CALIB_MV cal
                                  - TS_CAL1 cal) * (TS_CAL2_TEMP cal - TS_CAL1_TEMP cal))
                          sdiv sint (TS_CAL2 cal - TS_CAL1 cal))
             + TS_CAL1_TEMP cal :: u32)\<rparr>"
    from compute_tmcu_ok [OF fc [unfolded True r] cal, of ctx] True
    have e: "ADC1_compute_tmcu cal env h ctx = Inr (st, h', c)"
      unfolding c_def by simp
    show ?thesis
    proof (rule that [OF e])
      show "\<exists>r. ADC1_filtered_conversion env ADC_CHANNEL_TMCU (Some 0) h = (st, r, h')"
        using fc by blast
    qed (use run True in \<open>simp_all add: c_def\<close>)
  qed
qed

lemma compute_vusb_failed:
  assumes "ADC1_filtered_conversion env ADC_CHANNEL_VUSB (Some 0) h = (st, r, h')"
    and "st \<noteq> ADC_SUCCESS"
  shows "ADC1_compute_vusb cal env h ctx = Inr (st, h', ctx)"
  using assms by (simp add: ADC1_compute_vusb_def)

lemma compute_vusb_ok:
  assumes "ADC1_filtered_conversion env ADC_CHANNEL_VUSB (Some 0) h = (ADC_SUCCESS, Some raw, h')"
    and "vrefint_12bits ctx \<noteq> 0"
  shows "ADC1_compute_vusb cal env h ctx =
     Inr (ADC_SUCCESS, h',
          ctx\<lparr>data := (data ctx)[ADC_DATA_INDEX_VUSB_MV :=
            (ADC_VREFINT_VOLTAGE_MV cal * raw * ADC_VOLTAGE_DIVIDER_RATIO_VUSB)
              div vrefint_12bits ctx]\<rparr>)"
  using assms by (simp add: ADC1_compute_vusb_def udiv32_def Let_def)

lemma compute_vusb_zero:
  assumes "ADC1_filtered_conversion env ADC_CHANNEL_VUSB (Some 0) h = (ADC_SUCCESS, r, h')"
    and "vrefint_12bits ctx = 0"
  shows "ADC1_compute_vusb cal env h ctx = Inl DivisionByZero"
  using assms by (simp add: ADC1_compute_vusb_def udiv32_def Let_def)

lemma compute_vrs_failed:
  assumes "ADC1_filtered_conversion env ADC_CHANNEL_VRS (Some 0) h = (st, r, h')"
    and "st \<noteq> ADC_SUCCESS"
  shows "ADC1_compute_vrs cal env h ctx = Inr (st, h', ctx)"
  using assms by (simp add: ADC1_compute_vrs_def)

lemma compute_vrs_ok:
  assumes "ADC1_filtered_conversion env ADC_CHANNEL_VRS (Some 0) h = (ADC_SUCCESS, Some raw, h')"
    and "vrefint_12bits ctx \<noteq> 0"
  shows "ADC1_compute_vrs cal env h ctx =
     Inr (ADC_SUCCESS, h',
          ctx\<lparr>data := (data ctx)[ADC_DATA_INDEX_VRS_MV :=
            (ADC_VREFINT_VOLTAGE_MV cal * raw * ADC_VOLTAGE_DIVIDER_RATIO_VRS)
              div vrefint_12bits ctx]\<rparr>)"
  using assms by (simp add: ADC1_compute_vrs_def udiv32_def Let_def)

lemma compute_vrs_zero:
  assumes "ADC1_filtered_conversion env ADC_CHANNEL_VRS (Some 0) h = (ADC_SUCCESS, r, h')"
    and "vrefint_12bits ctx = 0"
  shows "ADC1_compute_vrs cal env h ctx = Inl DivisionByZero"
  using assms by (simp add: ADC1_compute_vrs_def udiv32_def Let_def)

lemma compute_vusb_run:
  assumes v: "vrefint_12bits ctx \<noteq> 0"
  obtains st h' ctx' where "ADC1_compute_vusb cal env h ctx = Inr (st, h', ctx')"
    "vrefint_12bits ctx' = vrefint_12bits ctx" "tmcu_degrees ctx' = tmcu_degrees ctx"
    "length (data ctx') = length (data ctx)"
    "\<And>i. i \<noteq> ADC_DATA_INDEX_VUSB_MV \<Longrightarrow> data ctx' ! i = data ctx ! i"
    "st \<noteq> ADC_SUCCESS \<Longrightarrow> ctx' = ctx"
    "st = ADC_SUCCESS \<or> st = ADC_ERROR_TIMEOUT"
    "reads h \<le> reads h'"
    "reads h' \<le> reads h + ADC_MEDIAN_FILTER_SIZE * (5 + Suc ADC_TIMEOUT_COUNT)"
    "\<exists>r. ADC1_filtered_conversion env ADC_CHANNEL_VUSB (Some 0) h = (st, r, h')"
proof -
  obtain st r h' where fc: "ADC1_filtered_conversion env ADC_CHANNEL_VUSB (Some 0) h = (st, r, h')"
    by (cases "ADC1_filtered_conversion env ADC_CHANNEL_VUSB (Some 0) h")
  note run = filtered_conversion_run [OF channels_valid(3) fc]
  show ?thesis
  proof (cases "st = ADC_SUCCESS")
    case False
    from compute_vusb_failed [OF fc False] run False fc that show ?thesis by blast
  next
    case True
    with run(3) obtain raw where r: "r = Some raw" by auto
    define c where "c = ctx\<lparr>data := (data ctx)[ADC_DATA_INDEX_VUSB_MV :=
            (ADC_VREFINT_VOLTAGE_MV cal * raw * ADC_VOLTAGE_DIVIDER_RATIO_VUSB)
              div vrefint_12bits ctx]\<rparr>"
    from compute_vusb_ok [OF fc [unfolded True r] v, of cal] True
    have e: "ADC1_compute_vusb cal env h ctx = Inr (st, h', c)"
      unfolding c_def by simp
    show ?thesis
    proof (rule that [OF e])
      show "\<exists>r. ADC1_filtered_conversion env ADC_CHANNEL_VUSB (Some 0) h = (st, r, h')"
        using fc by blast
    qed (use run True in \<open>simp_all add: c_def\<close>)
  qed
qed

lemma compute_vrs_run:
  assumes v: "vrefint_12bits ctx \<noteq> 0"
  obtains st h' ctx' where "ADC1_compute_vrs cal env h ctx = Inr (st, h', ctx')"
    "vrefint_12bits ctx' = vrefint_12bits ctx" "tmcu_degrees ctx' = tmcu_degrees ctx"
    "length (data ctx') = length (data ctx)"
    "\<And>i. i \<noteq> ADC_DATA_INDEX_VRS_MV \<Longrightarrow> data ctx' ! i = data ctx ! i"
    "st \<noteq> ADC_SUCCESS \<Longrightarrow> ctx' = ctx"
    "st = ADC_SUCCESS \<or> st = ADC_ERROR_TIMEOUT"
    "reads h \<le> reads h'"
    "reads h' \<le> reads h + ADC_MEDIAN_FILTER_SIZE * (5 + Suc ADC_TIMEOUT_COUNT)"
    "\<exists>r. ADC1_filtered_conversion env ADC_CHANNEL_VRS (Some 0) h = (st, r, h')"
proof -
  obtain st r h' where fc: "ADC1_filtered_conversion env ADC_CHANNEL_VRS (Some 0) h = (st, r, h')"
    by (cases "ADC1_filtered_conversion env ADC_CHANNEL_VRS (Some 0) h")
  note run = filtered_conversion_run [OF channels_valid(4) fc]
  show ?thesis
  proof (cases "st = ADC_SUCCESS")
    case False
    from compute_vrs_failed [OF fc False] run False fc that show ?thesis by blast
  next
    case True
    with run(3) obtain raw where r: "r = Some raw" by auto
    define c where "c = ctx\<lparr>data := (data ctx)[ADC_DATA_INDEX_VRS_MV :=
            (ADC_VREFINT_VOLTAGE_MV cal * raw * ADC_VOLTAGE_DIVIDER_RATIO_VRS)
              div vrefint_12bits ctx]\<rparr>"
    from compute_vrs_ok [OF fc [unfolded True r] v, of cal] True
    have e: "ADC1_compute_vrs cal env h ctx = Inr (st, h', c)"
      unfolding c_def by simp
    show ?thesis
    proof (rule that [OF e])
      show "\<exists>r. ADC1_filtered_conversion env ADC_CHANNEL_VRS (Some 0) h = (st, r, h')"
        using fc by blast
    qed (use run True in \<open>simp_all add: c_def\<close>)
  qed
qed

subsection \<open>The paths through the acquisition\<close>

lemma acquire_enable_failed:
  assumes "ADC1_enable env h = (st, h1)" "st \<noteq> ADC_SUCCESS"
  shows "ADC1_acquire cal env h ctx = Inr (st, h1, ctx)"
  using assms by (simp add: ADC1_acquire_def)

lemma acquire_delay_failed:
  assumes "ADC1_enable env h = (ADC_SUCCESS, h1)" "ADC1_wake_up env h1 = (e, h2)"
    "e \<noteq> LPTIM_SUCCESS"
  shows "ADC1_acquire cal env h ctx = Inr (ADC_ERROR_BASE_LPTIM e, h2, ctx)"
  using assms by (simp add: ADC1_acquire_def)

lemma acquire_vrefint_failed:
  assumes "ADC1_enable env h = (ADC_SUCCESS, h1)" "ADC1_wake_up env h1 = (LPTIM_SUCCESS, h2)"
    "ADC1_compute_vrefint env h2 ctx = (st, h3, ctx1)" "st \<noteq> ADC_SUCCESS"
  shows "ADC1_acquire cal env h ctx = Inr (st, h3, ctx1)"
  using assms by (simp add: ADC1_acquire_def)

lemma acquire_vmcu_fault:
  assumes "ADC1_enable env h = (ADC_SUCCESS, h1)" "ADC1_wake_up env h1 = (LPTIM_SUCCESS, h2)"
    "ADC1_compute_vrefint env h2 ctx = (ADC_SUCCESS, h3, ctx1)"
    "ADC1_compute_vmcu cal ctx1 = Inl f"
  shows "ADC1_acquire cal env h ctx = Inl f"
  using assms by (simp add: ADC1_acquire_def)

lemma acquire_measured:
  assumes "ADC1_enable env h = (ADC_SUCCESS, h1)" "ADC1_wake_up env h1 = (LPTIM_SUCCESS, h2)"
    "ADC1_compute_vrefint env h2 ctx = (ADC_SUCCESS, h3, ctx1)"
    "ADC1_compute_vmcu cal ctx1 = Inr ctx2"
  shows "ADC1_acquire cal env h ctx =
     (case ADC1_compute_tmcu cal env h3 ctx2 of
        Inl f \<Rightarrow> Inl f
      | Inr (status, h4, ctx3) \<Rightarrow>
          if status \<noteq> ADC_SUCCESS then Inr (status, h4, ctx3)
          else
            (case ADC1_compute_vusb cal env h4 ctx3 of
               Inl f \<Rightarrow> Inl f
             | Inr (status, h5, ctx4) \<Rightarrow>
                 if status \<noteq> ADC_SUCCESS then Inr (status, h5, ctx4)
                 else ADC1_compute_vrs cal env h5 ctx4))"
  using assms by (simp add: ADC1_acquire_def)

lemma acquire_tmcu_failed:
  assumes "ADC1_enable env h = (ADC_SUCCESS, h1)" "ADC1_wake_up env h1 = (LPTIM_SUCCESS, h2)"
    "ADC1_compute_vrefint env h2 ctx = (ADC_SUCCESS, h3, ctx1)"
    "ADC1_compute_vmcu cal ctx1 = Inr ctx2"
    "ADC1_compute_tmcu cal env h3 ctx2 = Inr (st, h4, ctx3)" "st \<noteq> ADC_SUCCESS"
  shows "ADC1_acquire cal env h ctx = Inr (st, h4, ctx3)"
  using assms by (simp add: acquire_measured)

lemma acquire_vusb_failed:
  assumes "ADC1_enable env h = (ADC_SUCCESS, h1)" "ADC1_wake_up env h1 = (LPTIM_SUCCESS, h2)"
    "ADC1_compute_vrefint env h2 ctx = (ADC_SUCCESS, h3, ctx1)"
    "ADC1_compute_vmcu cal ctx1 = Inr ctx2"
    "ADC1_compute_tmcu cal env h3 ctx2 = Inr (ADC_SUCCESS, h4, ctx3)"
    "ADC1_compute_vusb cal env h4 ctx3 = Inr (st, h5, ctx4)" "st \<noteq> ADC_SUCCESS"
  shows "ADC1_acquire cal env h ctx = Inr (st, h5, ctx4)"
  using assms by (simp add: acquire_measured)

lemma acquire_vrs:
  assumes "ADC1_enable env h = (ADC_SUCCESS, h1)" "ADC1_wake_up env h1 = (LPTIM_SUCCESS, h2)"
    "ADC1_compute_vrefint env h2 ctx = (ADC_SUCCESS, h3, ctx1)"
    "ADC1_compute_vmcu cal ctx1 = Inr ctx2"
    "ADC1_compute_tmcu cal env h3 ctx2 = Inr (ADC_SUCCESS, h4, ctx3)"
    "ADC1_compute_vusb cal env h4 ctx3 = Inr (ADC_SUCCESS, h5, ctx4)"
  shows "ADC1_acquire cal env h ctx = ADC1_compute_vrs cal env h5 ctx4"
  using assms by (simp add: acquire_measured)

lemma perform_eq:
  "ADC1_acquire cal env h ctx = Inr (st, h1, ctx1) \<Longrightarrow>
   ADC1_perform_measurements cal env h ctx = Inr (st, ADC1_switch_off env h1, ctx1)"
  "ADC1_acquire cal env h ctx = Inl f \<Longrightarrow> ADC1_perform_measurements cal env h ctx = Inl f"
  by (simp_all add: ADC1_perform_measurements_def)

text \<open>Faults are divisions by zero.\<close>

lemma compute_tmcu_fault: "ADC1_compute_tmcu cal env h ctx = Inl f \<Longrightarrow> f = DivisionByZero"
  by (auto simp add: ADC1_compute_tmcu_def udiv32_def sdiv32_def Let_def
      split: prod.splits if_splits)

lemma compute_vusb_fault: "ADC1_compute_vusb cal env h ctx = Inl f \<Longrightarrow> f = DivisionByZero"
  by (auto simp add: ADC1_compute_vusb_def udiv32_def Let_def split: prod.splits if_splits)

lemma compute_vrs_fault: "ADC1_compute_vrs cal env h ctx = Inl f \<Longrightarrow> f = DivisionByZero"
  by (auto simp add: ADC1_compute_vrs_def udiv32_def Let_def split: prod.splits if_splits)

lemma compute_vmcu_fault: "ADC1_compute_vmcu cal ctx = Inl f \<Longrightarrow> f = DivisionByZero"
  by (auto simp add: compute_vmcu_eq split: if_splits)

lemma acquire_fault: "ADC1_acquire cal env h ctx = Inl f \<Longrightarrow> f = DivisionByZero"
  by (auto simp add: ADC1_acquire_def split: prod.splits if_splits sum.splits
      dest: compute_tmcu_fault compute_vusb_fault compute_vrs_fault compute_vmcu_fault)




subsection \<open>Register reads of the public functions\<close>





subsection \<open>Runs in which the ready flag shows at once\<close>

lemma enable_shown:
  assumes "reg_value env (reads h + 1) ISR AND push_bit 0 1 \<noteq> 0"
  shows "\<exists>h'. ADC1_enable env h = (ADC_SUCCESS, h') \<and> reads h' = reads h + 2"
proof -
  let ?h1 = "reg_or env CR (push_bit 0 1) h"
  have "fst (adrdy_clear env ?h1) = False"
    using assms by (simp add: adrdy_clear_def hw_defs)
  then have "busy_wait (adrdy_clear env) 0 ?h1 = (False, 0, snd (adrdy_clear env ?h1))"
    by (rule busy_wait_immediate)
  then show ?thesis
    by (simp add: ADC1_enable_def Let_def adrdy_clear_def hw_defs)
qed

lemma wake_up_shown:
  "\<exists>h'. ADC1_wake_up env h = (delay_status env (reads h + 1), h') \<and> reads h' = reads h + 1"
  by (simp add: ADC1_wake_up_def Let_def hw_defs)

subsection \<open>The steps after the bandgap reading\<close>

lemma index_defs_distinct:
  "ADC_DATA_INDEX_VMCU_MV \<noteq> ADC_DATA_INDEX_VUSB_MV" "ADC_DATA_INDEX_VMCU_MV \<noteq> ADC_DATA_INDEX_VRS_MV"
  "ADC_DATA_INDEX_VUSB_MV \<noteq> ADC_DATA_INDEX_VRS_MV"
  "ADC_DATA_INDEX_VMCU_MV < ADC_DATA_INDEX_LAST" "ADC_DATA_INDEX_VUSB_MV < ADC_DATA_INDEX_LAST"
  "ADC_DATA_INDEX_VRS_MV < ADC_DATA_INDEX_LAST"
  by (simp_all add: const_defs)

lemma measure_inputs:
  assumes nz: "vrefint_12bits ctx3 \<noteq> 0"
  obtains st h' ctx' where
    "(case ADC1_compute_vusb cal env h4 ctx3 of
        Inl f \<Rightarrow> Inl f
      | Inr (status, h5, ctx4) \<Rightarrow>
          if status \<noteq> ADC_SUCCESS then Inr (status, h5, ctx4)
          else ADC1_compute_vrs cal env h5 ctx4) = Inr (st, h', ctx')"
    "vrefint_12bits ctx' = vrefint_12bits ctx3" "tmcu_degrees ctx' = tmcu_degrees ctx3"
    "length (data ctx') = length (data ctx3)"
    "data ctx' ! ADC_DATA_INDEX_VMCU_MV = data ctx3 ! ADC_DATA_INDEX_VMCU_MV"
proof -
  obtain st5 h5 ctx4 where us: "ADC1_compute_vusb cal env h4 ctx3 = Inr (st5, h5, ctx4)"
    and f5: "vrefint_12bits ctx4 = vrefint_12bits ctx3" "tmcu_degrees ctx4 = tmcu_degrees ctx3"
      "length (data ctx4) = length (data ctx3)"
      "data ctx4 ! ADC_DATA_INDEX_VMCU_MV = data ctx3 ! ADC_DATA_INDEX_VMCU_MV"
  proof (rule compute_vusb_run [OF nz, of cal env h4], goal_cases)
    case (1 st h' ctx')
    from 1(6) [OF index_defs_distinct(1)] 1(2-5) show ?case by (intro that [of st h' ctx'])
  qed
  show ?thesis
  proof (cases "st5 = ADC_SUCCESS")
    case False
    with us f5 show ?thesis by (intro that [of st5 h5 ctx4]) simp_all
  next
    case True
    from nz f5(1) have nz4: "vrefint_12bits ctx4 \<noteq> 0" by simp
    obtain st6 h6 ctx5 where rs: "ADC1_compute_vrs cal env h5 ctx4 = Inr (st6, h6, ctx5)"
      and f6: "vrefint_12bits ctx5 = vrefint_12bits ctx4" "tmcu_degrees ctx5 = tmcu_degrees ctx4"
        "length (data ctx5) = length (data ctx4)"
        "data ctx5 ! ADC_DATA_INDEX_VMCU_MV = data ctx4 ! ADC_DATA_INDEX_VMCU_MV"
    proof (rule compute_vrs_run [OF nz4, of cal env h5], goal_cases)
      case (1 st h' ctx')
      from 1(6) [OF index_defs_distinct(2)] 1(2-5) show ?case by (intro that [of st h' ctx'])
    qed
    from us True rs f5 f6 show ?thesis by (intro that [of st6 h6 ctx5]) simp_all
  qed
qed

lemma measure_from_tmcu:
  assumes nz: "vrefint_12bits ctx2 \<noteq> 0"
    and cal: "TS_VCC_CALIB_MV cal \<noteq> 0" "TS_CAL2 cal \<noteq> TS_CAL1 cal"
  obtains st h' ctx' where
    "(case ADC1_compute_tmcu cal env h3 ctx2 of
        Inl f \<Rightarrow> Inl f
      | Inr (status, h4, ctx3) \<Rightarrow>
          if status \<noteq> ADC_SUCCESS then Inr (status, h4, ctx3)
          else
            (case ADC1_compute_vusb cal env h4 ctx3 of
               Inl f \<Rightarrow> Inl f
             | Inr (status, h5, ctx4) \<Rightarrow>
                 if status \<noteq> ADC_SUCCESS then Inr (status, h5, ctx4)
                 else ADC1_compute_vrs cal env h5 ctx4)) = Inr (st, h', ctx')"
    "vrefint_12bits ctx' = vrefint_12bits ctx2"
    "length (data ctx') = length (data ctx2)"
    "data ctx' ! ADC_DATA_INDEX_VMCU_MV = data ctx2 ! ADC_DATA_INDEX_VMCU_MV"
proof -
  obtain st4 h4 ctx3 where tm: "ADC1_compute_tmcu cal env h3 ctx2 = Inr (st4, h4, ctx3)"
    and f4: "data ctx3 = data ctx2" "vrefint_12bits ctx3 = vrefint_12bits ctx2"
  proof (rule compute_tmcu_run [OF cal, of env h3 ctx2], goal_cases)
    case (1 st h' ctx')
    from 1(2-4) show ?case by (intro that [of st h' ctx'])
  qed
  show ?thesis
  proof (cases "st4 = ADC_SUCCESS")
    case False
    with tm f4 show ?thesis by (intro that [of st4 h4 ctx3]) simp_all
  next
    case True
    from nz f4(2) have nz3: "vrefint_12bits ctx3 \<noteq> 0" by simp
    show ?thesis
    proof (rule measure_inputs [OF nz3, of cal env h4], goal_cases)
      case (1 st h' ctx')
      from 1(1-5) tm True f4 show ?case by (intro that [of st h' ctx']) simp_all
    qed
  qed
qed

subsection \<open>Supply voltage and the division by the bandgap reading\<close>

lemma compute_vrefint_ok:
  assumes "ADC1_filtered_conversion env ADC_CHANNEL_VREFINT (Some (vrefint_12bits ctx)) h
             = (ADC_SUCCESS, Some v, h')"
  shows "ADC1_compute_vrefint env h ctx = (ADC_SUCCESS, h', ctx\<lparr>vrefint_12bits := v\<rparr>)"
  using assms by (simp add: ADC1_compute_vrefint_def)

lemma acquire_nonzero:
  assumes en: "ADC1_enable env h = (ADC_SUCCESS, h1)"
    and wk: "ADC1_wake_up env h1 = (LPTIM_SUCCESS, h2)"
    and vr: "ADC1_filtered_conversion env ADC_CHANNEL_VREFINT (Some (vrefint_12bits ctx)) h2
               = (ADC_SUCCESS, Some v, h3)"
    and nz: "v \<noteq> 0"
    and cal: "TS_VCC_CALIB_MV cal \<noteq> 0" "TS_CAL2 cal \<noteq> TS_CAL1 cal"
  obtains st h' ctx' where "ADC1_acquire cal env h ctx = Inr (st, h', ctx')"
    "vrefint_12bits ctx' = v" "length (data ctx') = length (data ctx)"
    "data ctx' ! ADC_DATA_INDEX_VMCU_MV =
       (data ctx)[ADC_DATA_INDEX_VMCU_MV := (VREFINT_CAL cal * VREFINT_VCC_CALIB_MV cal) div v]
         ! ADC_DATA_INDEX_VMCU_MV"
proof -
  let ?ctx1 = "ctx\<lparr>vrefint_12bits := v\<rparr>"
  let ?ctx2 = "?ctx1\<lparr>data := (data ?ctx1)[ADC_DATA_INDEX_VMCU_MV :=
                  (VREFINT_CAL cal * VREFINT_VCC_CALIB_MV cal) div vrefint_12bits ?ctx1]\<rparr>"
  have vm: "ADC1_compute_vmcu cal ?ctx1 = Inr ?ctx2"
    using nz by (simp add: compute_vmcu_eq)
  note m = acquire_measured [OF en wk compute_vrefint_ok [OF vr] vm]
  have nz2: "vrefint_12bits ?ctx2 \<noteq> 0" using nz by simp
  show ?thesis
  proof (rule measure_from_tmcu [OF nz2 cal, of env h3], goal_cases)
    case (1 st h' ctx')
    from 1(1) m have "ADC1_acquire cal env h ctx = Inr (st, h', ctx')" by simp
    with 1(2-4) show ?case by (intro that [of st h' ctx']) simp_all
  qed
qed

text \<open>
  C6, as the code has it. \<open>ADC1_perform_measurements\<close> has no guard on the bandgap
  reading. With non-zero calibration constants, a run divides by zero exactly when the
  bandgap acquisition succeeds with the reading 0, and it does so in the supply-voltage
  derivation; a run that succeeds has divided by a non-zero reading throughout.
\<close>

theorem division_by_zero_iff:
  assumes cal: "TS_VCC_CALIB_MV cal \<noteq> 0" "TS_CAL2 cal \<noteq> TS_CAL1 cal"
  shows "(ADC1_perform_measurements cal env h ctx = Inl f \<longleftrightarrow>
            f = DivisionByZero
            \<and> (\<exists>h1 h2 h3. ADC1_enable env h = (ADC_SUCCESS, h1)
                  \<and> ADC1_wake_up env h1 = (LPTIM_SUCCESS, h2)
                  \<and> ADC1_filtered_conversion env ADC_CHANNEL_VREFINT (Some (vrefint_12bits ctx)) h2
                      = (ADC_SUCCESS, Some 0, h3)
                  \<and> ADC1_compute_vmcu cal (ctx\<lparr>vrefint_12bits := 0\<rparr>) = Inl DivisionByZero))
       \<and> (ADC1_perform_measurements cal env h ctx = Inr (ADC_SUCCESS, h', ctx') \<longrightarrow>
            vrefint_12bits ctx' \<noteq> 0)"
proof -
  obtain st0 h1 where en: "ADC1_enable env h = (st0, h1)" by (cases "ADC1_enable env h")
  obtain e h2 where wk: "ADC1_wake_up env h1 = (e, h2)" by (cases "ADC1_wake_up env h1")
  obtain st3 h3 ctx1 where vr: "ADC1_compute_vrefint env h2 ctx = (st3, h3, ctx1)"
    by (cases "ADC1_compute_vrefint env h2 ctx")
  let ?zero = "\<exists>h1 h2 h3. ADC1_enable env h = (ADC_SUCCESS, h1)
                  \<and> ADC1_wake_up env h1 = (LPTIM_SUCCESS, h2)
                  \<and> ADC1_filtered_conversion env ADC_CHANNEL_VREFINT (Some (vrefint_12bits ctx)) h2
                      = (ADC_SUCCESS, Some 0, h3)
                  \<and> ADC1_compute_vmcu cal (ctx\<lparr>vrefint_12bits := 0\<rparr>) = Inl DivisionByZero"
  have vm0: "ADC1_compute_vmcu cal (ctx\<lparr>vrefint_12bits := 0\<rparr>) = Inl DivisionByZero"
    by (simp add: compute_vmcu_eq)
  consider (stop) st x where "ADC1_acquire cal env h ctx = Inr (st, x, ctx)" "st \<noteq> ADC_SUCCESS"
      "\<not> ?zero"
    | (zero) "ADC1_acquire cal env h ctx = Inl DivisionByZero" "?zero"
    | (measured) st x c where "ADC1_acquire cal env h ctx = Inr (st, x, c)"
      "vrefint_12bits c \<noteq> 0" "\<not> ?zero"
  proof (cases "st0 = ADC_SUCCESS")
    case False
    from acquire_enable_failed [OF en False, of cal ctx] False en show ?thesis
      by (intro stop [of st0 h1]) auto
  next
    case en_ok: True
    show ?thesis
    proof (cases "e = LPTIM_SUCCESS")
      case False
      from acquire_delay_failed [OF en [unfolded en_ok] wk False, of cal ctx] False en wk
      show ?thesis by (intro stop [of "ADC_ERROR_BASE_LPTIM e" h2]) auto
    next
      case wk_ok: True
      from compute_vrefint_run(1) [OF vr] show ?thesis
      proof (elim disjE conjE exE)
        assume t: "st3 = ADC_ERROR_TIMEOUT" "ctx1 = ctx"
        then have ne: "st3 \<noteq> ADC_SUCCESS" by simp
        from vr t have "\<And>v x. ADC1_filtered_conversion env ADC_CHANNEL_VREFINT
            (Some (vrefint_12bits ctx)) h2 \<noteq> (ADC_SUCCESS, Some v, x)"
          by (auto simp add: ADC1_compute_vrefint_def split: prod.splits)
        with acquire_vrefint_failed [OF en [unfolded en_ok] wk [unfolded wk_ok] vr ne, of cal]
          t en en_ok wk wk_ok
        show ?thesis by (intro stop [of st3 h3]) auto
      next
        fix v assume s: "st3 = ADC_SUCCESS"
          and fc: "ADC1_filtered_conversion env ADC_CHANNEL_VREFINT (Some (vrefint_12bits ctx)) h2
                     = (ADC_SUCCESS, Some v, h3)"
          and c1: "ctx1 = ctx\<lparr>vrefint_12bits := v\<rparr>"
        show ?thesis
        proof (cases "v = 0")
          case True
          from acquire_vmcu_fault [OF en [unfolded en_ok] wk [unfolded wk_ok]
              vr [unfolded s c1 True] vm0]
          have "ADC1_acquire cal env h ctx = Inl DivisionByZero" .
          moreover from en en_ok wk wk_ok fc True vm0 have "?zero" by blast
          ultimately show ?thesis by (rule zero)
        next
          case False
          have nzero: "\<not> ?zero"
            using en en_ok wk wk_ok fc False by auto
          show ?thesis
          proof (rule acquire_nonzero [OF en [unfolded en_ok] wk [unfolded wk_ok] fc False cal,
                of ], goal_cases)
            case (1 st x c)
            with False nzero show ?case by (intro measured [of st x c]) simp_all
          qed
        qed
      qed
    qed
  qed
  then show ?thesis
  proof cases
    case stop
    then show ?thesis by (auto simp add: perform_eq)
  next
    case zero
    then show ?thesis by (auto simp add: perform_eq)
  next
    case measured
    then show ?thesis by (auto simp add: perform_eq)
  qed
qed

lemma run_to_vrefint:
  assumes rdy: "reg_value env 1 ISR AND push_bit 0 1 \<noteq> 0"
    and dly: "delay_status env 3 = LPTIM_SUCCESS"
    and eoc: "\<And>t. t < 57 \<Longrightarrow> reg_value env t ISR AND push_bit 2 1 \<noteq> 0"
    and dr: "\<And>t. reg_value env t DR = c"
  obtains h1 h2 h3 where "ADC1_enable env hw_start = (ADC_SUCCESS, h1)"
    "ADC1_wake_up env h1 = (LPTIM_SUCCESS, h2)"
    "ADC1_filtered_conversion env ADC_CHANNEL_VREFINT (Some old) h2 = (ADC_SUCCESS, Some c, h3)"
    "reads h3 = 57"
proof -
  from enable_shown [of env hw_start] rdy
  obtain h1 where en: "ADC1_enable env hw_start = (ADC_SUCCESS, h1)" and r1: "reads h1 = 2"
    by (auto simp add: hw_start_def)
  from wake_up_shown [of env h1] dly r1
  obtain h2 where wk: "ADC1_wake_up env h1 = (LPTIM_SUCCESS, h2)" and r2: "reads h2 = 3"
    by auto
  have "\<exists>h'. ADC1_filtered_conversion env ADC_CHANNEL_VREFINT (Some old) h2
      = (ADC_SUCCESS, Some c, h') \<and> reads h' = reads h2 + 54"
    by (rule filtered_conversion_shown [OF channels_valid(1)]) (use r2 eoc dr in auto)
  then obtain h3 where "ADC1_filtered_conversion env ADC_CHANNEL_VREFINT (Some old) h2
      = (ADC_SUCCESS, Some c, h3)" "reads h3 = 57"
    using r2 by auto
  with en wk that show ?thesis by blast
qed

theorem division_by_zero_counterexample:
  "ADC1_perform_measurements cal_example env_zero hw_start ctx_example = Inl DivisionByZero"
proof -
  obtain h1 h2 h3 where en: "ADC1_enable env_zero hw_start = (ADC_SUCCESS, h1)"
    and wk: "ADC1_wake_up env_zero h1 = (LPTIM_SUCCESS, h2)"
    and fc: "ADC1_filtered_conversion env_zero ADC_CHANNEL_VREFINT (Some (vrefint_12bits ctx_example)) h2
               = (ADC_SUCCESS, Some 0, h3)"
    by (rule run_to_vrefint [of env_zero 0 "vrefint_12bits ctx_example"])
       (simp_all add: env_zero_def)
  have "ADC1_compute_vmcu cal_example (ctx_example\<lparr>vrefint_12bits := 0\<rparr>) = Inl DivisionByZero"
    by (simp add: compute_vmcu_eq)
  from acquire_vmcu_fault [OF en wk compute_vrefint_ok [OF fc] this]
  show ?thesis by (rule perform_eq)
qed

theorem division_by_zero_iff_witness:
  "TS_VCC_CALIB_MV cal_example \<noteq> 0 \<and> TS_CAL2 cal_example \<noteq> TS_CAL1 cal_example
   \<and> ADC1_perform_measurements cal_example env_prompt hw_start ctx_example \<noteq> Inl DivisionByZero"
proof -
  have cal: "TS_VCC_CALIB_MV cal_example \<noteq> 0" "TS_CAL2 cal_example \<noteq> TS_CAL1 cal_example"
    by (simp_all add: cal_example_def)
  obtain h1 h2 h3 where en: "ADC1_enable env_prompt hw_start = (ADC_SUCCESS, h1)"
    and wk: "ADC1_wake_up env_prompt h1 = (LPTIM_SUCCESS, h2)"
    and fc: "ADC1_filtered_conversion env_prompt ADC_CHANNEL_VREFINT
               (Some (vrefint_12bits ctx_example)) h2 = (ADC_SUCCESS, Some 1500, h3)"
    by (rule run_to_vrefint [of env_prompt 1500 "vrefint_12bits ctx_example"])
       (simp_all add: env_prompt_def)
  from division_by_zero_iff [OF cal, of env_prompt hw_start ctx_example DivisionByZero] en wk fc
  have "ADC1_perform_measurements cal_example env_prompt hw_start ctx_example \<noteq> Inl DivisionByZero"
    by auto
  with cal show ?thesis by simp
qed

text \<open>
  C3, as the code has it. When the bandgap acquisition succeeds with a non-zero reading,
  the run returns and the supply-voltage slot holds
  \<open>(VREFINT_CAL * VREFINT_VCC_CALIB_MV) / vrefint_raw\<close>, whatever the later steps do; with
  the product of the two constants below \<open>2 ^ 31\<close> this is the integer quotient of the
  spec. The derivation is a function of the context alone (no register access, no
  status); it is a division by zero when the reading is 0.
\<close>

theorem supply_voltage_stored:
  assumes en: "ADC1_enable env h = (ADC_SUCCESS, h1)"
    and wk: "ADC1_wake_up env h1 = (LPTIM_SUCCESS, h2)"
    and vr: "ADC1_filtered_conversion env ADC_CHANNEL_VREFINT (Some (vrefint_12bits ctx)) h2
               = (ADC_SUCCESS, Some vrefint_raw, h3)"
    and nz: "vrefint_raw \<noteq> 0"
    and cal: "TS_VCC_CALIB_MV cal \<noteq> 0" "TS_CAL2 cal \<noteq> TS_CAL1 cal"
    and fit: "uint (VREFINT_CAL cal) * uint (VREFINT_VCC_CALIB_MV cal) < 2 ^ 31"
    and wf: "ADC_context_wf ctx"
  shows "\<exists>status h' ctx'. ADC1_perform_measurements cal env h ctx = Inr (status, h', ctx')
           \<and> vrefint_12bits ctx' = vrefint_raw
           \<and> data ctx' ! ADC_DATA_INDEX_VMCU_MV
               = (VREFINT_CAL cal * VREFINT_VCC_CALIB_MV cal) div vrefint_raw
           \<and> uint (data ctx' ! ADC_DATA_INDEX_VMCU_MV)
               = spec_supply_mV (uint (VREFINT_CAL cal)) (uint (VREFINT_VCC_CALIB_MV cal))
                   (uint vrefint_raw)"
proof (rule acquire_nonzero [OF en wk vr nz cal], goal_cases)
  case (1 st h' ctx')
  from wf have "ADC_DATA_INDEX_VMCU_MV < length (data ctx)"
    by (simp add: ADC_context_wf_def index_defs_distinct)
  with 1(4) have v: "data ctx' ! ADC_DATA_INDEX_VMCU_MV
      = (VREFINT_CAL cal * VREFINT_VCC_CALIB_MV cal) div vrefint_raw" by simp
  from fit have "uint (VREFINT_CAL cal) * uint (VREFINT_VCC_CALIB_MV cal) < 2 ^ LENGTH(32)"
    by simp
  then have "uint (VREFINT_CAL cal * VREFINT_VCC_CALIB_MV cal)
      = uint (VREFINT_CAL cal) * uint (VREFINT_VCC_CALIB_MV cal)"
    by (simp only: uint_mult_lem)
  then have "uint ((VREFINT_CAL cal * VREFINT_VCC_CALIB_MV cal) div vrefint_raw)
      = spec_supply_mV (uint (VREFINT_CAL cal)) (uint (VREFINT_VCC_CALIB_MV cal)) (uint vrefint_raw)"
    by (simp add: uint_div spec_supply_mV_def)
  with v 1(1,2) show ?case by (simp add: perform_eq)
qed

theorem supply_voltage_stored_witness:
  "\<exists>status h' ctx'. ADC1_perform_measurements cal_example env_prompt hw_start ctx_example
                       = Inr (status, h', ctx')
     \<and> vrefint_12bits ctx' = 1500 \<and> uint (data ctx' ! ADC_DATA_INDEX_VMCU_MV) = 3342"
proof -
  obtain h1 h2 h3 where en: "ADC1_enable env_prompt hw_start = (ADC_SUCCESS, h1)"
    and wk: "ADC1_wake_up env_prompt h1 = (LPTIM_SUCCESS, h2)"
    and fc: "ADC1_filtered_conversion env_prompt ADC_CHANNEL_VREFINT
               (Some (vrefint_12bits ctx_example)) h2 = (ADC_SUCCESS, Some 1500, h3)"
    by (rule run_to_vrefint [of env_prompt 1500 "vrefint_12bits ctx_example"])
       (simp_all add: env_prompt_def)
  have hyps: "(1500 :: u32) \<noteq> 0" "TS_VCC_CALIB_MV cal_example \<noteq> 0"
    "TS_CAL2 cal_example \<noteq> TS_CAL1 cal_example"
    "uint (VREFINT_CAL cal_example) * uint (VREFINT_VCC_CALIB_MV cal_example) < 2 ^ 31"
    "ADC_context_wf ctx_example"
    by (simp_all add: cal_example_def ADC_context_wf_def ctx_example_def ADC_DATA_INDEX_LAST_def)
  have "spec_supply_mV (uint (VREFINT_CAL cal_example)) (uint (VREFINT_VCC_CALIB_MV cal_example))
          (uint (1500 :: u32)) = 3342"
    by (simp add: spec_supply_mV_def cal_example_def)
  with supply_voltage_stored [OF en wk fc hyps] show ?thesis by auto
qed

theorem supply_voltage_counterexample:
  "fst (ADC1_compute_vrefint env_zero
          (snd (ADC1_wake_up env_zero (snd (ADC1_enable env_zero hw_start)))) ctx_example)
     = ADC_SUCCESS
   \<and> ADC1_compute_vmcu cal_example
        (snd (snd (ADC1_compute_vrefint env_zero
          (snd (ADC1_wake_up env_zero (snd (ADC1_enable env_zero hw_start)))) ctx_example)))
     = Inl DivisionByZero"
proof -
  obtain h1 h2 h3 where en: "ADC1_enable env_zero hw_start = (ADC_SUCCESS, h1)"
    and wk: "ADC1_wake_up env_zero h1 = (LPTIM_SUCCESS, h2)"
    and fc: "ADC1_filtered_conversion env_zero ADC_CHANNEL_VREFINT (Some (vrefint_12bits ctx_example)) h2
               = (ADC_SUCCESS, Some 0, h3)"
    by (rule run_to_vrefint [of env_zero 0 "vrefint_12bits ctx_example"])
       (simp_all add: env_zero_def)
  from compute_vrefint_ok [OF fc] en wk show ?thesis
    by (simp add: compute_vmcu_eq)
qed

subsection \<open>A failure at the temperature step\<close>

text \<open>
  C10. When the run reaches the temperature step (the bandgap acquisition succeeded
  and the supply voltage was derived) and the temperature acquisition fails, the run
  returns that status; the supply-voltage slot holds the value derived in this call
  from the new bandgap reading, and the USB-sense slot, the resistor-sense slot and the
  temperature are those of before the call.
\<close>

theorem temperature_failure_keeps_supply:
  assumes en: "ADC1_enable env h = (ADC_SUCCESS, h1)"
    and wk: "ADC1_wake_up env h1 = (LPTIM_SUCCESS, h2)"
    and vr: "ADC1_compute_vrefint env h2 ctx = (ADC_SUCCESS, h3, ctx1)"
    and vm: "ADC1_compute_vmcu cal ctx1 = Inr ctx2"
    and tm: "ADC1_compute_tmcu cal env h3 ctx2 = Inr (st, h4, ctx3)"
    and st: "st \<noteq> ADC_SUCCESS"
    and wf: "ADC_context_wf ctx"
  shows "ADC1_perform_measurements cal env h ctx = Inr (st, ADC1_switch_off env h4, ctx3)
       \<and> data ctx3 ! ADC_DATA_INDEX_VMCU_MV
           = (VREFINT_CAL cal * VREFINT_VCC_CALIB_MV cal) div vrefint_12bits ctx1
       \<and> vrefint_12bits ctx3 = vrefint_12bits ctx1
       \<and> data ctx3 ! ADC_DATA_INDEX_VUSB_MV = data ctx ! ADC_DATA_INDEX_VUSB_MV
       \<and> data ctx3 ! ADC_DATA_INDEX_VRS_MV = data ctx ! ADC_DATA_INDEX_VRS_MV
       \<and> tmcu_degrees ctx3 = tmcu_degrees ctx"
proof -
  from compute_vrefint_run(1) [OF vr] obtain v where c1: "ctx1 = ctx\<lparr>vrefint_12bits := v\<rparr>"
    by auto
  from vm have c2: "ctx2 = ctx1\<lparr>data := (data ctx1)[ADC_DATA_INDEX_VMCU_MV :=
                  (VREFINT_CAL cal * VREFINT_VCC_CALIB_MV cal) div vrefint_12bits ctx1]\<rparr>"
    by (simp add: compute_vmcu_eq split: if_splits)
  obtain s r x where fc: "ADC1_filtered_conversion env ADC_CHANNEL_TMCU (Some 0) h3 = (s, r, x)"
    by (cases "ADC1_filtered_conversion env ADC_CHANNEL_TMCU (Some 0) h3")
  have "s \<noteq> ADC_SUCCESS"
  proof
    assume "s = ADC_SUCCESS"
    with fc tm st show False
      by (auto simp add: ADC1_compute_tmcu_def udiv32_def sdiv32_def Let_def split: if_splits)
  qed
  from compute_tmcu_failed [OF fc this, of cal ctx2] tm have c3: "ctx3 = ctx2" by simp
  from wf have len: "length (data ctx) = 3" by (simp add: ADC_context_wf_def const_defs)
  have run: "ADC1_perform_measurements cal env h ctx = Inr (st, ADC1_switch_off env h4, ctx3)"
    using acquire_tmcu_failed [OF en wk vr vm tm st] by (rule perform_eq)
  from c1 c2 c3 len have
    "data ctx3 ! ADC_DATA_INDEX_VMCU_MV
       = (VREFINT_CAL cal * VREFINT_VCC_CALIB_MV cal) div vrefint_12bits ctx1"
    "vrefint_12bits ctx3 = vrefint_12bits ctx1"
    "data ctx3 ! ADC_DATA_INDEX_VUSB_MV = data ctx ! ADC_DATA_INDEX_VUSB_MV"
    "data ctx3 ! ADC_DATA_INDEX_VRS_MV = data ctx ! ADC_DATA_INDEX_VRS_MV"
    "tmcu_degrees ctx3 = tmcu_degrees ctx"
    by (simp_all add: const_defs)
  with run show ?thesis by simp
qed

lemma compute_tmcu_never:
  assumes "\<And>t. reads h \<le> t \<Longrightarrow> reg_value env t ISR AND push_bit 2 1 = 0"
  shows "\<exists>h'. ADC1_compute_tmcu cal env h ctx = Inr (ADC_ERROR_TIMEOUT, h', ctx)"
proof -
  from filtered_conversion_never [OF channels_valid(2) assms, where old = 0]
  obtain h' where fc: "ADC1_filtered_conversion env ADC_CHANNEL_TMCU (Some 0) h
      = (ADC_ERROR_TIMEOUT, Some 0, h')" by blast
  have "ADC1_compute_tmcu cal env h ctx = Inr (ADC_ERROR_TIMEOUT, h', ctx)"
    by (rule compute_tmcu_failed [OF fc]) simp
  then show ?thesis by blast
qed

theorem temperature_failure_keeps_supply_witness:
  "\<exists>h' ctx'. ADC1_perform_measurements cal_example env_tmcu_timeout hw_start ctx_example
               = Inr (ADC_ERROR_TIMEOUT, h', ctx')
     \<and> data ctx' = [3342, 4990, 12] \<and> vrefint_12bits ctx' = 1500 \<and> tmcu_degrees ctx' = 21"
proof -
  obtain h1 h2 h3 where en: "ADC1_enable env_tmcu_timeout hw_start = (ADC_SUCCESS, h1)"
    and wk: "ADC1_wake_up env_tmcu_timeout h1 = (LPTIM_SUCCESS, h2)"
    and fc: "ADC1_filtered_conversion env_tmcu_timeout ADC_CHANNEL_VREFINT
               (Some (vrefint_12bits ctx_example)) h2 = (ADC_SUCCESS, Some 1500, h3)"
    and r3: "reads h3 = 57"
    by (rule run_to_vrefint [of env_tmcu_timeout 1500 "vrefint_12bits ctx_example"])
       (simp_all add: env_tmcu_timeout_def)
  let ?ctx1 = "ctx_example\<lparr>vrefint_12bits := 1500\<rparr>"
  let ?ctx2 = "?ctx1\<lparr>data := [3342, 4990, 12]\<rparr>"
  note vr = compute_vrefint_ok [OF fc]
  have vm: "ADC1_compute_vmcu cal_example ?ctx1 = Inr ?ctx2"
    by (simp add: compute_vmcu_eq cal_example_def ctx_example_def const_defs)
  obtain h4 where tm: "ADC1_compute_tmcu cal_example env_tmcu_timeout h3 ?ctx2
      = Inr (ADC_ERROR_TIMEOUT, h4, ?ctx2)"
    using compute_tmcu_never [of h3 env_tmcu_timeout cal_example ?ctx2] r3
    by (auto simp add: env_tmcu_timeout_def)
  have wf: "ADC_context_wf ctx_example"
    by (simp add: ADC_context_wf_def ctx_example_def const_defs)
  from temperature_failure_keeps_supply [OF en wk vr vm tm _ wf]
  have "ADC1_perform_measurements cal_example env_tmcu_timeout hw_start ctx_example
               = Inr (ADC_ERROR_TIMEOUT, ADC1_switch_off env_tmcu_timeout h4, ?ctx2)"
    by simp
  then show ?thesis by (simp add: ctx_example_def)
qed

subsection \<open>32-bit arithmetic read as integers\<close>

lemma sint_narrow: "sint (ucast (word_of_int k :: u32) :: s8) = signed_take_bit 7 k"
  by (simp add: signed_ucast_eq signed_take_bit_take_bit uint_word_of_int_eq)

lemma sint_sub:
  "- (2 ^ 31) \<le> sint a - sint b \<Longrightarrow> sint a - sint b < 2 ^ 31 \<Longrightarrow>
   sint (a - b :: u32) = sint a - sint b"
  by (simp add: sint_word_ariths signed_take_bit_int_eq_self)

lemma sint_mul:
  "- (2 ^ 31) \<le> sint a * sint b \<Longrightarrow> sint a * sint b < 2 ^ 31 \<Longrightarrow>
   sint (a * b :: u32) = sint a * sint b"
  by (simp add: sint_word_ariths signed_take_bit_int_eq_self)

lemma sint_of_small:
  assumes "uint (q :: u32) < 2 ^ 31"
  shows "sint q = uint q"
proof -
  have "(- (2 ^ 31) :: int) \<le> 0" by simp
  also have "0 \<le> uint q" by simp
  finally have "- (2 ^ 31) \<le> uint q" .
  with assms have "signed_take_bit 31 (uint q) = uint q"
    by (intro signed_take_bit_int_eq_self)
  then show ?thesis by (simp add: sint_uint)
qed

lemma uint_of_pos:
  assumes "0 \<le> sint (q :: u32)"
  shows "uint q = sint q"
proof -
  have "sint q < 2 ^ 31" using sint_less [of q] by simp
  then have "sint q < 2 ^ 32" by simp
  with assms have "take_bit 32 (sint q) = sint q"
    by (intro take_bit_int_eq_self) simp_all
  then show ?thesis by (simp add: uint_sint)
qed

subsection \<open>Temperature\<close>

lemma sdiv_nonneg: "0 \<le> k \<Longrightarrow> 0 < l \<Longrightarrow> k sdiv l = k div (l :: int)"
  by (simp add: signed_divide_int_def sgn_if)

text \<open>The 32-bit computation of \<open>ADC1_compute_tmcu\<close>, read as integers.\<close>

lemma tmcu_word_arith:
  fixes raw supply_mV :: u32
  assumes cr: "calibration_in_range cal"
    and f1: "uint raw * uint supply_mV < 2 ^ 32"
    and f2: "(uint raw * uint supply_mV) div sint (TS_VCC_CALIB_MV cal) < 2 ^ 31"
    and f3: "- (2 ^ 31) \<le> spec_calib_mV (uint raw) (uint supply_mV) (sint (TS_VCC_CALIB_MV cal))
                            (sint (TS_CAL1 cal))
                          * (sint (TS_CAL2_TEMP cal) - sint (TS_CAL1_TEMP cal))"
    and f4: "spec_calib_mV (uint raw) (uint supply_mV) (sint (TS_VCC_CALIB_MV cal)) (sint (TS_CAL1 cal))
               * (sint (TS_CAL2_TEMP cal) - sint (TS_CAL1_TEMP cal)) < 2 ^ 31"
  shows "sint (ucast
            (word_of_int (sint (((raw * supply_mV) div TS_VCC_CALIB_MV cal - TS_CAL1 cal)
                                 * (TS_CAL2_TEMP cal - TS_CAL1_TEMP cal))
                          sdiv sint (TS_CAL2 cal - TS_CAL1 cal))
             + TS_CAL1_TEMP cal :: u32) :: s8)
       = signed_take_bit 7
           (spec_degrees (sint (TS_CAL1_TEMP cal)) (sint (TS_CAL2_TEMP cal))
              (sint (TS_CAL1 cal)) (sint (TS_CAL2 cal))
              (spec_calib_mV (uint raw) (uint supply_mV) (sint (TS_VCC_CALIB_MV cal))
                 (sint (TS_CAL1 cal))))"
proof -
  define C where "C = sint (TS_VCC_CALIB_MV cal)"
  define K1 where "K1 = sint (TS_CAL1 cal)"
  define K2 where "K2 = sint (TS_CAL2 cal)"
  define T1 where "T1 = sint (TS_CAL1_TEMP cal)"
  define T2 where "T2 = sint (TS_CAL2_TEMP cal)"
  define M where "M = spec_calib_mV (uint raw) (uint supply_mV) C K1"
  from cr have r: "0 < C" "0 \<le> K1" "K1 < 2 ^ 16" "0 \<le> K2" "K2 < 2 ^ 16"
    "- (2 ^ 15) \<le> T1" "T1 < 2 ^ 15" "- (2 ^ 15) \<le> T2" "T2 < 2 ^ 15"
    unfolding calibration_in_range_def C_def K1_def K2_def T1_def T2_def by simp_all
  have uC: "uint (TS_VCC_CALIB_MV cal) = C"
    unfolding C_def using r(1) by (intro uint_of_pos) (simp add: C_def)
  from f1 have "uint raw * uint supply_mV < 2 ^ LENGTH(32)" by simp
  then have w: "uint (raw * supply_mV) = uint raw * uint supply_mV"
    by (simp only: uint_mult_lem)
  have q: "uint ((raw * supply_mV) div TS_VCC_CALIB_MV cal) = (uint raw * uint supply_mV) div C"
    by (simp add: uint_div w uC)
  have nn: "0 \<le> uint raw * uint supply_mV" by simp
  have Mdef: "M = (uint raw * uint supply_mV) div C - K1"
    unfolding M_def spec_calib_mV_def using sdiv_nonneg [OF nn r(1)] by simp
  have sq: "sint ((raw * supply_mV) div TS_VCC_CALIB_MV cal) = (uint raw * uint supply_mV) div C"
    using f2 q unfolding C_def [symmetric] by (simp add: sint_of_small)
  have q0: "0 \<le> (uint raw * uint supply_mV) div C"
    using nn r(1) by (simp add: pos_imp_zdiv_nonneg_iff)
  have q1: "(uint raw * uint supply_mV) div C < 2 ^ 31"
    using f2 unfolding C_def .
  have m: "sint ((raw * supply_mV) div TS_VCC_CALIB_MV cal - TS_CAL1 cal) = M"
  proof -
    have "- (2 ^ 31) \<le> sint ((raw * supply_mV) div TS_VCC_CALIB_MV cal) - sint (TS_CAL1 cal)"
      "sint ((raw * supply_mV) div TS_VCC_CALIB_MV cal) - sint (TS_CAL1 cal) < 2 ^ 31"
      using q0 q1 r(2,3) by (simp_all add: sq K1_def)
    then have "sint ((raw * supply_mV) div TS_VCC_CALIB_MV cal - TS_CAL1 cal)
        = sint ((raw * supply_mV) div TS_VCC_CALIB_MV cal) - sint (TS_CAL1 cal)"
      by (rule sint_sub)
    then show ?thesis by (simp add: sq Mdef K1_def)
  qed
  have dT: "sint (TS_CAL2_TEMP cal - TS_CAL1_TEMP cal) = T2 - T1"
  proof -
    have "- (2 ^ 31) \<le> sint (TS_CAL2_TEMP cal) - sint (TS_CAL1_TEMP cal)"
      "sint (TS_CAL2_TEMP cal) - sint (TS_CAL1_TEMP cal) < 2 ^ 31"
      using r(6-9) by (simp_all add: T1_def T2_def)
    then show ?thesis unfolding T1_def T2_def by (rule sint_sub)
  qed
  have dK: "sint (TS_CAL2 cal - TS_CAL1 cal) = K2 - K1"
  proof -
    have "- (2 ^ 31) \<le> sint (TS_CAL2 cal) - sint (TS_CAL1 cal)"
      "sint (TS_CAL2 cal) - sint (TS_CAL1 cal) < 2 ^ 31"
      using r(2-5) by (simp_all add: K1_def K2_def)
    then show ?thesis unfolding K1_def K2_def by (rule sint_sub)
  qed
  have p: "sint (((raw * supply_mV) div TS_VCC_CALIB_MV cal - TS_CAL1 cal)
                  * (TS_CAL2_TEMP cal - TS_CAL1_TEMP cal)) = M * (T2 - T1)"
  proof -
    have "- (2 ^ 31) \<le> sint ((raw * supply_mV) div TS_VCC_CALIB_MV cal - TS_CAL1 cal)
          * sint (TS_CAL2_TEMP cal - TS_CAL1_TEMP cal)"
      "sint ((raw * supply_mV) div TS_VCC_CALIB_MV cal - TS_CAL1 cal)
          * sint (TS_CAL2_TEMP cal - TS_CAL1_TEMP cal) < 2 ^ 31"
      using f3 f4 unfolding m dT by (simp_all add: M_def C_def K1_def T1_def T2_def)
    then have "sint (((raw * supply_mV) div TS_VCC_CALIB_MV cal - TS_CAL1 cal)
                  * (TS_CAL2_TEMP cal - TS_CAL1_TEMP cal))
        = sint ((raw * supply_mV) div TS_VCC_CALIB_MV cal - TS_CAL1 cal)
          * sint (TS_CAL2_TEMP cal - TS_CAL1_TEMP cal)"
      by (rule sint_mul)
    then show ?thesis by (simp add: m dT)
  qed
  have "word_of_int (M * (T2 - T1) sdiv (K2 - K1)) + TS_CAL1_TEMP cal
      = (word_of_int (M * (T2 - T1) sdiv (K2 - K1) + T1) :: u32)"
    by (simp add: T1_def)
  then have "sint (ucast (word_of_int (M * (T2 - T1) sdiv (K2 - K1)) + TS_CAL1_TEMP cal :: u32) :: s8)
      = signed_take_bit 7 (M * (T2 - T1) sdiv (K2 - K1) + T1)"
    by (simp only: sint_narrow)
  then show ?thesis
    unfolding p dK
    by (simp add: spec_degrees_def M_def C_def K1_def K2_def T1_def T2_def add.commute)
qed

lemma run_all_shown:
  assumes rdy: "reg_value env 1 ISR AND push_bit 0 1 \<noteq> 0"
    and dly: "delay_status env 3 = LPTIM_SUCCESS"
    and eoc: "\<And>t. t < 219 \<Longrightarrow> reg_value env t ISR AND push_bit 2 1 \<noteq> 0"
    and dr: "\<And>t. reg_value env t DR = c"
  obtains h1 h2 h3 h4 h5 h6 where "ADC1_enable env hw_start = (ADC_SUCCESS, h1)"
    "ADC1_wake_up env h1 = (LPTIM_SUCCESS, h2)"
    "ADC1_filtered_conversion env ADC_CHANNEL_VREFINT (Some old) h2 = (ADC_SUCCESS, Some c, h3)"
    "ADC1_filtered_conversion env ADC_CHANNEL_TMCU (Some 0) h3 = (ADC_SUCCESS, Some c, h4)"
    "ADC1_filtered_conversion env ADC_CHANNEL_VUSB (Some 0) h4 = (ADC_SUCCESS, Some c, h5)"
    "ADC1_filtered_conversion env ADC_CHANNEL_VRS (Some 0) h5 = (ADC_SUCCESS, Some c, h6)"
proof -
  have eoc': "\<And>t. t < 57 \<Longrightarrow> reg_value env t ISR AND push_bit 2 1 \<noteq> 0"
    using eoc by simp
  obtain h1 h2 h3 where a: "ADC1_enable env hw_start = (ADC_SUCCESS, h1)"
    "ADC1_wake_up env h1 = (LPTIM_SUCCESS, h2)"
    "ADC1_filtered_conversion env ADC_CHANNEL_VREFINT (Some old) h2 = (ADC_SUCCESS, Some c, h3)"
    and r3: "reads h3 = 57"
    by (rule run_to_vrefint [OF rdy dly eoc' dr])
  have "\<exists>h'. ADC1_filtered_conversion env ADC_CHANNEL_TMCU (Some 0) h3
      = (ADC_SUCCESS, Some c, h') \<and> reads h' = reads h3 + 54"
    by (rule filtered_conversion_shown [OF channels_valid(2)]) (use r3 eoc dr in auto)
  then obtain h4 where b: "ADC1_filtered_conversion env ADC_CHANNEL_TMCU (Some 0) h3
      = (ADC_SUCCESS, Some c, h4)" and r4: "reads h4 = 111"
    using r3 by auto
  have "\<exists>h'. ADC1_filtered_conversion env ADC_CHANNEL_VUSB (Some 0) h4
      = (ADC_SUCCESS, Some c, h') \<and> reads h' = reads h4 + 54"
    by (rule filtered_conversion_shown [OF channels_valid(3)]) (use r4 eoc dr in auto)
  then obtain h5 where c: "ADC1_filtered_conversion env ADC_CHANNEL_VUSB (Some 0) h4
      = (ADC_SUCCESS, Some c, h5)" and r5: "reads h5 = 165"
    using r4 by auto
  have "\<exists>h'. ADC1_filtered_conversion env ADC_CHANNEL_VRS (Some 0) h5
      = (ADC_SUCCESS, Some c, h') \<and> reads h' = reads h5 + 54"
    by (rule filtered_conversion_shown [OF channels_valid(4)]) (use r5 eoc dr in auto)
  then obtain h6 where d: "ADC1_filtered_conversion env ADC_CHANNEL_VRS (Some 0) h5
      = (ADC_SUCCESS, Some c, h6)"
    by auto
  from a b c d that show ?thesis by blast
qed

text \<open>
  C2, as the code has it. The temperature is an \<open>int8_t\<close>: what is stored is the value
  of the spec's formula reduced to 8 bits in two's complement, and it is that value
  itself when it lies between -128 and 127. This holds when the 32-bit intermediate
  values do not wrap: the product of the raw reading and the supply voltage is below
  \<open>2 ^ 32\<close>, its quotient by the calibration supply is below \<open>2 ^ 31\<close>, and the product
  with the temperature difference fits 32 signed bits.
\<close>

theorem temperature_stored:
  assumes en: "ADC1_enable env h = (ADC_SUCCESS, h1)"
    and wk: "ADC1_wake_up env h1 = (LPTIM_SUCCESS, h2)"
    and vr: "ADC1_filtered_conversion env ADC_CHANNEL_VREFINT (Some (vrefint_12bits ctx)) h2
               = (ADC_SUCCESS, Some vrefint_raw, h3)"
    and nz: "vrefint_raw \<noteq> 0"
    and tm: "ADC1_filtered_conversion env ADC_CHANNEL_TMCU (Some 0) h3
               = (ADC_SUCCESS, Some raw, h4)"
    and wf: "ADC_context_wf ctx"
    and sv: "supply_mV = (VREFINT_CAL cal * VREFINT_VCC_CALIB_MV cal) div vrefint_raw"
    and cr: "calibration_in_range cal"
    and f1: "uint raw * uint supply_mV < 2 ^ 32"
    and f2: "(uint raw * uint supply_mV) div sint (TS_VCC_CALIB_MV cal) < 2 ^ 31"
    and f3: "- (2 ^ 31) \<le> spec_calib_mV (uint raw) (uint supply_mV) (sint (TS_VCC_CALIB_MV cal))
                            (sint (TS_CAL1 cal))
                          * (sint (TS_CAL2_TEMP cal) - sint (TS_CAL1_TEMP cal))"
    and f4: "spec_calib_mV (uint raw) (uint supply_mV) (sint (TS_VCC_CALIB_MV cal))
                 (sint (TS_CAL1 cal))
               * (sint (TS_CAL2_TEMP cal) - sint (TS_CAL1_TEMP cal)) < 2 ^ 31"
  shows "\<exists>status h' ctx'. ADC1_perform_measurements cal env h ctx = Inr (status, h', ctx')
     \<and> data ctx' ! ADC_DATA_INDEX_VMCU_MV = supply_mV
     \<and> (let degrees = spec_degrees (sint (TS_CAL1_TEMP cal)) (sint (TS_CAL2_TEMP cal))
                         (sint (TS_CAL1 cal)) (sint (TS_CAL2 cal))
                         (spec_calib_mV (uint raw) (uint supply_mV) (sint (TS_VCC_CALIB_MV cal))
                            (sint (TS_CAL1 cal)))
         in sint (tmcu_degrees ctx') = signed_take_bit 7 degrees
            \<and> (- 128 \<le> degrees \<and> degrees \<le> 127 \<longrightarrow> sint (tmcu_degrees ctx') = degrees))"
proof -
  from cr have cal: "TS_VCC_CALIB_MV cal \<noteq> 0" "TS_CAL2 cal \<noteq> TS_CAL1 cal"
    by (auto simp add: calibration_in_range_def)
  let ?ctx1 = "ctx\<lparr>vrefint_12bits := vrefint_raw\<rparr>"
  let ?ctx2 = "?ctx1\<lparr>data := (data ?ctx1)[ADC_DATA_INDEX_VMCU_MV :=
                  (VREFINT_CAL cal * VREFINT_VCC_CALIB_MV cal) div vrefint_12bits ?ctx1]\<rparr>"
  have vm: "ADC1_compute_vmcu cal ?ctx1 = Inr ?ctx2"
    using nz by (simp add: compute_vmcu_eq)
  from wf have s2: "data ?ctx2 ! ADC_DATA_INDEX_VMCU_MV = supply_mV"
    by (simp add: sv ADC_context_wf_def const_defs)
  define t where "t = (ucast
            (word_of_int (sint (((raw * supply_mV) div TS_VCC_CALIB_MV cal - TS_CAL1 cal)
                                 * (TS_CAL2_TEMP cal - TS_CAL1_TEMP cal))
                          sdiv sint (TS_CAL2 cal - TS_CAL1 cal))
             + TS_CAL1_TEMP cal :: u32) :: s8)"
  let ?ctx3 = "?ctx2\<lparr>tmcu_degrees := t\<rparr>"
  have tmc: "ADC1_compute_tmcu cal env h3 ?ctx2 = Inr (ADC_SUCCESS, h4, ?ctx3)"
    using compute_tmcu_ok [OF tm cal, of ?ctx2] unfolding s2 t_def by simp
  have nz3: "vrefint_12bits ?ctx3 \<noteq> 0" using nz by simp
  note m = acquire_measured [OF en wk compute_vrefint_ok [OF vr] vm]
  let ?D = "spec_degrees (sint (TS_CAL1_TEMP cal)) (sint (TS_CAL2_TEMP cal))
              (sint (TS_CAL1 cal)) (sint (TS_CAL2 cal))
              (spec_calib_mV (uint raw) (uint supply_mV) (sint (TS_VCC_CALIB_MV cal))
                 (sint (TS_CAL1 cal)))"
  have val: "sint t = signed_take_bit 7 ?D"
    unfolding t_def by (rule tmcu_word_arith [OF cr f1 f2 f3 f4])
  have exact: "sint t = ?D" if "- 128 \<le> ?D" "?D \<le> 127"
  proof -
    from that have "signed_take_bit 7 ?D = ?D"
      by (intro signed_take_bit_int_eq_self) simp_all
    with val show ?thesis by simp
  qed
  show ?thesis
  proof (rule measure_inputs [OF nz3, of cal env h4], goal_cases)
    case (1 st h' ctx')
    from 1(1) m tmc have "ADC1_acquire cal env h ctx = Inr (st, h', ctx')" by simp
    then have run: "ADC1_perform_measurements cal env h ctx
        = Inr (st, ADC1_switch_off env h', ctx')" by (rule perform_eq)
    from 1(3) have t': "tmcu_degrees ctx' = t" by simp
    from 1(5) s2 have v': "data ctx' ! ADC_DATA_INDEX_VMCU_MV = supply_mV" by simp
    from run t' v' val exact show ?case by (simp add: Let_def)
  qed
qed

text \<open>The run of the example peripheral, evaluated.\<close>

lemma prompt_run:
  assumes cal: "TS_VCC_CALIB_MV cal \<noteq> 0" "TS_CAL2 cal \<noteq> TS_CAL1 cal"
  shows "\<exists>h'. ADC1_perform_measurements cal env_prompt hw_start ctx_example =
     Inr (ADC_SUCCESS, h',
       \<lparr>vrefint_12bits = 1500,
        data = [(VREFINT_CAL cal * VREFINT_VCC_CALIB_MV cal) div 1500,
                (ADC_VREFINT_VOLTAGE_MV cal * 1500 * 2) div 1500,
                (ADC_VREFINT_VOLTAGE_MV cal * 1500 * 2) div 1500],
        tmcu_degrees = ucast
            (word_of_int (sint (((1500 * ((VREFINT_CAL cal * VREFINT_VCC_CALIB_MV cal) div 1500))
                                   div TS_VCC_CALIB_MV cal - TS_CAL1 cal)
                                 * (TS_CAL2_TEMP cal - TS_CAL1_TEMP cal))
                          sdiv sint (TS_CAL2 cal - TS_CAL1 cal))
             + TS_CAL1_TEMP cal :: u32)\<rparr>)"
proof -
  obtain h1 h2 h3 h4 h5 h6 where en: "ADC1_enable env_prompt hw_start = (ADC_SUCCESS, h1)"
    and wk: "ADC1_wake_up env_prompt h1 = (LPTIM_SUCCESS, h2)"
    and vr: "ADC1_filtered_conversion env_prompt ADC_CHANNEL_VREFINT
               (Some (vrefint_12bits ctx_example)) h2 = (ADC_SUCCESS, Some 1500, h3)"
    and tm: "ADC1_filtered_conversion env_prompt ADC_CHANNEL_TMCU (Some 0) h3
               = (ADC_SUCCESS, Some 1500, h4)"
    and us: "ADC1_filtered_conversion env_prompt ADC_CHANNEL_VUSB (Some 0) h4
               = (ADC_SUCCESS, Some 1500, h5)"
    and rs: "ADC1_filtered_conversion env_prompt ADC_CHANNEL_VRS (Some 0) h5
               = (ADC_SUCCESS, Some 1500, h6)"
    by (rule run_all_shown [of env_prompt 1500 "vrefint_12bits ctx_example"])
       (simp_all add: env_prompt_def)
  let ?ctx1 = "ctx_example\<lparr>vrefint_12bits := 1500\<rparr>"
  let ?s = "(VREFINT_CAL cal * VREFINT_VCC_CALIB_MV cal) div 1500"
  let ?ctx2 = "?ctx1\<lparr>data := [?s, 4990, 12]\<rparr>"
  have vm: "ADC1_compute_vmcu cal ?ctx1 = Inr ?ctx2"
    by (simp add: compute_vmcu_eq ctx_example_def const_defs)
  let ?t = "ucast
            (word_of_int (sint (((1500 * ?s) div TS_VCC_CALIB_MV cal - TS_CAL1 cal)
                                 * (TS_CAL2_TEMP cal - TS_CAL1_TEMP cal))
                          sdiv sint (TS_CAL2 cal - TS_CAL1 cal))
             + TS_CAL1_TEMP cal :: u32) :: s8"
  let ?ctx3 = "?ctx2\<lparr>tmcu_degrees := ?t\<rparr>"
  have tmc: "ADC1_compute_tmcu cal env_prompt h3 ?ctx2 = Inr (ADC_SUCCESS, h4, ?ctx3)"
    using compute_tmcu_ok [OF tm cal, of ?ctx2] by (simp add: const_defs)
  let ?q = "(ADC_VREFINT_VOLTAGE_MV cal * 1500 * 2) div 1500"
  let ?ctx4 = "?ctx3\<lparr>data := [?s, ?q, 12]\<rparr>"
  have usc: "ADC1_compute_vusb cal env_prompt h4 ?ctx3 = Inr (ADC_SUCCESS, h5, ?ctx4)"
    using compute_vusb_ok [OF us, of ?ctx3 cal] by (simp add: const_defs)
  let ?ctx5 = "?ctx4\<lparr>data := [?s, ?q, ?q]\<rparr>"
  have rsc: "ADC1_compute_vrs cal env_prompt h5 ?ctx4 = Inr (ADC_SUCCESS, h6, ?ctx5)"
    using compute_vrs_ok [OF rs, of ?ctx4 cal] by (simp add: const_defs)
  from acquire_vrs [OF en wk compute_vrefint_ok [OF vr] vm tmc usc] rsc
  have "ADC1_acquire cal env_prompt hw_start ctx_example = Inr (ADC_SUCCESS, h6, ?ctx5)"
    by simp
  then have "ADC1_perform_measurements cal env_prompt hw_start ctx_example
      = Inr (ADC_SUCCESS, ADC1_switch_off env_prompt h6, ?ctx5)" by (rule perform_eq)
  then show ?thesis by (simp add: ctx_example_def)
qed

lemma prompt_run_example:
  "result_context (ADC1_perform_measurements cal_example env_prompt hw_start ctx_example)
     = Some \<lparr>vrefint_12bits = 1500, data = [3342, 2448, 2448], tmcu_degrees = 77\<rparr>"
proof -
  have "TS_VCC_CALIB_MV cal_example \<noteq> 0" "TS_CAL2 cal_example \<noteq> TS_CAL1 cal_example"
    by (simp_all add: cal_example_def)
  from prompt_run [OF this] obtain h' where
    "ADC1_perform_measurements cal_example env_prompt hw_start ctx_example =
     Inr (ADC_SUCCESS, h',
       \<lparr>vrefint_12bits = 1500, data = [3342, 2448, 2448], tmcu_degrees = 77\<rparr>)"
    by (auto simp add: cal_example_def ADC_VREFINT_VOLTAGE_MV_def ADC_FULL_SCALE_12BITS_def)
  then show ?thesis by (simp add: result_context_def)
qed

theorem temperature_stored_counterexample:
  "result_context (ADC1_perform_measurements cal_example env_prompt hw_start ctx_example)
     = Some \<lparr>vrefint_12bits = 1500, data = [3342, 2448, 2448], tmcu_degrees = 77\<rparr>
   \<and> sint (77 :: s8) = 77
   \<and> spec_degrees 30 130 600 700 (spec_calib_mV 1500 3342 3000 600) = 1101"
  using prompt_run_example by (simp add: spec_degrees_def spec_calib_mV_def)

theorem temperature_stored_witness:
  "\<exists>status h' ctx'. ADC1_perform_measurements cal_example_low env_prompt hw_start ctx_example
                       = Inr (status, h', ctx')
     \<and> data ctx' ! ADC_DATA_INDEX_VMCU_MV = 1300 \<and> sint (tmcu_degrees ctx') = 80"
proof -
  obtain h1 h2 h3 h4 h5 h6 where en: "ADC1_enable env_prompt hw_start = (ADC_SUCCESS, h1)"
    and wk: "ADC1_wake_up env_prompt h1 = (LPTIM_SUCCESS, h2)"
    and vr: "ADC1_filtered_conversion env_prompt ADC_CHANNEL_VREFINT
               (Some (vrefint_12bits ctx_example)) h2 = (ADC_SUCCESS, Some 1500, h3)"
    and tm: "ADC1_filtered_conversion env_prompt ADC_CHANNEL_TMCU (Some 0) h3
               = (ADC_SUCCESS, Some 1500, h4)"
    by (rule run_all_shown [of env_prompt 1500 "vrefint_12bits ctx_example"])
       (simp_all add: env_prompt_def)
  have nz: "(1500 :: u32) \<noteq> 0" by simp
  have wf: "ADC_context_wf ctx_example"
    by (simp add: ADC_context_wf_def ctx_example_def const_defs)
  have sv: "(1300 :: u32)
      = (VREFINT_CAL cal_example_low * VREFINT_VCC_CALIB_MV cal_example_low) div 1500"
    by (simp add: cal_example_low_def cal_example_def)
  have cr: "calibration_in_range cal_example_low"
    by (simp add: calibration_in_range_def cal_example_low_def cal_example_def)
  have m: "spec_calib_mV (uint (1500 :: u32)) (uint (1300 :: u32))
      (sint (TS_VCC_CALIB_MV cal_example_low)) (sint (TS_CAL1 cal_example_low)) = 50"
    by (simp add: spec_calib_mV_def cal_example_low_def cal_example_def)
  have f1: "uint (1500 :: u32) * uint (1300 :: u32) < 2 ^ 32" by simp
  have f2: "(uint (1500 :: u32) * uint (1300 :: u32)) div sint (TS_VCC_CALIB_MV cal_example_low)
      < 2 ^ 31"
    by (simp add: cal_example_low_def cal_example_def)
  have f3: "- (2 ^ 31) \<le> spec_calib_mV (uint (1500 :: u32)) (uint (1300 :: u32))
      (sint (TS_VCC_CALIB_MV cal_example_low)) (sint (TS_CAL1 cal_example_low))
      * (sint (TS_CAL2_TEMP cal_example_low) - sint (TS_CAL1_TEMP cal_example_low))"
    unfolding m by (simp add: cal_example_low_def cal_example_def)
  have f4: "spec_calib_mV (uint (1500 :: u32)) (uint (1300 :: u32))
      (sint (TS_VCC_CALIB_MV cal_example_low)) (sint (TS_CAL1 cal_example_low))
      * (sint (TS_CAL2_TEMP cal_example_low) - sint (TS_CAL1_TEMP cal_example_low)) < 2 ^ 31"
    unfolding m by (simp add: cal_example_low_def cal_example_def)
  have d: "spec_degrees (sint (TS_CAL1_TEMP cal_example_low)) (sint (TS_CAL2_TEMP cal_example_low))
      (sint (TS_CAL1 cal_example_low)) (sint (TS_CAL2 cal_example_low)) 50 = 80"
    by (simp add: spec_degrees_def cal_example_low_def cal_example_def)
  from temperature_stored [OF en wk vr nz tm wf sv cr f1 f2 f3 f4]
  show ?thesis unfolding m d by (auto simp add: Let_def)
qed

subsection \<open>USB-sense and resistor-sense voltages\<close>

lemma vref_voltage_uint:
  assumes fit: "uint (VREFINT_CAL cal) * uint (VREFINT_VCC_CALIB_MV cal) < 2 ^ 31"
  shows "uint (ADC_VREFINT_VOLTAGE_MV cal)
       = spec_supply_mV (uint (VREFINT_CAL cal)) (uint (VREFINT_VCC_CALIB_MV cal)) 4095"
proof -
  define P where "P = uint (VREFINT_CAL cal) * uint (VREFINT_VCC_CALIB_MV cal)"
  have P0: "0 \<le> P" unfolding P_def by simp
  from fit have P1: "P < 2 ^ 31" unfolding P_def .
  then have "P < 2 ^ LENGTH(32)" by simp
  then have u: "uint (VREFINT_CAL cal * VREFINT_VCC_CALIB_MV cal) = P"
    unfolding P_def by (simp only: uint_mult_lem)
  with P1 have s: "sint (VREFINT_CAL cal * VREFINT_VCC_CALIB_MV cal) = P"
    by (simp add: sint_of_small)
  have q: "P sdiv 4095 = P div 4095" using P0 by (intro sdiv_nonneg) simp_all
  have q0: "0 \<le> P div 4095" using P0 by simp
  have "P div 4095 \<le> P div 1" using P0 by (intro zdiv_mono2) simp_all
  then have "P div 4095 \<le> P" by simp
  with P1 have q1: "P div 4095 < 2 ^ 32" by simp
  from q0 q1 have "take_bit 32 (P div 4095) = P div 4095"
    by (intro take_bit_int_eq_self) simp_all
  then have w: "uint (word_of_int (P div 4095) :: u32) = P div 4095"
    by (simp add: uint_word_of_int_eq)
  have "ADC_VREFINT_VOLTAGE_MV cal = word_of_int (P sdiv 4095)"
    by (simp add: ADC_VREFINT_VOLTAGE_MV_def ADC_FULL_SCALE_12BITS_def s)
  with w q have "uint (ADC_VREFINT_VOLTAGE_MV cal) = P div 4095" by simp
  then show ?thesis by (simp add: spec_supply_mV_def P_def)
qed

lemma channel_word_arith:
  fixes vref raw v :: u32
  assumes "uint vref * uint raw * 2 < 2 ^ 32"
  shows "uint ((vref * raw * 2) div v) = spec_channel_mV (uint vref) (uint raw) 2 (uint v)"
proof -
  define X where "X = uint vref * uint raw"
  have "0 \<le> X" unfolding X_def by simp
  moreover from assms have "X * 2 < 4294967296" unfolding X_def by simp
  ultimately have "X < 4294967296" by linarith
  then have "uint vref * uint raw < 2 ^ LENGTH(32)" unfolding X_def by simp
  then have a: "uint (vref * raw) = uint vref * uint raw" by (simp only: uint_mult_lem)
  from assms a have "uint (vref * raw) * uint (2 :: u32) < 2 ^ LENGTH(32)" by simp
  then have "uint (vref * raw * 2) = uint (vref * raw) * uint (2 :: u32)"
    by (simp only: uint_mult_lem)
  with a have "uint (vref * raw * 2) = uint vref * uint raw * 2" by simp
  then show ?thesis by (simp add: uint_div spec_channel_mV_def)
qed

lemma run_to_vrs:
  assumes rdy: "reg_value env 1 ISR AND push_bit 0 1 \<noteq> 0"
    and dly: "delay_status env 3 = LPTIM_SUCCESS"
    and eoc: "\<And>t. t < 165 \<Longrightarrow> reg_value env t ISR AND push_bit 2 1 \<noteq> 0"
    and dr: "\<And>t. reg_value env t DR = c"
  obtains h1 h2 h3 h4 h5 where "ADC1_enable env hw_start = (ADC_SUCCESS, h1)"
    "ADC1_wake_up env h1 = (LPTIM_SUCCESS, h2)"
    "ADC1_filtered_conversion env ADC_CHANNEL_VREFINT (Some old) h2 = (ADC_SUCCESS, Some c, h3)"
    "ADC1_filtered_conversion env ADC_CHANNEL_TMCU (Some 0) h3 = (ADC_SUCCESS, Some c, h4)"
    "ADC1_filtered_conversion env ADC_CHANNEL_VUSB (Some 0) h4 = (ADC_SUCCESS, Some c, h5)"
    "reads h5 = 165"
proof -
  have eoc': "\<And>t. t < 57 \<Longrightarrow> reg_value env t ISR AND push_bit 2 1 \<noteq> 0"
    using eoc by simp
  obtain h1 h2 h3 where a: "ADC1_enable env hw_start = (ADC_SUCCESS, h1)"
    "ADC1_wake_up env h1 = (LPTIM_SUCCESS, h2)"
    "ADC1_filtered_conversion env ADC_CHANNEL_VREFINT (Some old) h2 = (ADC_SUCCESS, Some c, h3)"
    and r3: "reads h3 = 57"
    by (rule run_to_vrefint [OF rdy dly eoc' dr])
  have "\<exists>h'. ADC1_filtered_conversion env ADC_CHANNEL_TMCU (Some 0) h3
      = (ADC_SUCCESS, Some c, h') \<and> reads h' = reads h3 + 54"
    by (rule filtered_conversion_shown [OF channels_valid(2)]) (use r3 eoc dr in auto)
  then obtain h4 where b: "ADC1_filtered_conversion env ADC_CHANNEL_TMCU (Some 0) h3
      = (ADC_SUCCESS, Some c, h4)" and r4: "reads h4 = 111"
    using r3 by auto
  have "\<exists>h'. ADC1_filtered_conversion env ADC_CHANNEL_VUSB (Some 0) h4
      = (ADC_SUCCESS, Some c, h') \<and> reads h' = reads h4 + 54"
    by (rule filtered_conversion_shown [OF channels_valid(3)]) (use r4 eoc dr in auto)
  then obtain h5 where c: "ADC1_filtered_conversion env ADC_CHANNEL_VUSB (Some 0) h4
      = (ADC_SUCCESS, Some c, h5)" and r5: "reads h5 = 165"
    using r4 by auto
  from a b c r5 that show ?thesis by blast
qed

text \<open>
  C4, as the code has it. When the call reaches the USB-sense acquisition and it
  succeeds, the run returns and the USB-sense slot holds
  \<open>(vref_voltage_mV * raw * 2) / vrefint_raw\<close> for the filtered reading of that channel
  and the bandgap reading of the same call, whatever the resistor-sense acquisition
  does afterwards; when the resistor-sense acquisition succeeds too, its slot holds the
  same formula for its own reading, and when it fails its slot keeps the value of before
  the call. \<open>vref_voltage_mV\<close> is the constant
  \<open>(VREFINT_CAL * VREFINT_VCC_CALIB_MV) / 4095\<close>: the formula of the supply-voltage step
  at the full-scale code 4095, not at \<open>vrefint_raw\<close>. The products are assumed not to
  wrap around 32 bits.
\<close>

theorem channel_voltages_stored:
  assumes en: "ADC1_enable env h = (ADC_SUCCESS, h1)"
    and wk: "ADC1_wake_up env h1 = (LPTIM_SUCCESS, h2)"
    and vr: "ADC1_filtered_conversion env ADC_CHANNEL_VREFINT (Some (vrefint_12bits ctx)) h2
               = (ADC_SUCCESS, Some vrefint_raw, h3)"
    and nz: "vrefint_raw \<noteq> 0"
    and tm: "ADC1_filtered_conversion env ADC_CHANNEL_TMCU (Some 0) h3
               = (ADC_SUCCESS, Some raw_tmcu, h4)"
    and us: "ADC1_filtered_conversion env ADC_CHANNEL_VUSB (Some 0) h4
               = (ADC_SUCCESS, Some raw_vusb, h5)"
    and cal: "TS_VCC_CALIB_MV cal \<noteq> 0" "TS_CAL2 cal \<noteq> TS_CAL1 cal"
    and fit: "uint (VREFINT_CAL cal) * uint (VREFINT_VCC_CALIB_MV cal) < 2 ^ 31"
    and fu: "uint (ADC_VREFINT_VOLTAGE_MV cal) * uint raw_vusb * 2 < 2 ^ 32"
    and wf: "ADC_context_wf ctx"
  shows "\<exists>status h' ctx'. ADC1_perform_measurements cal env h ctx = Inr (status, h', ctx')
     \<and> vrefint_12bits ctx' = vrefint_raw
     \<and> uint (ADC_VREFINT_VOLTAGE_MV cal)
         = spec_supply_mV (uint (VREFINT_CAL cal)) (uint (VREFINT_VCC_CALIB_MV cal)) 4095
     \<and> uint (data ctx' ! ADC_DATA_INDEX_VUSB_MV)
         = spec_channel_mV (uint (ADC_VREFINT_VOLTAGE_MV cal)) (uint raw_vusb) 2 (uint vrefint_raw)
     \<and> (ADC1_filtered_conversion env ADC_CHANNEL_VRS (Some 0) h5 = (ADC_SUCCESS, Some raw_vrs, h6)
          \<and> uint (ADC_VREFINT_VOLTAGE_MV cal) * uint raw_vrs * 2 < 2 ^ 32 \<longrightarrow>
          status = ADC_SUCCESS \<and> h' = ADC1_switch_off env h6
          \<and> uint (data ctx' ! ADC_DATA_INDEX_VRS_MV)
              = spec_channel_mV (uint (ADC_VREFINT_VOLTAGE_MV cal)) (uint raw_vrs) 2
                  (uint vrefint_raw))
     \<and> (fst (ADC1_filtered_conversion env ADC_CHANNEL_VRS (Some 0) h5) \<noteq> ADC_SUCCESS \<longrightarrow>
          status = fst (ADC1_filtered_conversion env ADC_CHANNEL_VRS (Some 0) h5)
          \<and> data ctx' ! ADC_DATA_INDEX_VRS_MV = data ctx ! ADC_DATA_INDEX_VRS_MV)"
proof -
  let ?ctx1 = "ctx\<lparr>vrefint_12bits := vrefint_raw\<rparr>"
  let ?ctx2 = "?ctx1\<lparr>data := (data ?ctx1)[ADC_DATA_INDEX_VMCU_MV :=
                  (VREFINT_CAL cal * VREFINT_VCC_CALIB_MV cal) div vrefint_12bits ?ctx1]\<rparr>"
  have vm: "ADC1_compute_vmcu cal ?ctx1 = Inr ?ctx2"
    using nz by (simp add: compute_vmcu_eq)
  define t where "t = (ucast
            (word_of_int (sint (((raw_tmcu * (data ?ctx2 ! ADC_DATA_INDEX_VMCU_MV))
                                   div TS_VCC_CALIB_MV cal - TS_CAL1 cal)
                                 * (TS_CAL2_TEMP cal - TS_CAL1_TEMP cal))
                          sdiv sint (TS_CAL2 cal - TS_CAL1 cal))
             + TS_CAL1_TEMP cal :: u32) :: s8)"
  let ?ctx3 = "?ctx2\<lparr>tmcu_degrees := t\<rparr>"
  have tmc: "ADC1_compute_tmcu cal env h3 ?ctx2 = Inr (ADC_SUCCESS, h4, ?ctx3)"
    using compute_tmcu_ok [OF tm cal, of ?ctx2] unfolding t_def by simp
  define qu where "qu = (ADC_VREFINT_VOLTAGE_MV cal * raw_vusb * 2) div vrefint_raw"
  define ctx4 where "ctx4 = ?ctx3\<lparr>data := (data ?ctx3)[ADC_DATA_INDEX_VUSB_MV := qu]\<rparr>"
  have usc: "ADC1_compute_vusb cal env h4 ?ctx3 = Inr (ADC_SUCCESS, h5, ctx4)"
    using compute_vusb_ok [OF us, of ?ctx3 cal] nz
    by (simp add: qu_def ctx4_def ADC_VOLTAGE_DIVIDER_RATIO_VUSB_def)
  note pre = en wk compute_vrefint_ok [OF vr] vm tmc usc
  from wf have len: "length (data ctx) = 3" by (simp add: ADC_context_wf_def const_defs)
  have c4: "vrefint_12bits ctx4 = vrefint_raw" "data ctx4 ! ADC_DATA_INDEX_VUSB_MV = qu"
    "data ctx4 ! ADC_DATA_INDEX_VRS_MV = data ctx ! ADC_DATA_INDEX_VRS_MV"
    "length (data ctx4) = 3"
    using len by (simp_all add: ctx4_def const_defs)
  have vu: "uint qu = spec_channel_mV (uint (ADC_VREFINT_VOLTAGE_MV cal)) (uint raw_vusb) 2
      (uint vrefint_raw)"
    unfolding qu_def by (rule channel_word_arith [OF fu])
  note vv = vref_voltage_uint [OF fit]
  obtain st6 r6 x6 where rsfc: "ADC1_filtered_conversion env ADC_CHANNEL_VRS (Some 0) h5 = (st6, r6, x6)"
    by (cases "ADC1_filtered_conversion env ADC_CHANNEL_VRS (Some 0) h5")
  show ?thesis
  proof (cases "st6 = ADC_SUCCESS")
    case False
    from compute_vrs_failed [OF rsfc False, of cal ctx4] acquire_vrs [OF pre]
    have "ADC1_acquire cal env h ctx = Inr (st6, x6, ctx4)" by simp
    then have run: "ADC1_perform_measurements cal env h ctx
        = Inr (st6, ADC1_switch_off env x6, ctx4)" by (rule perform_eq)
    show ?thesis
    proof (intro exI [of _ st6] exI [of _ "ADC1_switch_off env x6"] exI [of _ ctx4] conjI impI)
      show "ADC1_perform_measurements cal env h ctx
        = Inr (st6, ADC1_switch_off env x6, ctx4)" by (rule run)
    qed (use False rsfc c4 vu vv in simp_all)
  next
    case True
    from filtered_conversion_run(3) [OF channels_valid(4) rsfc] True
    obtain v where r6: "r6 = Some v" by auto
    define qr where "qr = (ADC_VREFINT_VOLTAGE_MV cal * v * 2) div vrefint_raw"
    define ctx5 where "ctx5 = ctx4\<lparr>data := (data ctx4)[ADC_DATA_INDEX_VRS_MV := qr]\<rparr>"
    have nz4: "vrefint_12bits ctx4 \<noteq> 0" using nz c4(1) by simp
    from compute_vrs_ok [OF rsfc [unfolded True r6] nz4, of cal] acquire_vrs [OF pre]
    have "ADC1_acquire cal env h ctx = Inr (ADC_SUCCESS, x6, ctx5)"
      by (simp add: ctx5_def qr_def c4(1) ADC_VOLTAGE_DIVIDER_RATIO_VRS_def)
    then have run: "ADC1_perform_measurements cal env h ctx
        = Inr (ADC_SUCCESS, ADC1_switch_off env x6, ctx5)" by (rule perform_eq)
    have c5: "vrefint_12bits ctx5 = vrefint_raw" "data ctx5 ! ADC_DATA_INDEX_VUSB_MV = qu"
      "data ctx5 ! ADC_DATA_INDEX_VRS_MV = qr"
      using c4 by (simp_all add: ctx5_def const_defs)
    have vrs: "uint qr = spec_channel_mV (uint (ADC_VREFINT_VOLTAGE_MV cal)) (uint raw_vrs) 2
        (uint vrefint_raw)"
      if "v = raw_vrs" "uint (ADC_VREFINT_VOLTAGE_MV cal) * uint raw_vrs * 2 < 2 ^ 32"
      unfolding qr_def that(1) by (rule channel_word_arith [OF that(2)])
    show ?thesis
    proof (intro exI [of _ ADC_SUCCESS] exI [of _ "ADC1_switch_off env x6"] exI [of _ ctx5]
        conjI impI)
      show "ADC1_perform_measurements cal env h ctx
        = Inr (ADC_SUCCESS, ADC1_switch_off env x6, ctx5)" by (rule run)
    qed (use True rsfc r6 c5 vu vv vrs in auto)
  qed
qed

theorem channel_voltages_stored_witness:
  "(\<exists>h' ctx'. ADC1_perform_measurements cal_example env_prompt hw_start ctx_example
                 = Inr (ADC_SUCCESS, h', ctx')
     \<and> vrefint_12bits ctx' = 1500
     \<and> uint (ADC_VREFINT_VOLTAGE_MV cal_example) = 1224
     \<and> uint (data ctx' ! ADC_DATA_INDEX_VUSB_MV) = 2448
     \<and> uint (data ctx' ! ADC_DATA_INDEX_VRS_MV) = 2448)
   \<and> (\<exists>h' ctx'. ADC1_perform_measurements cal_example env_vrs_timeout hw_start ctx_example
                 = Inr (ADC_ERROR_TIMEOUT, h', ctx')
     \<and> vrefint_12bits ctx' = 1500
     \<and> uint (data ctx' ! ADC_DATA_INDEX_VUSB_MV) = 2448
     \<and> data ctx' ! ADC_DATA_INDEX_VRS_MV = 12)"
proof -
  have nz: "(1500 :: u32) \<noteq> 0" by simp
  have cal: "TS_VCC_CALIB_MV cal_example \<noteq> 0" "TS_CAL2 cal_example \<noteq> TS_CAL1 cal_example"
    by (simp_all add: cal_example_def)
  have fit: "uint (VREFINT_CAL cal_example) * uint (VREFINT_VCC_CALIB_MV cal_example) < 2 ^ 31"
    by (simp add: cal_example_def)
  have v: "uint (ADC_VREFINT_VOLTAGE_MV cal_example) = 1224"
    by (simp add: ADC_VREFINT_VOLTAGE_MV_def ADC_FULL_SCALE_12BITS_def cal_example_def)
  have f: "uint (ADC_VREFINT_VOLTAGE_MV cal_example) * uint (1500 :: u32) * 2 < 2 ^ 32"
    unfolding v by simp
  have wf: "ADC_context_wf ctx_example"
    by (simp add: ADC_context_wf_def ctx_example_def const_defs)
  have m: "spec_channel_mV 1224 (uint (1500 :: u32)) 2 (uint (1500 :: u32)) = 2448"
    by (simp add: spec_channel_mV_def)
  have all: "\<exists>h' ctx'. ADC1_perform_measurements cal_example env_prompt hw_start ctx_example
                 = Inr (ADC_SUCCESS, h', ctx')
     \<and> vrefint_12bits ctx' = 1500
     \<and> uint (ADC_VREFINT_VOLTAGE_MV cal_example) = 1224
     \<and> uint (data ctx' ! ADC_DATA_INDEX_VUSB_MV) = 2448
     \<and> uint (data ctx' ! ADC_DATA_INDEX_VRS_MV) = 2448"
  proof -
    obtain h1 h2 h3 h4 h5 h6 where en: "ADC1_enable env_prompt hw_start = (ADC_SUCCESS, h1)"
      and wk: "ADC1_wake_up env_prompt h1 = (LPTIM_SUCCESS, h2)"
      and vr: "ADC1_filtered_conversion env_prompt ADC_CHANNEL_VREFINT
                 (Some (vrefint_12bits ctx_example)) h2 = (ADC_SUCCESS, Some 1500, h3)"
      and tm: "ADC1_filtered_conversion env_prompt ADC_CHANNEL_TMCU (Some 0) h3
                 = (ADC_SUCCESS, Some 1500, h4)"
      and us: "ADC1_filtered_conversion env_prompt ADC_CHANNEL_VUSB (Some 0) h4
                 = (ADC_SUCCESS, Some 1500, h5)"
      and rs: "ADC1_filtered_conversion env_prompt ADC_CHANNEL_VRS (Some 0) h5
                 = (ADC_SUCCESS, Some 1500, h6)"
      by (rule run_all_shown [of env_prompt 1500 "vrefint_12bits ctx_example"])
         (simp_all add: env_prompt_def)
    from channel_voltages_stored [OF en wk vr nz tm us cal fit f wf, where raw_vrs = 1500 and ?h6.0 = h6] rs f
    show ?thesis unfolding v m by auto
  qed
  have part: "\<exists>h' ctx'. ADC1_perform_measurements cal_example env_vrs_timeout hw_start ctx_example
                 = Inr (ADC_ERROR_TIMEOUT, h', ctx')
     \<and> vrefint_12bits ctx' = 1500
     \<and> uint (data ctx' ! ADC_DATA_INDEX_VUSB_MV) = 2448
     \<and> data ctx' ! ADC_DATA_INDEX_VRS_MV = 12"
  proof -
    obtain h1 h2 h3 h4 h5 where en: "ADC1_enable env_vrs_timeout hw_start = (ADC_SUCCESS, h1)"
      and wk: "ADC1_wake_up env_vrs_timeout h1 = (LPTIM_SUCCESS, h2)"
      and vr: "ADC1_filtered_conversion env_vrs_timeout ADC_CHANNEL_VREFINT
                 (Some (vrefint_12bits ctx_example)) h2 = (ADC_SUCCESS, Some 1500, h3)"
      and tm: "ADC1_filtered_conversion env_vrs_timeout ADC_CHANNEL_TMCU (Some 0) h3
                 = (ADC_SUCCESS, Some 1500, h4)"
      and us: "ADC1_filtered_conversion env_vrs_timeout ADC_CHANNEL_VUSB (Some 0) h4
                 = (ADC_SUCCESS, Some 1500, h5)"
      and r5: "reads h5 = 165"
      by (rule run_to_vrs [of env_vrs_timeout 1500 "vrefint_12bits ctx_example"])
         (simp_all add: env_vrs_timeout_def)
    have "\<exists>h'. ADC1_filtered_conversion env_vrs_timeout ADC_CHANNEL_VRS (Some 0) h5
        = (ADC_ERROR_TIMEOUT, Some 0, h')"
      by (rule filtered_conversion_never [OF channels_valid(4)])
         (use r5 in \<open>simp add: env_vrs_timeout_def\<close>)
    then have rs: "fst (ADC1_filtered_conversion env_vrs_timeout ADC_CHANNEL_VRS (Some 0) h5)
        = ADC_ERROR_TIMEOUT" by auto
    have old: "data ctx_example ! ADC_DATA_INDEX_VRS_MV = 12"
      by (simp add: ctx_example_def const_defs)
    from channel_voltages_stored [OF en wk vr nz tm us cal fit f wf, where raw_vrs = 0 and ?h6.0 = h5] rs old
    show ?thesis unfolding v m by auto
  qed
  from all part show ?thesis by (rule conjI)
qed


theorem channel_voltages_counterexample:
  "map_option data
     (result_context (ADC1_perform_measurements cal_example env_prompt hw_start ctx_example))
     = Some [3342, 2448, 2448]
   \<and> map_option vrefint_12bits
     (result_context (ADC1_perform_measurements cal_example env_prompt hw_start ctx_example))
     = Some 1500
   \<and> spec_channel_mV (spec_supply_mV 1671 3000 1500) 1500 2 1500 = 6684"
  using prompt_run_example by (simp add: spec_channel_mV_def spec_supply_mV_def)

subsection \<open>Teardown and first error\<close>

lemma enable_never:
  assumes "\<And>t. reg_value env t ISR AND push_bit 0 1 = 0"
  shows "\<exists>h'. ADC1_enable env h = (ADC_ERROR_TIMEOUT, h')"
proof -
  have "fst (busy_wait (adrdy_clear env) 0 (reg_or env CR (push_bit 0 1) h))"
  proof (rule busy_wait_never [where P = "\<lambda>x. True"])
    show "fst (adrdy_clear env x) \<and> True" for x
      using assms [of "reads x"] by (simp add: adrdy_clear_def reg_read_def)
  qed simp
  then show ?thesis
    by (auto simp add: ADC1_enable_def Let_def split: prod.splits)
qed

lemma run_to_vusb:
  assumes rdy: "reg_value env 1 ISR AND push_bit 0 1 \<noteq> 0"
    and dly: "delay_status env 3 = LPTIM_SUCCESS"
    and eoc: "\<And>t. t < 111 \<Longrightarrow> reg_value env t ISR AND push_bit 2 1 \<noteq> 0"
    and dr: "\<And>t. reg_value env t DR = c"
  obtains h1 h2 h3 h4 where "ADC1_enable env hw_start = (ADC_SUCCESS, h1)"
    "ADC1_wake_up env h1 = (LPTIM_SUCCESS, h2)"
    "ADC1_filtered_conversion env ADC_CHANNEL_VREFINT (Some old) h2 = (ADC_SUCCESS, Some c, h3)"
    "ADC1_filtered_conversion env ADC_CHANNEL_TMCU (Some 0) h3 = (ADC_SUCCESS, Some c, h4)"
    "reads h4 = 111"
proof -
  have eoc': "\<And>t. t < 57 \<Longrightarrow> reg_value env t ISR AND push_bit 2 1 \<noteq> 0"
    using eoc by simp
  obtain h1 h2 h3 where a: "ADC1_enable env hw_start = (ADC_SUCCESS, h1)"
    "ADC1_wake_up env h1 = (LPTIM_SUCCESS, h2)"
    "ADC1_filtered_conversion env ADC_CHANNEL_VREFINT (Some old) h2 = (ADC_SUCCESS, Some c, h3)"
    and r3: "reads h3 = 57"
    by (rule run_to_vrefint [OF rdy dly eoc' dr])
  have "\<exists>h'. ADC1_filtered_conversion env ADC_CHANNEL_TMCU (Some 0) h3
      = (ADC_SUCCESS, Some c, h') \<and> reads h' = reads h3 + 54"
    by (rule filtered_conversion_shown [OF channels_valid(2)]) (use r3 eoc dr in auto)
  then obtain h4 where b: "ADC1_filtered_conversion env ADC_CHANNEL_TMCU (Some 0) h3
      = (ADC_SUCCESS, Some c, h4)" and r4: "reads h4 = 111"
    using r3 by auto
  from a b r4 that show ?thesis by blast
qed

lemma acquire_outcome:
  assumes cal: "TS_VCC_CALIB_MV cal \<noteq> 0" "TS_CAL2 cal \<noteq> TS_CAL1 cal"
  shows "((\<exists>st x c. ADC1_acquire cal env h ctx = Inr (st, x, c))
          \<and> \<not> (\<exists>h1 h2 h3. ADC1_enable env h = (ADC_SUCCESS, h1)
                  \<and> ADC1_wake_up env h1 = (LPTIM_SUCCESS, h2)
                  \<and> ADC1_filtered_conversion env ADC_CHANNEL_VREFINT (Some (vrefint_12bits ctx)) h2
                      = (ADC_SUCCESS, Some 0, h3)))
       \<or> (ADC1_acquire cal env h ctx = Inl DivisionByZero
          \<and> (\<exists>h1 h2 h3. ADC1_enable env h = (ADC_SUCCESS, h1)
                  \<and> ADC1_wake_up env h1 = (LPTIM_SUCCESS, h2)
                  \<and> ADC1_filtered_conversion env ADC_CHANNEL_VREFINT (Some (vrefint_12bits ctx)) h2
                      = (ADC_SUCCESS, Some 0, h3)))"
proof -
  obtain st0 h1 where en: "ADC1_enable env h = (st0, h1)" by (cases "ADC1_enable env h")
  obtain e h2 where wk: "ADC1_wake_up env h1 = (e, h2)" by (cases "ADC1_wake_up env h1")
  obtain st3 r3 h3 where fc: "ADC1_filtered_conversion env ADC_CHANNEL_VREFINT
      (Some (vrefint_12bits ctx)) h2 = (st3, r3, h3)"
    by (cases "ADC1_filtered_conversion env ADC_CHANNEL_VREFINT (Some (vrefint_12bits ctx)) h2")
  show ?thesis
  proof (cases "st0 = ADC_SUCCESS")
    case False
    from acquire_enable_failed [OF en False, of cal ctx] False en show ?thesis by auto
  next
    case en_ok: True
    show ?thesis
    proof (cases "e = LPTIM_SUCCESS")
      case False
      from acquire_delay_failed [OF en [unfolded en_ok] wk False, of cal ctx] False en wk
      show ?thesis by auto
    next
      case wk_ok: True
      note pre = en [unfolded en_ok] wk [unfolded wk_ok]
      show ?thesis
      proof (cases "st3 = ADC_SUCCESS")
        case False
        from fc have vr: "ADC1_compute_vrefint env h2 ctx
            = (st3, h3, case r3 of Some v \<Rightarrow> ctx\<lparr>vrefint_12bits := v\<rparr> | None \<Rightarrow> ctx)"
          by (simp add: ADC1_compute_vrefint_def)
        from acquire_vrefint_failed [OF pre vr False, of cal] False pre fc
        show ?thesis by auto
      next
        case True
        with filtered_conversion_run(3) [OF channels_valid(1) fc] obtain v where
          r3: "r3 = Some v" by auto
        note fc' = fc [unfolded True r3]
        show ?thesis
        proof (cases "v = 0")
          case True
          have "ADC1_compute_vmcu cal (ctx\<lparr>vrefint_12bits := 0\<rparr>) = Inl DivisionByZero"
            by (simp add: compute_vmcu_eq)
          from acquire_vmcu_fault [OF pre compute_vrefint_ok [OF fc' [unfolded True]] this]
            pre fc' True
          show ?thesis by blast
        next
          case False
          have nzero: "\<not> (\<exists>h1 h2 h3. ADC1_enable env h = (ADC_SUCCESS, h1)
                  \<and> ADC1_wake_up env h1 = (LPTIM_SUCCESS, h2)
                  \<and> ADC1_filtered_conversion env ADC_CHANNEL_VREFINT (Some (vrefint_12bits ctx)) h2
                      = (ADC_SUCCESS, Some 0, h3))"
            using pre fc' False by auto
          show ?thesis
          proof (rule acquire_nonzero [OF pre fc' False cal], goal_cases)
            case (1 st x c)
            with nzero show ?case by blast
          qed
        qed
      qed
    qed
  qed
qed

lemma compute_vrefint_failed:
  assumes "ADC1_filtered_conversion env ADC_CHANNEL_VREFINT (Some (vrefint_12bits ctx)) h
             = (st, r, h')"
    and "st \<noteq> ADC_SUCCESS"
  shows "ADC1_compute_vrefint env h ctx = (st, h', ctx)"
proof -
  from filtered_conversion_run(3) [OF channels_valid(1) assms(1)] assms(2)
  have "r = Some (vrefint_12bits ctx)" by auto
  with assms(1) show ?thesis by (simp add: ADC1_compute_vrefint_def)
qed

text \<open>
  C1, as the code has it. A run of \<open>ADC1_perform_measurements\<close> that returns has the
  teardown as the last events of its trace (sources off, analog-enable output low when
  the board has it, converter disabled), and its status and context are those the
  acquisition had when it reached the label \<open>errors:\<close>. The acquisition stops at the
  first step that fails: the ready wait, the settling delay, the bandgap, temperature,
  USB-sense or resistor-sense acquisition; the status returned is that step's, and the
  teardown follows the state that step left, so that no later step ran. When every
  step succeeds the status is \<open>ADC_SUCCESS\<close> and the teardown follows the last
  acquisition. With non-zero calibration divisors a run returns exactly when the
  bandgap acquisition does not succeed with the reading 0; when it does, the run
  divides by zero in the supply-voltage derivation, before the teardown.
\<close>

theorem perform_measurements_teardown:
  "(case ADC1_perform_measurements cal env h ctx of
      Inl f \<Rightarrow> f = DivisionByZero
    | Inr (status, h', ctx') \<Rightarrow>
        teardown_ran env (trace h')
        \<and> (\<exists>h1. ADC1_acquire cal env h ctx = Inr (status, h1, ctx') \<and> h' = ADC1_switch_off env h1))
   \<and> (TS_VCC_CALIB_MV cal \<noteq> 0 \<and> TS_CAL2 cal \<noteq> TS_CAL1 cal \<longrightarrow>
        ((\<exists>status h' ctx'. ADC1_perform_measurements cal env h ctx = Inr (status, h', ctx'))
         \<longleftrightarrow> \<not> (\<exists>h1 h2 h3. ADC1_enable env h = (ADC_SUCCESS, h1)
                  \<and> ADC1_wake_up env h1 = (LPTIM_SUCCESS, h2)
                  \<and> ADC1_filtered_conversion env ADC_CHANNEL_VREFINT (Some (vrefint_12bits ctx)) h2
                      = (ADC_SUCCESS, Some 0, h3))))
   \<and> (ADC1_enable env h = (st, h1) \<and> st \<noteq> ADC_SUCCESS \<longrightarrow>
        ADC1_perform_measurements cal env h ctx = Inr (st, ADC1_switch_off env h1, ctx))
   \<and> (ADC1_enable env h = (ADC_SUCCESS, h1) \<and> ADC1_wake_up env h1 = (e, h2)
        \<and> e \<noteq> LPTIM_SUCCESS \<longrightarrow>
        ADC1_perform_measurements cal env h ctx
          = Inr (ADC_ERROR_BASE_LPTIM e, ADC1_switch_off env h2, ctx))
   \<and> (ADC1_enable env h = (ADC_SUCCESS, h1) \<and> ADC1_wake_up env h1 = (LPTIM_SUCCESS, h2)
        \<and> ADC1_filtered_conversion env ADC_CHANNEL_VREFINT (Some (vrefint_12bits ctx)) h2
            = (st, r3, h3) \<and> st \<noteq> ADC_SUCCESS \<longrightarrow>
        ADC1_perform_measurements cal env h ctx = Inr (st, ADC1_switch_off env h3, ctx))
   \<and> (ADC1_enable env h = (ADC_SUCCESS, h1) \<and> ADC1_wake_up env h1 = (LPTIM_SUCCESS, h2)
        \<and> ADC1_filtered_conversion env ADC_CHANNEL_VREFINT (Some (vrefint_12bits ctx)) h2
            = (ADC_SUCCESS, Some 0, h3) \<longrightarrow>
        ADC1_perform_measurements cal env h ctx = Inl DivisionByZero)
   \<and> (ADC1_enable env h = (ADC_SUCCESS, h1) \<and> ADC1_wake_up env h1 = (LPTIM_SUCCESS, h2)
        \<and> ADC1_filtered_conversion env ADC_CHANNEL_VREFINT (Some (vrefint_12bits ctx)) h2
            = (ADC_SUCCESS, Some v, h3) \<and> v \<noteq> 0
        \<and> ADC1_filtered_conversion env ADC_CHANNEL_TMCU (Some 0) h3 = (st, r4, h4)
        \<and> st \<noteq> ADC_SUCCESS \<longrightarrow>
        (\<exists>ctx'. ADC1_perform_measurements cal env h ctx = Inr (st, ADC1_switch_off env h4, ctx')))
   \<and> (ADC1_enable env h = (ADC_SUCCESS, h1) \<and> ADC1_wake_up env h1 = (LPTIM_SUCCESS, h2)
        \<and> ADC1_filtered_conversion env ADC_CHANNEL_VREFINT (Some (vrefint_12bits ctx)) h2
            = (ADC_SUCCESS, Some v, h3) \<and> v \<noteq> 0
        \<and> TS_VCC_CALIB_MV cal \<noteq> 0 \<and> TS_CAL2 cal \<noteq> TS_CAL1 cal
        \<and> ADC1_filtered_conversion env ADC_CHANNEL_TMCU (Some 0) h3 = (ADC_SUCCESS, r4, h4)
        \<and> ADC1_filtered_conversion env ADC_CHANNEL_VUSB (Some 0) h4 = (st, r5, h5)
        \<and> st \<noteq> ADC_SUCCESS \<longrightarrow>
        (\<exists>ctx'. ADC1_perform_measurements cal env h ctx = Inr (st, ADC1_switch_off env h5, ctx')))
   \<and> (ADC1_enable env h = (ADC_SUCCESS, h1) \<and> ADC1_wake_up env h1 = (LPTIM_SUCCESS, h2)
        \<and> ADC1_filtered_conversion env ADC_CHANNEL_VREFINT (Some (vrefint_12bits ctx)) h2
            = (ADC_SUCCESS, Some v, h3) \<and> v \<noteq> 0
        \<and> TS_VCC_CALIB_MV cal \<noteq> 0 \<and> TS_CAL2 cal \<noteq> TS_CAL1 cal
        \<and> ADC1_filtered_conversion env ADC_CHANNEL_TMCU (Some 0) h3 = (ADC_SUCCESS, r4, h4)
        \<and> ADC1_filtered_conversion env ADC_CHANNEL_VUSB (Some 0) h4 = (ADC_SUCCESS, r5, h5)
        \<and> ADC1_filtered_conversion env ADC_CHANNEL_VRS (Some 0) h5 = (st, r6, h6) \<longrightarrow>
        (\<exists>ctx'. ADC1_perform_measurements cal env h ctx = Inr (st, ADC1_switch_off env h6, ctx')))"
proof -
  have ret: "(case ADC1_perform_measurements cal env h ctx of
      Inl f \<Rightarrow> f = DivisionByZero
    | Inr (status, h', ctx') \<Rightarrow>
        teardown_ran env (trace h')
        \<and> (\<exists>h1. ADC1_acquire cal env h ctx = Inr (status, h1, ctx') \<and> h' = ADC1_switch_off env h1))"
  proof (cases "ADC1_acquire cal env h ctx")
    case (Inl f)
    with acquire_fault [OF Inl] show ?thesis by (simp add: perform_eq)
  next
    case (Inr res)
    obtain s x c where res: "res = (s, x, c)" by (cases res)
    with Inr show ?thesis by (simp add: perform_eq switch_off_teardown)
  qed
  have iff: "(\<exists>status h' ctx'. ADC1_perform_measurements cal env h ctx = Inr (status, h', ctx'))
         \<longleftrightarrow> \<not> (\<exists>h1 h2 h3. ADC1_enable env h = (ADC_SUCCESS, h1)
                  \<and> ADC1_wake_up env h1 = (LPTIM_SUCCESS, h2)
                  \<and> ADC1_filtered_conversion env ADC_CHANNEL_VREFINT (Some (vrefint_12bits ctx)) h2
                      = (ADC_SUCCESS, Some 0, h3))"
    if cal: "TS_VCC_CALIB_MV cal \<noteq> 0" "TS_CAL2 cal \<noteq> TS_CAL1 cal"
    using acquire_outcome [OF cal, of env h ctx]
  proof (elim disjE conjE exE)
    fix st x c
    assume "ADC1_acquire cal env h ctx = Inr (st, x, c)"
      and nz: "\<not> (\<exists>h1 h2 h3. ADC1_enable env h = (ADC_SUCCESS, h1)
                  \<and> ADC1_wake_up env h1 = (LPTIM_SUCCESS, h2)
                  \<and> ADC1_filtered_conversion env ADC_CHANNEL_VREFINT (Some (vrefint_12bits ctx)) h2
                      = (ADC_SUCCESS, Some 0, h3))"
    then have "ADC1_perform_measurements cal env h ctx = Inr (st, ADC1_switch_off env x, c)"
      by (simp add: perform_eq)
    with nz show ?thesis by simp
  next
    fix x1 x2 x3
    assume "ADC1_acquire cal env h ctx = Inl DivisionByZero"
      and z: "ADC1_enable env h = (ADC_SUCCESS, x1)" "ADC1_wake_up env x1 = (LPTIM_SUCCESS, x2)"
        "ADC1_filtered_conversion env ADC_CHANNEL_VREFINT (Some (vrefint_12bits ctx)) x2
           = (ADC_SUCCESS, Some 0, x3)"
    then have "ADC1_perform_measurements cal env h ctx = Inl DivisionByZero"
      by (simp add: perform_eq)
    with z show ?thesis by auto
  qed
  have e1: "ADC1_perform_measurements cal env h ctx = Inr (st, ADC1_switch_off env h1, ctx)"
    if "ADC1_enable env h = (st, h1)" "st \<noteq> ADC_SUCCESS"
    using that by (simp add: perform_eq acquire_enable_failed)
  have e3: "ADC1_perform_measurements cal env h ctx
          = Inr (ADC_ERROR_BASE_LPTIM e, ADC1_switch_off env h2, ctx)"
    if "ADC1_enable env h = (ADC_SUCCESS, h1)" "ADC1_wake_up env h1 = (e, h2)" "e \<noteq> LPTIM_SUCCESS"
    using that by (simp add: perform_eq acquire_delay_failed)
  have e4: "ADC1_perform_measurements cal env h ctx = Inr (st, ADC1_switch_off env h3, ctx)"
    if "ADC1_enable env h = (ADC_SUCCESS, h1)" "ADC1_wake_up env h1 = (LPTIM_SUCCESS, h2)"
      "ADC1_filtered_conversion env ADC_CHANNEL_VREFINT (Some (vrefint_12bits ctx)) h2
            = (st, r3, h3)" "st \<noteq> ADC_SUCCESS"
    using acquire_vrefint_failed [OF that(1,2) compute_vrefint_failed [OF that(3,4)] that(4)]
    by (rule perform_eq)
  have e5: "ADC1_perform_measurements cal env h ctx = Inl DivisionByZero"
    if "ADC1_enable env h = (ADC_SUCCESS, h1)" "ADC1_wake_up env h1 = (LPTIM_SUCCESS, h2)"
      "ADC1_filtered_conversion env ADC_CHANNEL_VREFINT (Some (vrefint_12bits ctx)) h2
            = (ADC_SUCCESS, Some 0, h3)"
  proof -
    have "ADC1_compute_vmcu cal (ctx\<lparr>vrefint_12bits := 0\<rparr>) = Inl DivisionByZero"
      by (simp add: compute_vmcu_eq)
    from acquire_vmcu_fault [OF that(1,2) compute_vrefint_ok [OF that(3)] this]
    show ?thesis by (rule perform_eq)
  qed
  define ctx2 where "ctx2 = ctx\<lparr>vrefint_12bits := v,
      data := (data ctx)[ADC_DATA_INDEX_VMCU_MV :=
                 (VREFINT_CAL cal * VREFINT_VCC_CALIB_MV cal) div v]\<rparr>"
  have vm: "ADC1_compute_vmcu cal (ctx\<lparr>vrefint_12bits := v\<rparr>) = Inr ctx2" if "v \<noteq> 0"
    using that by (simp add: compute_vmcu_eq ctx2_def)
  have nz2: "vrefint_12bits ctx2 = v" by (simp add: ctx2_def)
  have e6: "\<exists>ctx'. ADC1_perform_measurements cal env h ctx = Inr (st, ADC1_switch_off env h4, ctx')"
    if "ADC1_enable env h = (ADC_SUCCESS, h1)" "ADC1_wake_up env h1 = (LPTIM_SUCCESS, h2)"
      "ADC1_filtered_conversion env ADC_CHANNEL_VREFINT (Some (vrefint_12bits ctx)) h2
            = (ADC_SUCCESS, Some v, h3)" "v \<noteq> 0"
      "ADC1_filtered_conversion env ADC_CHANNEL_TMCU (Some 0) h3 = (st, r4, h4)"
      "st \<noteq> ADC_SUCCESS"
  proof -
    from acquire_tmcu_failed [OF that(1,2) compute_vrefint_ok [OF that(3)] vm [OF that(4)]
        compute_tmcu_failed [OF that(5,6)] that(6)]
    have "ADC1_perform_measurements cal env h ctx = Inr (st, ADC1_switch_off env h4, ctx2)"
      by (rule perform_eq)
    then show ?thesis by blast
  qed
  have tmc: "\<exists>ctx3. ADC1_compute_tmcu cal env h3 ctx2 = Inr (ADC_SUCCESS, h4, ctx3)
                \<and> vrefint_12bits ctx3 = v"
    if "TS_VCC_CALIB_MV cal \<noteq> 0" "TS_CAL2 cal \<noteq> TS_CAL1 cal"
      "ADC1_filtered_conversion env ADC_CHANNEL_TMCU (Some 0) h3 = (ADC_SUCCESS, r4, h4)"
  proof -
    from filtered_conversion_run(3) [OF channels_valid(2) that(3)] obtain raw where
      "r4 = Some raw" by auto
    from compute_tmcu_ok [OF that(3) [unfolded this] that(1,2), of ctx2] nz2
    show ?thesis by auto
  qed
  have e7: "\<exists>ctx'. ADC1_perform_measurements cal env h ctx = Inr (st, ADC1_switch_off env h5, ctx')"
    if "ADC1_enable env h = (ADC_SUCCESS, h1)" "ADC1_wake_up env h1 = (LPTIM_SUCCESS, h2)"
      "ADC1_filtered_conversion env ADC_CHANNEL_VREFINT (Some (vrefint_12bits ctx)) h2
            = (ADC_SUCCESS, Some v, h3)" "v \<noteq> 0"
      "TS_VCC_CALIB_MV cal \<noteq> 0" "TS_CAL2 cal \<noteq> TS_CAL1 cal"
      "ADC1_filtered_conversion env ADC_CHANNEL_TMCU (Some 0) h3 = (ADC_SUCCESS, r4, h4)"
      "ADC1_filtered_conversion env ADC_CHANNEL_VUSB (Some 0) h4 = (st, r5, h5)"
      "st \<noteq> ADC_SUCCESS"
  proof -
    from tmc [OF that(5,6,7)] obtain ctx3 where
      t: "ADC1_compute_tmcu cal env h3 ctx2 = Inr (ADC_SUCCESS, h4, ctx3)" by blast
    from acquire_vusb_failed [OF that(1,2) compute_vrefint_ok [OF that(3)] vm [OF that(4)] t
        compute_vusb_failed [OF that(8,9)] that(9)]
    have "ADC1_perform_measurements cal env h ctx = Inr (st, ADC1_switch_off env h5, ctx3)"
      by (rule perform_eq)
    then show ?thesis by blast
  qed
  have e8: "\<exists>ctx'. ADC1_perform_measurements cal env h ctx = Inr (st, ADC1_switch_off env h6, ctx')"
    if "ADC1_enable env h = (ADC_SUCCESS, h1)" "ADC1_wake_up env h1 = (LPTIM_SUCCESS, h2)"
      "ADC1_filtered_conversion env ADC_CHANNEL_VREFINT (Some (vrefint_12bits ctx)) h2
            = (ADC_SUCCESS, Some v, h3)" "v \<noteq> 0"
      "TS_VCC_CALIB_MV cal \<noteq> 0" "TS_CAL2 cal \<noteq> TS_CAL1 cal"
      "ADC1_filtered_conversion env ADC_CHANNEL_TMCU (Some 0) h3 = (ADC_SUCCESS, r4, h4)"
      "ADC1_filtered_conversion env ADC_CHANNEL_VUSB (Some 0) h4 = (ADC_SUCCESS, r5, h5)"
      "ADC1_filtered_conversion env ADC_CHANNEL_VRS (Some 0) h5 = (st, r6, h6)"
  proof -
    from tmc [OF that(5,6,7)] obtain ctx3 where
      t: "ADC1_compute_tmcu cal env h3 ctx2 = Inr (ADC_SUCCESS, h4, ctx3)"
      and n3: "vrefint_12bits ctx3 = v" by blast
    from n3 that(4) have nz3: "vrefint_12bits ctx3 \<noteq> 0" by simp
    from filtered_conversion_run(3) [OF channels_valid(3) that(8)] obtain raw5 where
      "r5 = Some raw5" by auto
    from compute_vusb_ok [OF that(8) [unfolded this] nz3, of cal] obtain ctx4 where
      u: "ADC1_compute_vusb cal env h4 ctx3 = Inr (ADC_SUCCESS, h5, ctx4)"
      and n4: "vrefint_12bits ctx4 = vrefint_12bits ctx3" by simp
    from n4 nz3 have nz4: "vrefint_12bits ctx4 \<noteq> 0" by simp
    note a = acquire_vrs [OF that(1,2) compute_vrefint_ok [OF that(3)] vm [OF that(4)] t u]
    have "\<exists>ctx5. ADC1_compute_vrs cal env h5 ctx4 = Inr (st, h6, ctx5)"
    proof (cases "st = ADC_SUCCESS")
      case False
      from compute_vrs_failed [OF that(9) False] show ?thesis by blast
    next
      case True
      from filtered_conversion_run(3) [OF channels_valid(4) that(9)] True obtain raw6 where
        "r6 = Some raw6" by auto
      from compute_vrs_ok [OF that(9) [unfolded this True] nz4, of cal] True
      show ?thesis by simp
    qed
    then obtain ctx5 where "ADC1_compute_vrs cal env h5 ctx4 = Inr (st, h6, ctx5)" by blast
    with a have "ADC1_acquire cal env h ctx = Inr (st, h6, ctx5)" by simp
    then have "ADC1_perform_measurements cal env h ctx = Inr (st, ADC1_switch_off env h6, ctx5)"
      by (rule perform_eq)
    then show ?thesis by blast
  qed
  show ?thesis
  proof (intro conjI impI; (elim conjE)?)
    show "case ADC1_perform_measurements cal env h ctx of
      Inl f \<Rightarrow> f = DivisionByZero
    | Inr (status, h', ctx') \<Rightarrow>
        teardown_ran env (trace h')
        \<and> (\<exists>h1. ADC1_acquire cal env h ctx = Inr (status, h1, ctx') \<and> h' = ADC1_switch_off env h1)"
      by (rule ret)
  qed (erule (1) iff e1 e3 e4 e5 e6 e7 e8; assumption)+
qed

theorem perform_measurements_teardown_witness:
  "(\<exists>h' ctx'. ADC1_perform_measurements cal_example env_prompt hw_start ctx_example
                 = Inr (ADC_SUCCESS, h', ctx')
        \<and> teardown_ran env_prompt (trace h'))
   \<and> (\<exists>h'. ADC1_perform_measurements cal_example env_not_ready hw_start ctx_example
            = Inr (ADC_ERROR_TIMEOUT, h', ctx_example)
        \<and> teardown_ran env_not_ready (trace h'))
   \<and> (\<exists>h'. ADC1_perform_measurements cal_example env_delay_overflow hw_start ctx_example
            = Inr (ADC_ERROR_BASE_LPTIM LPTIM_ERROR_DELAY_OVERFLOW, h', ctx_example)
        \<and> teardown_ran env_delay_overflow (trace h'))
   \<and> (\<exists>h'. ADC1_perform_measurements cal_example env_no_eoc hw_start ctx_example
            = Inr (ADC_ERROR_TIMEOUT, h', ctx_example)
        \<and> teardown_ran env_no_eoc (trace h'))
   \<and> (\<exists>h' ctx'. ADC1_perform_measurements cal_example env_tmcu_timeout hw_start ctx_example
            = Inr (ADC_ERROR_TIMEOUT, h', ctx')
        \<and> teardown_ran env_tmcu_timeout (trace h'))
   \<and> (\<exists>h' ctx'. ADC1_perform_measurements cal_example env_vusb_timeout hw_start ctx_example
            = Inr (ADC_ERROR_TIMEOUT, h', ctx')
        \<and> teardown_ran env_vusb_timeout (trace h'))
   \<and> (\<exists>h' ctx'. ADC1_perform_measurements cal_example env_vrs_timeout hw_start ctx_example
            = Inr (ADC_ERROR_TIMEOUT, h', ctx')
        \<and> teardown_ran env_vrs_timeout (trace h'))"
proof -
  have cal: "TS_VCC_CALIB_MV cal_example \<noteq> 0" "TS_CAL2 cal_example \<noteq> TS_CAL1 cal_example"
    by (simp_all add: cal_example_def)
  have nz: "(1500 :: u32) \<noteq> 0" by simp
  have all_ok: "\<exists>h' ctx'. ADC1_perform_measurements cal_example env_prompt hw_start ctx_example
                 = Inr (ADC_SUCCESS, h', ctx')
        \<and> teardown_ran env_prompt (trace h')"
  proof -
    obtain h1 h2 h3 h4 h5 h6 where en: "ADC1_enable env_prompt hw_start = (ADC_SUCCESS, h1)"
      and wk: "ADC1_wake_up env_prompt h1 = (LPTIM_SUCCESS, h2)"
      and vr: "ADC1_filtered_conversion env_prompt ADC_CHANNEL_VREFINT
                 (Some (vrefint_12bits ctx_example)) h2 = (ADC_SUCCESS, Some 1500, h3)"
      and tm: "ADC1_filtered_conversion env_prompt ADC_CHANNEL_TMCU (Some 0) h3
                 = (ADC_SUCCESS, Some 1500, h4)"
      and us: "ADC1_filtered_conversion env_prompt ADC_CHANNEL_VUSB (Some 0) h4
                 = (ADC_SUCCESS, Some 1500, h5)"
      and rs: "ADC1_filtered_conversion env_prompt ADC_CHANNEL_VRS (Some 0) h5
                 = (ADC_SUCCESS, Some 1500, h6)"
      by (rule run_all_shown [of env_prompt 1500 "vrefint_12bits ctx_example"])
         (simp_all add: env_prompt_def)
    note t = perform_measurements_teardown [where cal = cal_example and env = env_prompt
        and h = hw_start and ctx = ctx_example and st = ADC_SUCCESS and ?h1.0 = h1
        and ?h2.0 = h2 and ?h3.0 = h3 and v = 1500 and ?r4.0 = "Some 1500" and ?h4.0 = h4
        and ?r5.0 = "Some 1500" and ?h5.0 = h5 and ?r6.0 = "Some 1500" and ?h6.0 = h6]
    from t en wk vr tm us rs cal obtain ctx' where
      run: "ADC1_perform_measurements cal_example env_prompt hw_start ctx_example
              = Inr (ADC_SUCCESS, ADC1_switch_off env_prompt h6, ctx')"
      by auto
    with t have "teardown_ran env_prompt (trace (ADC1_switch_off env_prompt h6))"
      by simp
    with run show ?thesis by blast
  qed
  have not_ready: "\<exists>h'. ADC1_perform_measurements cal_example env_not_ready hw_start ctx_example
            = Inr (ADC_ERROR_TIMEOUT, h', ctx_example)
        \<and> teardown_ran env_not_ready (trace h')"
  proof -
    obtain h1 where en: "ADC1_enable env_not_ready hw_start = (ADC_ERROR_TIMEOUT, h1)"
      using enable_never [of env_not_ready hw_start] by (auto simp add: env_not_ready_def)
    note t = perform_measurements_teardown [where cal = cal_example and env = env_not_ready
        and h = hw_start and ctx = ctx_example and st = ADC_ERROR_TIMEOUT and ?h1.0 = h1]
    from t en
    have run: "ADC1_perform_measurements cal_example env_not_ready hw_start ctx_example
        = Inr (ADC_ERROR_TIMEOUT, ADC1_switch_off env_not_ready h1, ctx_example)"
      by simp
    with t have "teardown_ran env_not_ready (trace (ADC1_switch_off env_not_ready h1))"
      by simp
    with run show ?thesis by blast
  qed
  have delay: "\<exists>h'. ADC1_perform_measurements cal_example env_delay_overflow hw_start ctx_example
            = Inr (ADC_ERROR_BASE_LPTIM LPTIM_ERROR_DELAY_OVERFLOW, h', ctx_example)
        \<and> teardown_ran env_delay_overflow (trace h')"
  proof -
    obtain h1 where en: "ADC1_enable env_delay_overflow hw_start = (ADC_SUCCESS, h1)"
      using enable_shown [of env_delay_overflow hw_start] by (auto simp add: env_delay_overflow_def)
    obtain h2 where wk: "ADC1_wake_up env_delay_overflow h1 = (LPTIM_ERROR_DELAY_OVERFLOW, h2)"
      using wake_up_shown [of env_delay_overflow h1] by (auto simp add: env_delay_overflow_def)
    note t = perform_measurements_teardown [where cal = cal_example and env = env_delay_overflow
        and h = hw_start and ctx = ctx_example and ?h1.0 = h1
        and e = LPTIM_ERROR_DELAY_OVERFLOW and ?h2.0 = h2]
    from t en wk
    have run: "ADC1_perform_measurements cal_example env_delay_overflow hw_start ctx_example
        = Inr (ADC_ERROR_BASE_LPTIM LPTIM_ERROR_DELAY_OVERFLOW,
               ADC1_switch_off env_delay_overflow h2, ctx_example)"
      by simp
    with t have "teardown_ran env_delay_overflow (trace (ADC1_switch_off env_delay_overflow h2))"
      by simp
    with run show ?thesis by blast
  qed
  have bandgap: "\<exists>h'. ADC1_perform_measurements cal_example env_no_eoc hw_start ctx_example
            = Inr (ADC_ERROR_TIMEOUT, h', ctx_example)
        \<and> teardown_ran env_no_eoc (trace h')"
  proof -
    obtain h1 where en: "ADC1_enable env_no_eoc hw_start = (ADC_SUCCESS, h1)"
      using enable_shown [of env_no_eoc hw_start] by (auto simp add: env_no_eoc_def)
    obtain h2 where wk: "ADC1_wake_up env_no_eoc h1 = (LPTIM_SUCCESS, h2)"
      using wake_up_shown [of env_no_eoc h1] by (auto simp add: env_no_eoc_def)
    have "\<exists>h'. ADC1_filtered_conversion env_no_eoc ADC_CHANNEL_VREFINT
        (Some (vrefint_12bits ctx_example)) h2
          = (ADC_ERROR_TIMEOUT, Some (vrefint_12bits ctx_example), h')"
      by (rule filtered_conversion_never [OF channels_valid(1)]) (simp add: env_no_eoc_def)
    then obtain h3 where vr: "ADC1_filtered_conversion env_no_eoc ADC_CHANNEL_VREFINT
        (Some (vrefint_12bits ctx_example)) h2
          = (ADC_ERROR_TIMEOUT, Some (vrefint_12bits ctx_example), h3)" by blast
    note t = perform_measurements_teardown [where cal = cal_example and env = env_no_eoc
        and h = hw_start and ctx = ctx_example and st = ADC_ERROR_TIMEOUT and ?h1.0 = h1
        and ?h2.0 = h2 and ?h3.0 = h3 and ?r3.0 = "Some (vrefint_12bits ctx_example)"]
    from t en wk vr
    have run: "ADC1_perform_measurements cal_example env_no_eoc hw_start ctx_example
        = Inr (ADC_ERROR_TIMEOUT, ADC1_switch_off env_no_eoc h3, ctx_example)"
      by simp
    with t have "teardown_ran env_no_eoc (trace (ADC1_switch_off env_no_eoc h3))"
      by simp
    with run show ?thesis by blast
  qed
  have tmcu: "\<exists>h' ctx'. ADC1_perform_measurements cal_example env_tmcu_timeout hw_start ctx_example
            = Inr (ADC_ERROR_TIMEOUT, h', ctx')
        \<and> teardown_ran env_tmcu_timeout (trace h')"
  proof -
    obtain h1 h2 h3 where en: "ADC1_enable env_tmcu_timeout hw_start = (ADC_SUCCESS, h1)"
      and wk: "ADC1_wake_up env_tmcu_timeout h1 = (LPTIM_SUCCESS, h2)"
      and vr: "ADC1_filtered_conversion env_tmcu_timeout ADC_CHANNEL_VREFINT
                 (Some (vrefint_12bits ctx_example)) h2 = (ADC_SUCCESS, Some 1500, h3)"
      and r3: "reads h3 = 57"
      by (rule run_to_vrefint [of env_tmcu_timeout 1500 "vrefint_12bits ctx_example"])
         (simp_all add: env_tmcu_timeout_def)
    have "\<exists>h'. ADC1_filtered_conversion env_tmcu_timeout ADC_CHANNEL_TMCU (Some 0) h3
        = (ADC_ERROR_TIMEOUT, Some 0, h')"
      by (rule filtered_conversion_never [OF channels_valid(2)])
         (use r3 in \<open>simp add: env_tmcu_timeout_def\<close>)
    then obtain h4 where tm: "ADC1_filtered_conversion env_tmcu_timeout ADC_CHANNEL_TMCU (Some 0) h3
        = (ADC_ERROR_TIMEOUT, Some 0, h4)" by blast
    note t = perform_measurements_teardown [where cal = cal_example and env = env_tmcu_timeout
        and h = hw_start and ctx = ctx_example and st = ADC_ERROR_TIMEOUT and ?h1.0 = h1
        and ?h2.0 = h2 and ?h3.0 = h3 and v = 1500 and ?r4.0 = "Some 0" and ?h4.0 = h4]
    from t en wk vr tm nz obtain ctx' where
      run: "ADC1_perform_measurements cal_example env_tmcu_timeout hw_start ctx_example
              = Inr (ADC_ERROR_TIMEOUT, ADC1_switch_off env_tmcu_timeout h4, ctx')"
      by auto
    with t have "teardown_ran env_tmcu_timeout (trace (ADC1_switch_off env_tmcu_timeout h4))"
      by simp
    with run show ?thesis by blast
  qed
  have vusb: "\<exists>h' ctx'. ADC1_perform_measurements cal_example env_vusb_timeout hw_start ctx_example
            = Inr (ADC_ERROR_TIMEOUT, h', ctx')
        \<and> teardown_ran env_vusb_timeout (trace h')"
  proof -
    obtain h1 h2 h3 h4 where en: "ADC1_enable env_vusb_timeout hw_start = (ADC_SUCCESS, h1)"
      and wk: "ADC1_wake_up env_vusb_timeout h1 = (LPTIM_SUCCESS, h2)"
      and vr: "ADC1_filtered_conversion env_vusb_timeout ADC_CHANNEL_VREFINT
                 (Some (vrefint_12bits ctx_example)) h2 = (ADC_SUCCESS, Some 1500, h3)"
      and tm: "ADC1_filtered_conversion env_vusb_timeout ADC_CHANNEL_TMCU (Some 0) h3
                 = (ADC_SUCCESS, Some 1500, h4)"
      and r4: "reads h4 = 111"
      by (rule run_to_vusb [of env_vusb_timeout 1500 "vrefint_12bits ctx_example"])
         (simp_all add: env_vusb_timeout_def)
    have "\<exists>h'. ADC1_filtered_conversion env_vusb_timeout ADC_CHANNEL_VUSB (Some 0) h4
        = (ADC_ERROR_TIMEOUT, Some 0, h')"
      by (rule filtered_conversion_never [OF channels_valid(3)])
         (use r4 in \<open>simp add: env_vusb_timeout_def\<close>)
    then obtain h5 where us: "ADC1_filtered_conversion env_vusb_timeout ADC_CHANNEL_VUSB (Some 0) h4
        = (ADC_ERROR_TIMEOUT, Some 0, h5)" by blast
    note t = perform_measurements_teardown [where cal = cal_example and env = env_vusb_timeout
        and h = hw_start and ctx = ctx_example and st = ADC_ERROR_TIMEOUT and ?h1.0 = h1
        and ?h2.0 = h2 and ?h3.0 = h3 and v = 1500 and ?r4.0 = "Some 1500" and ?h4.0 = h4
        and ?r5.0 = "Some 0" and ?h5.0 = h5]
    from t en wk vr tm us nz cal obtain ctx' where
      run: "ADC1_perform_measurements cal_example env_vusb_timeout hw_start ctx_example
              = Inr (ADC_ERROR_TIMEOUT, ADC1_switch_off env_vusb_timeout h5, ctx')"
      by auto
    with t have "teardown_ran env_vusb_timeout (trace (ADC1_switch_off env_vusb_timeout h5))"
      by simp
    with run show ?thesis by blast
  qed
  have vrs: "\<exists>h' ctx'. ADC1_perform_measurements cal_example env_vrs_timeout hw_start ctx_example
            = Inr (ADC_ERROR_TIMEOUT, h', ctx')
        \<and> teardown_ran env_vrs_timeout (trace h')"
  proof -
    obtain h1 h2 h3 h4 h5 where en: "ADC1_enable env_vrs_timeout hw_start = (ADC_SUCCESS, h1)"
      and wk: "ADC1_wake_up env_vrs_timeout h1 = (LPTIM_SUCCESS, h2)"
      and vr: "ADC1_filtered_conversion env_vrs_timeout ADC_CHANNEL_VREFINT
                 (Some (vrefint_12bits ctx_example)) h2 = (ADC_SUCCESS, Some 1500, h3)"
      and tm: "ADC1_filtered_conversion env_vrs_timeout ADC_CHANNEL_TMCU (Some 0) h3
                 = (ADC_SUCCESS, Some 1500, h4)"
      and us: "ADC1_filtered_conversion env_vrs_timeout ADC_CHANNEL_VUSB (Some 0) h4
                 = (ADC_SUCCESS, Some 1500, h5)"
      and r5: "reads h5 = 165"
      by (rule run_to_vrs [of env_vrs_timeout 1500 "vrefint_12bits ctx_example"])
         (simp_all add: env_vrs_timeout_def)
    have "\<exists>h'. ADC1_filtered_conversion env_vrs_timeout ADC_CHANNEL_VRS (Some 0) h5
        = (ADC_ERROR_TIMEOUT, Some 0, h')"
      by (rule filtered_conversion_never [OF channels_valid(4)])
         (use r5 in \<open>simp add: env_vrs_timeout_def\<close>)
    then obtain h6 where rs: "ADC1_filtered_conversion env_vrs_timeout ADC_CHANNEL_VRS (Some 0) h5
        = (ADC_ERROR_TIMEOUT, Some 0, h6)" by blast
    note t = perform_measurements_teardown [where cal = cal_example and env = env_vrs_timeout
        and h = hw_start and ctx = ctx_example and st = ADC_ERROR_TIMEOUT and ?h1.0 = h1
        and ?h2.0 = h2 and ?h3.0 = h3 and v = 1500 and ?r4.0 = "Some 1500" and ?h4.0 = h4
        and ?r5.0 = "Some 1500" and ?h5.0 = h5 and ?r6.0 = "Some 0" and ?h6.0 = h6]
    from t en wk vr tm us rs nz cal obtain ctx' where
      run: "ADC1_perform_measurements cal_example env_vrs_timeout hw_start ctx_example
              = Inr (ADC_ERROR_TIMEOUT, ADC1_switch_off env_vrs_timeout h6, ctx')"
      by auto
    with t have "teardown_ran env_vrs_timeout (trace (ADC1_switch_off env_vrs_timeout h6))"
      by simp
    with run show ?thesis by blast
  qed
  show ?thesis by (intro conjI all_ok not_ready delay bandgap tmcu vusb vrs)
qed


lemma replicate_nine: "replicate 9 x = [x, x, x, x, x, x, x, x, x]"
  by (simp add: numeral_eq_Suc)

lemma idle_zero_run:
  "ADC1_enable env_idle_zero hw_start = (ADC_SUCCESS, \<lparr>reads = 2, trace = [RegWrite CR 1]\<rparr>)"
  "ADC1_wake_up env_idle_zero \<lparr>reads = 2, trace = [RegWrite CR 1]\<rparr>
     = (LPTIM_SUCCESS, \<lparr>reads = 3, trace = take 4 idle_zero_events\<rparr>)"
  "ADC1_compute_vrefint env_idle_zero \<lparr>reads = 3, trace = take 4 idle_zero_events\<rparr> ctx_example
     = (ADC_SUCCESS, \<lparr>reads = 57, trace = idle_zero_events\<rparr>, ctx_example\<lparr>vrefint_12bits := 0\<rparr>)"
proof -
  show "ADC1_enable env_idle_zero hw_start = (ADC_SUCCESS, \<lparr>reads = 2, trace = [RegWrite CR 1]\<rparr>)"
    by (simp add: ADC1_enable_def Let_def busy_wait.simps adrdy_clear_def hw_defs
        env_idle_zero_def hw_start_def)
  show "ADC1_wake_up env_idle_zero \<lparr>reads = 2, trace = [RegWrite CR 1]\<rparr>
     = (LPTIM_SUCCESS, \<lparr>reads = 3, trace = take 4 idle_zero_events\<rparr>)"
    by (simp add: ADC1_wake_up_def Let_def hw_defs env_idle_zero_def idle_zero_events_def)
  have step: "ADC1_single_conversion env_idle_zero ADC_CHANNEL_VREFINT (Some old) x =
     (ADC_SUCCESS, Some 0, (conv_prefix env_idle_zero ADC_CHANNEL_VREFINT x)\<lparr>reads := reads x + 6\<rparr>)"
    for x old
    using single_conversion_shown [OF channels_valid(1), of env_idle_zero x old]
    by (simp add: env_idle_zero_def)
  have cv: "conversions env_idle_zero ADC_CHANNEL_VREFINT 0 (replicate ADC_MEDIAN_FILTER_SIZE 0)
      \<lparr>reads = 3, trace = take 4 idle_zero_events\<rparr>
      = (ADC_SUCCESS, [0, 0, 0, 0, 0, 0, 0, 0, 0], \<lparr>reads = 57, trace = idle_zero_events\<rparr>)"
    unfolding sample_buf_init
    by (simp add: conversions.simps step ADC_MEDIAN_FILTER_SIZE_def conv_prefix_eq
        idle_zero_events_def replicate_nine)
       (simp add: env_idle_zero_def ADC_CHANNEL_VREFINT_def)
  have "length [0, 0, 0, 0, 0, 0, 0, 0, 0 :: u32] = ADC_MEDIAN_FILTER_SIZE"
    by (simp add: ADC_MEDIAN_FILTER_SIZE_def)
  then have mf: "MATH_median_filter_u32 [0, 0, 0, 0, 0, 0, 0, 0, 0] ADC_MEDIAN_FILTER_SIZE
      ADC_CENTER_AVERAGE_SIZE (Some old) = (MATH_SUCCESS, Some 0)" for old
    by (simp only: median_filter_nine center_average_const)
  from cv mf channels_valid(1)
  show "ADC1_compute_vrefint env_idle_zero \<lparr>reads = 3, trace = take 4 idle_zero_events\<rparr> ctx_example
     = (ADC_SUCCESS, \<lparr>reads = 57, trace = idle_zero_events\<rparr>, ctx_example\<lparr>vrefint_12bits := 0\<rparr>)"
    by (simp add: ADC1_compute_vrefint_def ADC1_filtered_conversion_def)
qed

theorem perform_measurements_teardown_counterexample:
  "ADC1_perform_measurements cal_example env_idle_zero hw_start ctx_example = Inl DivisionByZero
   \<and> ADC1_enable env_idle_zero hw_start = (ADC_SUCCESS, \<lparr>reads = 2, trace = [RegWrite CR 1]\<rparr>)
   \<and> ADC1_wake_up env_idle_zero \<lparr>reads = 2, trace = [RegWrite CR 1]\<rparr>
       = (LPTIM_SUCCESS, \<lparr>reads = 3, trace = take 4 idle_zero_events\<rparr>)
   \<and> ADC1_compute_vrefint env_idle_zero \<lparr>reads = 3, trace = take 4 idle_zero_events\<rparr> ctx_example
       = (ADC_SUCCESS, \<lparr>reads = 57, trace = idle_zero_events\<rparr>, ctx_example\<lparr>vrefint_12bits := 0\<rparr>)
   \<and> ADC1_compute_vmcu cal_example (ctx_example\<lparr>vrefint_12bits := 0\<rparr>) = Inl DivisionByZero
   \<and> filter is_sources_off idle_zero_events = []
   \<and> filter is_disable idle_zero_events = []
   \<and> GpioWrite GPIO_MNTR_EN 0 \<notin> set idle_zero_events
   \<and> \<not> teardown_ran env_idle_zero idle_zero_events"
proof -
  have vm: "ADC1_compute_vmcu cal_example (ctx_example\<lparr>vrefint_12bits := 0\<rparr>) = Inl DivisionByZero"
    by (simp add: compute_vmcu_eq)
  from acquire_vmcu_fault [OF idle_zero_run vm]
  have run: "ADC1_perform_measurements cal_example env_idle_zero hw_start ctx_example
      = Inl DivisionByZero" by (rule perform_eq)
  have ev: "filter is_sources_off idle_zero_events = []" "filter is_disable idle_zero_events = []"
    "GpioWrite GPIO_MNTR_EN 0 \<notin> set idle_zero_events"
    "\<not> teardown_ran env_idle_zero idle_zero_events"
    by (simp_all add: idle_zero_events_def replicate_nine teardown_ran_def env_idle_zero_def)
  from run idle_zero_run vm ev show ?thesis by (intro conjI)
qed

end
